theory Spec2Isabelle
  imports Main "HOL-Library.AList"
begin

section \<open>GLib values and the bus environment\<close>

text \<open>
  The repository holds three programs built on GLib's GDBus:
  \<^item> the multi-bus proxy of \<^verbatim>\<open>DBus_proxy.c\<close> (a \<^verbatim>\<open>ProxyContext\<close> per proxied service);
    its functions keep their source names;
  \<^item> the configuration-file proxy (first program of \<^verbatim>\<open>part_000\<close>, one bus, global
    \<^verbatim>\<open>config\<close>); its functions carry the suffix \<open>_conf\<close>;
  \<^item> the cross-bus proxy (second program of \<^verbatim>\<open>part_000\<close>, global \<^verbatim>\<open>proxy_state\<close>
    with two hash tables); its functions carry the suffix \<open>_cross\<close>.

  GLib and the C library are not part of the repository. Every GLib call that reaches a
  bus, and the one \<^verbatim>\<open>fopen\<close> of the configuration-file proxy, is answered by an
  environment \<open>glib_env\<close>, and every call that has an effect outside the process is
  recorded, in program order, as an \<open>action\<close>. Output on standard error
  (\<^verbatim>\<open>g_printerr\<close>, \<^verbatim>\<open>log_error\<close>) and the failure reports of \<^verbatim>\<open>log_message\<close> are
  actions; purely informational output is left out, and so is the line terminator that
  ends a message.
\<close>

type_synonym connection = nat
type_synonym invocation = nat

datatype GBusType = G_BUS_TYPE_SYSTEM | G_BUS_TYPE_SESSION

record gerror =
  err_domain :: string
  err_code :: int
  err_message :: string

datatype gvariant =
    GV_string string
  | GV_int int
  | GV_bool bool
  | GV_variant gvariant
  | GV_tuple "gvariant list"

text \<open>The two reply types the programs ask for: \<^verbatim>\<open>"(s)"\<close> and \<^verbatim>\<open>"(v)"\<close>.\<close>

datatype reply_type = Reply_s | Reply_v

text \<open>
  \<^verbatim>\<open>GDBusInterfaceInfo\<close>: the name and the NULL-terminated array of signals, which may
  itself be NULL. \<^verbatim>\<open>GDBusNodeInfo\<close>: the array of interfaces, which may be NULL too.
\<close>

record interface_info =
  iface_name :: string
  iface_signals :: "string list option"

record node_info =
  interfaces :: "interface_info list option"

text \<open>
  A C pointer that the program frees: NULL, pointing to a live object, or dangling after
  the object was freed.
\<close>

datatype 'a ptr = Null | Live 'a | Freed

datatype fault = Null_dereference | Use_after_free

datatype action =
    Bus_get GBusType
  | Connect_address string
  | Method_call connection string string string string "gvariant option" int
  | Register_object connection string string nat
  | Signal_subscribe connection string string string string nat
  | Unregister_object connection nat
  | Signal_unsubscribe connection nat
  | Own_name_on_connection connection string
  | Own_name GBusType string
  | Emit_signal connection string string string gvariant
  | Return_value invocation gvariant
  | Return_error invocation gerror
  | Printerr string
  | Log_message string
  | Error_free gerror
  | Node_info_unref
  | Object_unref connection
  | Free_context
  | File_open string
  | Main_loop_run

text \<open>
  The environment answers each call as GLib documents it: a call that reports through a
  \<^verbatim>\<open>GError **\<close> either succeeds or sets the error, never both. Subscribing returns an
  identifier, 0 when GLib rejects the arguments. \<open>fopen_result\<close> tells whether a file can
  be opened for appending.
\<close>

record glib_env =
  bus_get_result :: "GBusType \<Rightarrow> gerror + connection"
  address_result :: "string \<Rightarrow> gerror + connection"
  call_result :: "connection \<Rightarrow> string \<Rightarrow> string \<Rightarrow> string \<Rightarrow> string \<Rightarrow> gvariant option
                  \<Rightarrow> gerror + gvariant"
  xml_result :: "string \<Rightarrow> gerror + node_info"
  register_result :: "connection \<Rightarrow> string \<Rightarrow> string \<Rightarrow> gerror + nat"
  subscribe_result :: "connection \<Rightarrow> string \<Rightarrow> string \<Rightarrow> string \<Rightarrow> string \<Rightarrow> nat"
  emit_result :: "connection \<Rightarrow> string \<Rightarrow> string \<Rightarrow> string \<Rightarrow> gvariant \<Rightarrow> gerror option"
  own_name_result :: "connection \<Rightarrow> string \<Rightarrow> nat"
  fopen_result :: "string \<Rightarrow> bool"

text \<open>
  The GLib functions below return what the C code sees: the returned value, the error
  found set afterwards (the error variable is NULL before the call unless said
  otherwise), and the actions. As GLib is built by default, a function given a NULL
  connection, a NULL error to return or to free, or a \<^verbatim>\<open>GError **\<close> that already holds an
  error, returns at once: it does nothing, returns 0, FALSE or NULL and sets no error.
\<close>

definition G_IO_ERROR :: string where
  "G_IO_ERROR = ''g-io-error-quark''"

definition G_IO_ERROR_FAILED :: int where
  "G_IO_ERROR_FAILED = 0"

definition G_IO_ERROR_INVALID_ARGUMENT :: int where
  "G_IO_ERROR_INVALID_ARGUMENT = 13"

definition g_bus_get_sync ::
  "glib_env \<Rightarrow> GBusType \<Rightarrow> (connection option \<times> gerror option) \<times> action list" where
  "g_bus_get_sync env bus_type =
     ((case bus_get_result env bus_type of
         Inl e \<Rightarrow> (None, Some e)
       | Inr c \<Rightarrow> (Some c, None)),
      [Bus_get bus_type])"

definition g_dbus_connection_new_for_address_sync ::
  "glib_env \<Rightarrow> string \<Rightarrow> (connection option \<times> gerror option) \<times> action list" where
  "g_dbus_connection_new_for_address_sync env address =
     ((case address_result env address of
         Inl e \<Rightarrow> (None, Some e)
       | Inr c \<Rightarrow> (Some c, None)),
      [Connect_address address])"

fun has_reply_type :: "reply_type option \<Rightarrow> gvariant \<Rightarrow> bool" where
  "has_reply_type None v = True"
| "has_reply_type (Some Reply_s) v = (case v of GV_tuple [GV_string s] \<Rightarrow> True | _ \<Rightarrow> False)"
| "has_reply_type (Some Reply_v) v = (case v of GV_tuple [GV_variant x] \<Rightarrow> True | _ \<Rightarrow> False)"

definition reply_type_error :: gerror where
  "reply_type_error =
     \<lparr>err_domain = G_IO_ERROR, err_code = G_IO_ERROR_INVALID_ARGUMENT,
      err_message = ''Method returned a value of an unexpected type''\<rparr>"

text \<open>
  The answer to a method call as \<^verbatim>\<open>g_dbus_connection_call_sync\<close> and
  \<^verbatim>\<open>g_dbus_connection_call_finish\<close> hand it over: the answer of the bus, turned into an
  error when a reply type was asked for and the reply has another type.
\<close>

definition call_answer ::
  "glib_env \<Rightarrow> connection \<Rightarrow> string \<Rightarrow> string \<Rightarrow> string \<Rightarrow> string \<Rightarrow> gvariant option
   \<Rightarrow> reply_type option \<Rightarrow> gvariant option \<times> gerror option" where
  "call_answer env b dest path iface meth params rtype =
     (case call_result env b dest path iface meth params of
        Inl e \<Rightarrow> (None, Some e)
      | Inr v \<Rightarrow> if has_reply_type rtype v then (Some v, None) else (None, Some reply_type_error))"

definition g_dbus_connection_call_sync ::
  "glib_env \<Rightarrow> connection option \<Rightarrow> string \<Rightarrow> string \<Rightarrow> string \<Rightarrow> string \<Rightarrow> gvariant option
   \<Rightarrow> reply_type option \<Rightarrow> int \<Rightarrow> (gvariant option \<times> gerror option) \<times> action list" where
  "g_dbus_connection_call_sync env bus dest path iface meth params rtype timeout =
     (case bus of
        None \<Rightarrow> ((None, None), [])
      | Some b \<Rightarrow>
          (call_answer env b dest path iface meth params rtype,
           [Method_call b dest path iface meth params timeout]))"

text \<open>
  \<^verbatim>\<open>g_dbus_connection_call\<close>: the call goes out, and GLib invokes the callback once, with
  the user data, when the call has completed (with a reply, an error or a timeout);
  \<^verbatim>\<open>g_dbus_connection_call_finish\<close> in the callback then yields the answer. The callback
  gets that answer as its second argument.
\<close>

definition g_dbus_connection_call ::
  "glib_env \<Rightarrow> connection option \<Rightarrow> string \<Rightarrow> string \<Rightarrow> string \<Rightarrow> string \<Rightarrow> gvariant option
   \<Rightarrow> reply_type option \<Rightarrow> int
   \<Rightarrow> ('u \<Rightarrow> gvariant option \<times> gerror option \<Rightarrow> action list) \<Rightarrow> 'u \<Rightarrow> action list" where
  "g_dbus_connection_call env bus dest path iface meth params rtype timeout callback user_data =
     (case bus of
        None \<Rightarrow> []
      | Some b \<Rightarrow>
          Method_call b dest path iface meth params timeout
            # callback user_data (call_answer env b dest path iface meth params rtype))"

definition g_dbus_method_invocation_return_gerror :: "invocation \<Rightarrow> gerror option \<Rightarrow> action list" where
  "g_dbus_method_invocation_return_gerror invoc error =
     (case error of None \<Rightarrow> [] | Some e \<Rightarrow> [Return_error invoc e])"

definition g_dbus_method_invocation_return_error_literal ::
  "invocation \<Rightarrow> string \<Rightarrow> int \<Rightarrow> string \<Rightarrow> action list" where
  "g_dbus_method_invocation_return_error_literal invoc edomain ecode msg =
     [Return_error invoc \<lparr>err_domain = edomain, err_code = ecode, err_message = msg\<rparr>]"

definition g_error_free :: "gerror option \<Rightarrow> action list" where
  "g_error_free error = (case error of None \<Rightarrow> [] | Some e \<Rightarrow> [Error_free e])"

definition g_dbus_connection_emit_signal ::
  "glib_env \<Rightarrow> connection option \<Rightarrow> string \<Rightarrow> string \<Rightarrow> string \<Rightarrow> gvariant
   \<Rightarrow> (bool \<times> gerror option) \<times> action list" where
  "g_dbus_connection_emit_signal env bus path iface sig params =
     (case bus of
        None \<Rightarrow> ((False, None), [])
      | Some b \<Rightarrow>
          ((case emit_result env b path iface sig params of
              None \<Rightarrow> (True, None)
            | Some e \<Rightarrow> (False, Some e)),
           [Emit_signal b path iface sig params]))"

text \<open>
  \<^verbatim>\<open>g_dbus_connection_register_object\<close> takes the state of the caller's error variable:
  the loops of two of the programs pass a variable they have freed before.
\<close>

definition g_dbus_connection_register_object ::
  "glib_env \<Rightarrow> connection option \<Rightarrow> string \<Rightarrow> string \<Rightarrow> gerror ptr
   \<Rightarrow> (nat \<times> gerror ptr) \<times> action list" where
  "g_dbus_connection_register_object env bus path iname error =
     (case bus of
        None \<Rightarrow> ((0, error), [])
      | Some b \<Rightarrow>
          (case error of
             Null \<Rightarrow>
               (case register_result env b path iname of
                  Inl e \<Rightarrow> ((0, Live e), [Register_object b path iname 0])
                | Inr rid \<Rightarrow> ((rid, Null), [Register_object b path iname rid]))
           | _ \<Rightarrow> ((0, error), [])))"

definition g_dbus_connection_signal_subscribe ::
  "glib_env \<Rightarrow> connection option \<Rightarrow> string \<Rightarrow> string \<Rightarrow> string \<Rightarrow> string \<Rightarrow> nat \<times> action list" where
  "g_dbus_connection_signal_subscribe env bus sender iface sig path =
     (case bus of
        None \<Rightarrow> (0, [])
      | Some b \<Rightarrow>
          (subscribe_result env b sender iface sig path,
           [Signal_subscribe b sender iface sig path (subscribe_result env b sender iface sig path)]))"

definition g_dbus_connection_unregister_object :: "connection option \<Rightarrow> nat \<Rightarrow> action list" where
  "g_dbus_connection_unregister_object bus rid =
     (case bus of None \<Rightarrow> [] | Some b \<Rightarrow> [Unregister_object b rid])"

definition g_dbus_connection_signal_unsubscribe :: "connection option \<Rightarrow> nat \<Rightarrow> action list" where
  "g_dbus_connection_signal_unsubscribe bus sid =
     (case bus of None \<Rightarrow> [] | Some b \<Rightarrow> [Signal_unsubscribe b sid])"

definition g_bus_own_name_on_connection ::
  "glib_env \<Rightarrow> connection option \<Rightarrow> string \<Rightarrow> nat \<times> action list" where
  "g_bus_own_name_on_connection env bus name =
     (case bus of
        None \<Rightarrow> (0, [])
      | Some b \<Rightarrow> (own_name_result env b name, [Own_name_on_connection b name]))"

definition g_dbus_node_info_new_for_xml ::
  "glib_env \<Rightarrow> string \<Rightarrow> node_info option \<times> gerror option" where
  "g_dbus_node_info_new_for_xml env xml_data =
     (case xml_result env xml_data of
        Inl e \<Rightarrow> (None, Some e)
      | Inr info \<Rightarrow> (Some info, None))"

text \<open>\<^verbatim>\<open>g_variant_get (result, "(v)", &value)\<close>: the value inside the variant of a one-tuple.\<close>

definition g_variant_get_v :: "gvariant \<Rightarrow> gvariant option" where
  "g_variant_get_v result = (case result of GV_tuple [GV_variant x] \<Rightarrow> Some x | _ \<Rightarrow> None)"

text \<open>\<^verbatim>\<open>g_variant_get (xml, "(s)", &xml_data)\<close>: the string of a one-tuple.\<close>

definition g_variant_get_s :: "gvariant \<Rightarrow> string option" where
  "g_variant_get_s xml = (case xml of GV_tuple [GV_string s] \<Rightarrow> Some s | _ \<Rightarrow> None)"

text \<open>\<^verbatim>\<open>fopen (filename, "a")\<close>: whether the stream returned is non-NULL.\<close>

definition fopen :: "glib_env \<Rightarrow> string \<Rightarrow> bool \<times> action list" where
  "fopen env filename = (fopen_result env filename, [File_open filename])"

text \<open>The replies an invocation receives, among the actions of a run.\<close>

fun reply_to :: "action \<Rightarrow> invocation option" where
  "reply_to (Return_value invoc v) = Some invoc"
| "reply_to (Return_error invoc e) = Some invoc"
| "reply_to _ = None"

definition replies :: "action list \<Rightarrow> action list" where
  "replies tr = filter (\<lambda>a. reply_to a \<noteq> None) tr"

section \<open>The multi-bus proxy (DBus_proxy.c)\<close>

record ProxyContext =
  source_bus :: "connection option"
  target_bus :: "connection option"
  source_bus_name :: string
  source_object_path :: string
  proxy_bus_name :: string
  introspection_data :: "node_info option"
  registration_id :: nat
  signal_subscriptions :: "nat list"

text \<open>The completion callback of \<^verbatim>\<open>handle_method_call\<close> (a lambda in the source).\<close>

definition method_call_ready :: "invocation \<Rightarrow> gvariant option \<times> gerror option \<Rightarrow> action list" where
  "method_call_ready invoc res =
     (case res of (result, error) \<Rightarrow>
        (case result of
           Some r \<Rightarrow> [Return_value invoc r]
         | None \<Rightarrow> g_dbus_method_invocation_return_gerror invoc error @ g_error_free error))"

definition handle_method_call ::
  "glib_env \<Rightarrow> ProxyContext \<Rightarrow> string \<Rightarrow> string \<Rightarrow> gvariant \<Rightarrow> invocation \<Rightarrow> action list" where
  "handle_method_call env ctx interface_name method_name parameters invocation =
     g_dbus_connection_call env (source_bus ctx) (source_bus_name ctx) (source_object_path ctx)
       interface_name method_name (Some parameters) None (- 1) method_call_ready invocation"

definition on_signal_received ::
  "glib_env \<Rightarrow> ProxyContext \<Rightarrow> string \<Rightarrow> string \<Rightarrow> gvariant \<Rightarrow> action list" where
  "on_signal_received env ctx interface_name signal_name parameters =
     (case g_dbus_connection_emit_signal env (target_bus ctx) (source_object_path ctx)
             interface_name signal_name parameters of
        ((success, error), tr) \<Rightarrow>
          tr @ (case error of
                  Some e \<Rightarrow> [Printerr (''Failed to emit signal: '' @ err_message e), Error_free e]
                | None \<Rightarrow> []))"

text \<open>
  The property handlers return the value the C function returns, the error left in the
  caller's \<^verbatim>\<open>GError **\<close> and the actions.
\<close>

definition handle_get_property ::
  "glib_env \<Rightarrow> ProxyContext \<Rightarrow> string \<Rightarrow> string \<Rightarrow> gvariant option \<times> gerror option \<times> action list" where
  "handle_get_property env ctx interface_name property_name =
     (case g_dbus_connection_call_sync env (source_bus ctx) (source_bus_name ctx)
             (source_object_path ctx) ''org.freedesktop.DBus.Properties'' ''Get''
             (Some (GV_tuple [GV_string interface_name, GV_string property_name]))
             (Some Reply_v) (- 1) of
        ((result, error), tr) \<Rightarrow>
          (case result of
             Some r \<Rightarrow> (g_variant_get_v r, error, tr)
           | None \<Rightarrow> (None, error, tr)))"

definition handle_set_property ::
  "glib_env \<Rightarrow> ProxyContext \<Rightarrow> string \<Rightarrow> string \<Rightarrow> gvariant \<Rightarrow> bool \<times> gerror option \<times> action list" where
  "handle_set_property env ctx interface_name property_name val =
     (case g_dbus_connection_call_sync env (source_bus ctx) (source_bus_name ctx)
             (source_object_path ctx) ''org.freedesktop.DBus.Properties'' ''Set''
             (Some (GV_tuple [GV_string interface_name, GV_string property_name, GV_variant val]))
             None (- 1) of
        ((result, error), tr) \<Rightarrow>
          (case result of
             Some r \<Rightarrow> (True, error, tr)
           | None \<Rightarrow> (False, error, tr)))"

definition create_connection ::
  "glib_env \<Rightarrow> string \<Rightarrow> (connection option \<times> gerror option) \<times> action list" where
  "create_connection env address =
     (if address = ''system'' then g_bus_get_sync env G_BUS_TYPE_SYSTEM
      else if address = ''session'' then g_bus_get_sync env G_BUS_TYPE_SESSION
      else g_dbus_connection_new_for_address_sync env address)"

text \<open>
  The inner loop of \<^verbatim>\<open>setup_proxy\<close>: one subscription on the source bus for each signal
  the interface declares, its identifier prepended to the context's list.
\<close>

fun setup_proxy_signal_loop ::
  "glib_env \<Rightarrow> string \<Rightarrow> string list \<Rightarrow> ProxyContext \<Rightarrow> ProxyContext \<times> action list" where
  "setup_proxy_signal_loop env iname [] ctx = (ctx, [])"
| "setup_proxy_signal_loop env iname (s # rest) ctx =
     (case g_dbus_connection_signal_subscribe env (source_bus ctx) (source_bus_name ctx)
             iname s (source_object_path ctx) of
        (subscription_id, tr1) \<Rightarrow>
          (case setup_proxy_signal_loop env iname rest
                  (ctx\<lparr>signal_subscriptions := subscription_id # signal_subscriptions ctx\<rparr>) of
             (ctx', tr2) \<Rightarrow> (ctx', tr1 @ tr2)))"

text \<open>
  The outer loop of \<^verbatim>\<open>setup_proxy\<close>, over the interfaces left to register. The error
  variable is declared once, before the loop: after a failed registration the loop frees
  the error and goes on with the dangling pointer in the variable. Reading
  \<^verbatim>\<open>error->message\<close> through a NULL or a dangling pointer is a fault.
\<close>

fun setup_proxy_loop ::
  "glib_env \<Rightarrow> interface_info list \<Rightarrow> ProxyContext \<Rightarrow> gerror ptr
   \<Rightarrow> fault + (ProxyContext \<times> gerror ptr \<times> action list)" where
  "setup_proxy_loop env [] ctx error = Inr (ctx, error, [])"
| "setup_proxy_loop env (iface # rest) ctx error =
     (case g_dbus_connection_register_object env (target_bus ctx) (source_object_path ctx)
             (iface_name iface) error of
        ((rid, error1), tr1) \<Rightarrow>
          if rid = 0 then
            (case error1 of
               Null \<Rightarrow> Inl Null_dereference
             | Freed \<Rightarrow> Inl Use_after_free
             | Live e \<Rightarrow>
                 (case setup_proxy_loop env rest (ctx\<lparr>registration_id := rid\<rparr>) Freed of
                    Inl f \<Rightarrow> Inl f
                  | Inr (ctx', error', tr2) \<Rightarrow>
                      Inr (ctx', error',
                           tr1 @ [Printerr (''Failed to register interface '' @ iface_name iface
                                            @ '': '' @ err_message e),
                                  Error_free e] @ tr2)))
          else
            (case setup_proxy_signal_loop env (iface_name iface)
                    (case iface_signals iface of None \<Rightarrow> [] | Some sigs \<Rightarrow> sigs)
                    (ctx\<lparr>registration_id := rid\<rparr>) of
               (ctx1, tr2) \<Rightarrow>
                 (case setup_proxy_loop env rest ctx1 error1 of
                    Inl f \<Rightarrow> Inl f
                  | Inr (ctx', error', tr3) \<Rightarrow> Inr (ctx', error', tr1 @ tr2 @ tr3))))"

text \<open>
  \<^verbatim>\<open>setup_proxy\<close> returns NULL or the new context. Indexing the interface array of the
  introspection data when the array is NULL is a fault.
\<close>

definition setup_proxy ::
  "glib_env \<Rightarrow> string \<Rightarrow> string \<Rightarrow> string \<Rightarrow> string \<Rightarrow> string
   \<Rightarrow> fault + (ProxyContext ptr \<times> action list)" where
  "setup_proxy env source_address target_address source_service source_path proxy_service =
     (case create_connection env source_address of
        ((None, None), tr1) \<Rightarrow> Inl Null_dereference
      | ((None, Some e), tr1) \<Rightarrow>
          Inr (Null,
               tr1 @ [Printerr (''Failed to connect to source bus ('' @ source_address @ ''): ''
                                @ err_message e),
                      Error_free e, Free_context])
      | ((Some sbus, error1), tr1) \<Rightarrow>
     (case create_connection env target_address of
        ((None, None), tr2) \<Rightarrow> Inl Null_dereference
      | ((None, Some e), tr2) \<Rightarrow>
          Inr (Null,
               tr1 @ tr2 @ [Printerr (''Failed to connect to target bus ('' @ target_address @ ''): ''
                                      @ err_message e),
                            Error_free e, Object_unref sbus, Free_context])
      | ((Some tbus, error2), tr2) \<Rightarrow>
     (case g_dbus_connection_call_sync env (Some sbus) source_service source_path
             ''org.freedesktop.DBus.Introspectable'' ''Introspect'' None (Some Reply_s) (- 1) of
        ((None, None), tr3) \<Rightarrow> Inl Null_dereference
      | ((None, Some e), tr3) \<Rightarrow>
          Inr (Null,
               tr1 @ tr2 @ tr3 @ [Printerr (''Introspection failed for '' @ source_service @ '': ''
                                            @ err_message e),
                                  Error_free e, Object_unref sbus, Object_unref tbus, Free_context])
      | ((Some xml, error3), tr3) \<Rightarrow>
     (case g_variant_get_s xml of
        None \<Rightarrow> Inl Null_dereference
      | Some xml_data \<Rightarrow>
     (case g_dbus_node_info_new_for_xml env xml_data of
        (None, None) \<Rightarrow> Inl Null_dereference
      | (None, Some e) \<Rightarrow>
          Inr (Null,
               tr1 @ tr2 @ tr3 @ [Printerr (''Failed to parse introspection XML: '' @ err_message e),
                                  Error_free e, Object_unref sbus, Object_unref tbus, Free_context])
      | (Some info, error4) \<Rightarrow>
     (case interfaces info of
        None \<Rightarrow> Inl Null_dereference
      | Some ifaces \<Rightarrow>
     (case setup_proxy_loop env ifaces
             \<lparr>source_bus = Some sbus, target_bus = Some tbus, source_bus_name = source_service,
              source_object_path = source_path, proxy_bus_name = proxy_service,
              introspection_data = Some info, registration_id = 0, signal_subscriptions = []\<rparr>
             Null of
        Inl f \<Rightarrow> Inl f
      | Inr (ctx, error5, tr4) \<Rightarrow>
     (case g_bus_own_name_on_connection env (target_bus ctx) (proxy_bus_name ctx) of
        (owner_id, tr5) \<Rightarrow> Inr (Live ctx, tr1 @ tr2 @ tr3 @ tr4 @ tr5)))))))))"

text \<open>
  \<^verbatim>\<open>cleanup_proxy\<close> frees the context it is given. The pointer it returns here is the
  caller's pointer as it stands after the call: NULL stays NULL, a live context is left
  dangling, and a call on a dangling pointer reads freed memory.
\<close>

definition cleanup_proxy :: "ProxyContext ptr \<Rightarrow> fault + (ProxyContext ptr \<times> action list)" where
  "cleanup_proxy p =
     (case p of
        Null \<Rightarrow> Inr (Null, [])
      | Freed \<Rightarrow> Inl Use_after_free
      | Live ctx \<Rightarrow>
          Inr (Freed,
               concat (map (g_dbus_connection_signal_unsubscribe (source_bus ctx))
                         (signal_subscriptions ctx))
               @ (if registration_id ctx > 0
                  then g_dbus_connection_unregister_object (target_bus ctx) (registration_id ctx)
                  else [])
               @ (case introspection_data ctx of Some d \<Rightarrow> [Node_info_unref] | None \<Rightarrow> [])
               @ (case source_bus ctx of Some b \<Rightarrow> [Object_unref b] | None \<Rightarrow> [])
               @ (case target_bus ctx of Some b \<Rightarrow> [Object_unref b] | None \<Rightarrow> [])
               @ [Free_context]))"

text \<open>
  \<^verbatim>\<open>main\<close>, after the command line has been read into the five settings. The events that
  the main loop serves are the handlers above; the loop ends on SIGINT or SIGTERM, and
  the one context of \<^verbatim>\<open>proxy_contexts\<close> is cleaned up.
\<close>

definition main ::
  "glib_env \<Rightarrow> string \<Rightarrow> string \<Rightarrow> string \<Rightarrow> string \<Rightarrow> string \<Rightarrow> fault + (int \<times> action list)" where
  "main env source_address target_address source_service source_path proxy_service =
     (case setup_proxy env source_address target_address source_service source_path
             proxy_service of
        Inl f \<Rightarrow> Inl f
      | Inr (Null, tr) \<Rightarrow> Inr (1, tr)
      | Inr (ctx, tr) \<Rightarrow>
          (case cleanup_proxy ctx of
             Inl f \<Rightarrow> Inl f
           | Inr (p, tr') \<Rightarrow> Inr (0, tr @ [Main_loop_run] @ tr')))"

section \<open>The cross-bus proxy (second program of part\_000)\<close>

record ProxyConfig_cross =
  cfg_source_bus_name :: string
  cfg_source_object_path :: string
  cfg_proxy_bus_name :: string
  cfg_source_bus_type :: GBusType
  cfg_target_bus_type :: GBusType
  cfg_verbose :: bool

text \<open>
  A \<^verbatim>\<open>GHashTable\<close> from identifiers to labels is an association list with one entry per
  key: inserting under a key that is present replaces its label. GLib leaves the order of
  iteration open; the model iterates in the order of the list.
\<close>

type_synonym hash_table = "(nat \<times> string) list"

definition g_hash_table_insert :: "hash_table \<Rightarrow> nat \<Rightarrow> string \<Rightarrow> hash_table" where
  "g_hash_table_insert t k v = AList.update k v t"

record ProxyState =
  st_source_bus :: "connection option"
  st_target_bus :: "connection option"
  st_introspection_data :: "node_info option"
  st_registered_objects :: hash_table
  st_signal_subscriptions :: hash_table
  st_config :: ProxyConfig_cross

definition log_error :: "string \<Rightarrow> action list" where
  "log_error msg = [Printerr (''[ERROR] '' @ msg)]"

definition message_or_unknown :: "gerror option \<Rightarrow> string" where
  "message_or_unknown error = (case error of Some e \<Rightarrow> err_message e | None \<Rightarrow> ''Unknown error'')"

definition method_call_ready_cross ::
  "invocation \<Rightarrow> gvariant option \<times> gerror option \<Rightarrow> action list" where
  "method_call_ready_cross invoc res =
     (case res of (result, error) \<Rightarrow>
        (case result of
           Some r \<Rightarrow> [Return_value invoc r]
         | None \<Rightarrow>
             log_error (''Method call failed: '' @ message_or_unknown error)
             @ g_dbus_method_invocation_return_gerror invoc error
             @ (case error of Some e \<Rightarrow> g_error_free (Some e) | None \<Rightarrow> [])))"

definition handle_method_call_cross ::
  "glib_env \<Rightarrow> ProxyState \<Rightarrow> string \<Rightarrow> string \<Rightarrow> gvariant \<Rightarrow> invocation \<Rightarrow> action list" where
  "handle_method_call_cross env st interface_name method_name parameters invocation =
     g_dbus_connection_call env (st_source_bus st) (cfg_source_bus_name (st_config st))
       (cfg_source_object_path (st_config st)) interface_name method_name (Some parameters)
       None (- 1) method_call_ready_cross invocation"

definition handle_get_property_cross ::
  "glib_env \<Rightarrow> ProxyState \<Rightarrow> string \<Rightarrow> string \<Rightarrow> gvariant option \<times> gerror option \<times> action list" where
  "handle_get_property_cross env st interface_name property_name =
     (case g_dbus_connection_call_sync env (st_source_bus st) (cfg_source_bus_name (st_config st))
             (cfg_source_object_path (st_config st)) ''org.freedesktop.DBus.Properties'' ''Get''
             (Some (GV_tuple [GV_string interface_name, GV_string property_name]))
             (Some Reply_v) (- 1) of
        ((result, error), tr) \<Rightarrow>
          (case result of
             Some r \<Rightarrow> (g_variant_get_v r, error, tr)
           | None \<Rightarrow>
               (None, error, tr @ log_error (''Property get failed: '' @ message_or_unknown error))))"

definition handle_set_property_cross ::
  "glib_env \<Rightarrow> ProxyState \<Rightarrow> string \<Rightarrow> string \<Rightarrow> gvariant \<Rightarrow> bool \<times> gerror option \<times> action list" where
  "handle_set_property_cross env st interface_name property_name val =
     (case g_dbus_connection_call_sync env (st_source_bus st) (cfg_source_bus_name (st_config st))
             (cfg_source_object_path (st_config st)) ''org.freedesktop.DBus.Properties'' ''Set''
             (Some (GV_tuple [GV_string interface_name, GV_string property_name, GV_variant val]))
             None (- 1) of
        ((result, error), tr) \<Rightarrow>
          (case result of
             Some r \<Rightarrow> (True, error, tr)
           | None \<Rightarrow>
               (False, error, tr @ log_error (''Property set failed: '' @ message_or_unknown error))))"

definition on_signal_received_cross ::
  "glib_env \<Rightarrow> ProxyState \<Rightarrow> string \<Rightarrow> string \<Rightarrow> gvariant \<Rightarrow> action list" where
  "on_signal_received_cross env st interface_name signal_name parameters =
     (case g_dbus_connection_emit_signal env (st_target_bus st)
             (cfg_source_object_path (st_config st)) interface_name signal_name parameters of
        ((success, error), tr) \<Rightarrow>
          tr @ (if success then []
                else log_error (''Failed to forward signal: '' @ message_or_unknown error)
                     @ (case error of Some e \<Rightarrow> g_error_free (Some e) | None \<Rightarrow> [])))"

text \<open>
  \<^verbatim>\<open>on_properties_changed\<close> reads the name of the changed interface for a verbose line and
  hands the signal on.
\<close>

definition on_properties_changed_cross ::
  "glib_env \<Rightarrow> ProxyState \<Rightarrow> string \<Rightarrow> string \<Rightarrow> gvariant \<Rightarrow> action list" where
  "on_properties_changed_cross env st interface_name signal_name parameters =
     on_signal_received_cross env st interface_name signal_name parameters"

definition init_proxy_state :: "ProxyConfig_cross \<Rightarrow> bool \<times> ProxyState" where
  "init_proxy_state config =
     (True,
      \<lparr>st_source_bus = None, st_target_bus = None, st_introspection_data = None,
       st_registered_objects = [], st_signal_subscriptions = [], st_config = config\<rparr>)"

definition connect_to_buses ::
  "glib_env \<Rightarrow> ProxyState \<Rightarrow> fault + (bool \<times> ProxyState \<times> action list)" where
  "connect_to_buses env st =
     (case g_bus_get_sync env (cfg_source_bus_type (st_config st)) of
        ((None, None), tr1) \<Rightarrow> Inl Null_dereference
      | ((None, Some e), tr1) \<Rightarrow>
          Inr (False, st\<lparr>st_source_bus := None\<rparr>,
               tr1 @ log_error (''Failed to connect to source bus: '' @ err_message e)
               @ [Error_free e])
      | ((Some sbus, error1), tr1) \<Rightarrow>
     (case g_bus_get_sync env (cfg_target_bus_type (st_config st)) of
        ((None, None), tr2) \<Rightarrow> Inl Null_dereference
      | ((None, Some e), tr2) \<Rightarrow>
          Inr (False, st\<lparr>st_source_bus := Some sbus, st_target_bus := None\<rparr>,
               tr1 @ tr2 @ log_error (''Failed to connect to target bus: '' @ err_message e)
               @ [Error_free e])
      | ((Some tbus, error2), tr2) \<Rightarrow>
          Inr (True, st\<lparr>st_source_bus := Some sbus, st_target_bus := Some tbus\<rparr>, tr1 @ tr2)))"

definition fetch_introspection_data ::
  "glib_env \<Rightarrow> ProxyState \<Rightarrow> fault + (bool \<times> ProxyState \<times> action list)" where
  "fetch_introspection_data env st =
     (case g_dbus_connection_call_sync env (st_source_bus st) (cfg_source_bus_name (st_config st))
             (cfg_source_object_path (st_config st)) ''org.freedesktop.DBus.Introspectable''
             ''Introspect'' None (Some Reply_s) (- 1) of
        ((None, None), tr) \<Rightarrow> Inl Null_dereference
      | ((None, Some e), tr) \<Rightarrow>
          Inr (False, st, tr @ log_error (''Introspection failed: '' @ err_message e) @ [Error_free e])
      | ((Some xml_variant, error1), tr) \<Rightarrow>
     (case g_variant_get_s xml_variant of
        None \<Rightarrow> Inl Null_dereference
      | Some xml_data \<Rightarrow>
     (case g_dbus_node_info_new_for_xml env xml_data of
        (None, None) \<Rightarrow> Inl Null_dereference
      | (None, Some e) \<Rightarrow>
          Inr (False, st\<lparr>st_introspection_data := None\<rparr>,
               tr @ log_error (''Failed to parse introspection XML: '' @ err_message e)
               @ [Error_free e])
      | (Some info, error2) \<Rightarrow> Inr (True, st\<lparr>st_introspection_data := Some info\<rparr>, tr))))"

text \<open>The inner loop of \<^verbatim>\<open>setup_proxy_interfaces\<close>, over the signals of one interface.\<close>

fun setup_proxy_interfaces_signal_loop ::
  "glib_env \<Rightarrow> string \<Rightarrow> string list \<Rightarrow> ProxyState \<Rightarrow> ProxyState \<times> action list" where
  "setup_proxy_interfaces_signal_loop env iname [] st = (st, [])"
| "setup_proxy_interfaces_signal_loop env iname (s # rest) st =
     (case g_dbus_connection_signal_subscribe env (st_source_bus st)
             (cfg_source_bus_name (st_config st)) iname s
             (cfg_source_object_path (st_config st)) of
        (subscription_id, tr1) \<Rightarrow>
          (case setup_proxy_interfaces_signal_loop env iname rest
                  (st\<lparr>st_signal_subscriptions :=
                        g_hash_table_insert (st_signal_subscriptions st) subscription_id
                          (iname @ ''.'' @ s)\<rparr>) of
             (st', tr2) \<Rightarrow> (st', tr1 @ tr2)))"

text \<open>
  The outer loop of \<^verbatim>\<open>setup_proxy_interfaces\<close>. Its error variable is declared inside
  the loop body, so every registration starts from NULL. The first failed registration
  ends the loop and the function with FALSE.
\<close>

fun setup_proxy_interfaces_loop ::
  "glib_env \<Rightarrow> interface_info list \<Rightarrow> ProxyState
   \<Rightarrow> fault + (bool \<times> ProxyState \<times> action list)" where
  "setup_proxy_interfaces_loop env [] st = Inr (True, st, [])"
| "setup_proxy_interfaces_loop env (iface # rest) st =
     (case g_dbus_connection_register_object env (st_target_bus st)
             (cfg_source_object_path (st_config st)) (iface_name iface) Null of
        ((reg_id, error), tr1) \<Rightarrow>
          if reg_id = 0 then
            (case error of
               Null \<Rightarrow> Inl Null_dereference
             | Freed \<Rightarrow> Inl Use_after_free
             | Live e \<Rightarrow>
                 Inr (False, st,
                      tr1 @ log_error (''Failed to register interface '' @ iface_name iface
                                       @ '': '' @ err_message e)
                      @ [Error_free e]))
          else
            (case setup_proxy_interfaces_signal_loop env (iface_name iface)
                    (case iface_signals iface of None \<Rightarrow> [] | Some sigs \<Rightarrow> sigs)
                    (st\<lparr>st_registered_objects :=
                          g_hash_table_insert (st_registered_objects st) reg_id
                            (iface_name iface)\<rparr>) of
               (st1, tr2) \<Rightarrow>
                 (case setup_proxy_interfaces_loop env rest st1 of
                    Inl f \<Rightarrow> Inl f
                  | Inr (ok, st', tr3) \<Rightarrow> Inr (ok, st', tr1 @ tr2 @ tr3))))"

definition setup_proxy_interfaces ::
  "glib_env \<Rightarrow> ProxyState \<Rightarrow> fault + (bool \<times> ProxyState \<times> action list)" where
  "setup_proxy_interfaces env st =
     (case st_introspection_data st of
        None \<Rightarrow> Inl Null_dereference
      | Some info \<Rightarrow>
     (case interfaces info of
        None \<Rightarrow> Inr (False, st, log_error ''No interfaces found in introspection data'')
      | Some ifaces \<Rightarrow>
     (case setup_proxy_interfaces_loop env ifaces st of
        Inl f \<Rightarrow> Inl f
      | Inr (False, st1, tr1) \<Rightarrow> Inr (False, st1, tr1)
      | Inr (True, st1, tr1) \<Rightarrow>
     (case g_dbus_connection_signal_subscribe env (st_source_bus st1)
             (cfg_source_bus_name (st_config st1)) ''org.freedesktop.DBus.Properties''
             ''PropertiesChanged'' (cfg_source_object_path (st_config st1)) of
        (props_subscription_id, tr2) \<Rightarrow>
          Inr (True,
               st1\<lparr>st_signal_subscriptions :=
                     g_hash_table_insert (st_signal_subscriptions st1) props_subscription_id
                       ''org.freedesktop.DBus.Properties.PropertiesChanged''\<rparr>,
               tr1 @ tr2)))))"

definition acquire_bus_name :: "glib_env \<Rightarrow> ProxyState \<Rightarrow> bool \<times> action list" where
  "acquire_bus_name env st =
     (case g_bus_own_name_on_connection env (st_target_bus st) (cfg_proxy_bus_name (st_config st)) of
        (owner_id, tr) \<Rightarrow>
          if owner_id = 0
          then (False, tr @ log_error (''Failed to start owning bus name: ''
                                       @ cfg_proxy_bus_name (st_config st)))
          else (True, tr))"

text \<open>
  \<^verbatim>\<open>cleanup_proxy_state\<close> works on the global \<^verbatim>\<open>proxy_state\<close>, NULL or a live state, and
  leaves it NULL. Both hash tables exist in every live state.
\<close>

definition cleanup_proxy_state :: "ProxyState option \<Rightarrow> ProxyState option \<times> action list" where
  "cleanup_proxy_state proxy_state =
     (case proxy_state of
        None \<Rightarrow> (None, [])
      | Some st \<Rightarrow>
          (None,
           concat (map (\<lambda>(key, label). g_dbus_connection_unregister_object (st_target_bus st) key)
                     (st_registered_objects st))
           @ concat (map (\<lambda>(key, label). g_dbus_connection_signal_unsubscribe (st_source_bus st) key)
                       (st_signal_subscriptions st))
           @ (case st_introspection_data st of Some d \<Rightarrow> [Node_info_unref] | None \<Rightarrow> [])
           @ (case st_source_bus st of Some b \<Rightarrow> [Object_unref b] | None \<Rightarrow> [])
           @ (case st_target_bus st of Some b \<Rightarrow> [Object_unref b] | None \<Rightarrow> [])
           @ [Free_context]))"

text \<open>
  \<^verbatim>\<open>validateProxyConfigOrExit\<close>: the report it makes before it leaves the process with
  \<^verbatim>\<open>EXIT_FAILURE\<close>, or nothing when the three names are there. Its messages end with a
  newline of their own, before the one \<^verbatim>\<open>log_error\<close> adds.
\<close>

definition validateProxyConfigOrExit :: "ProxyConfig_cross \<Rightarrow> action list option" where
  "validateProxyConfigOrExit config =
     (if cfg_source_bus_name config = []
        then Some (log_error (''Error: source_bus_name is required!'' @ [CHR 0x0A]))
      else if cfg_source_object_path config = []
        then Some (log_error (''Error: source_object_path is required!'' @ [CHR 0x0A]))
      else if cfg_proxy_bus_name config = []
        then Some (log_error (''Error: proxy_bus_name is required!'' @ [CHR 0x0A]))
      else None)"

text \<open>
  \<^verbatim>\<open>main\<close> of the cross-bus proxy, after the command line has been read into the
  configuration: the exit status, the global state at the end and the actions.
\<close>

definition main_cross ::
  "glib_env \<Rightarrow> ProxyConfig_cross \<Rightarrow> fault + (int \<times> ProxyState option \<times> action list)" where
  "main_cross env config =
     (case validateProxyConfigOrExit config of
        Some tr0 \<Rightarrow> Inr (1, None, tr0)
      | None \<Rightarrow>
     (case init_proxy_state config of
        (False, st0) \<Rightarrow> Inr (1, Some st0, log_error ''Failed to initialize proxy state'')
      | (True, st0) \<Rightarrow>
     (case connect_to_buses env st0 of
        Inl f \<Rightarrow> Inl f
      | Inr (False, st1, tr1) \<Rightarrow>
          (case cleanup_proxy_state (Some st1) of (ps, trc) \<Rightarrow> Inr (1, ps, tr1 @ trc))
      | Inr (True, st1, tr1) \<Rightarrow>
     (case fetch_introspection_data env st1 of
        Inl f \<Rightarrow> Inl f
      | Inr (False, st2, tr2) \<Rightarrow>
          (case cleanup_proxy_state (Some st2) of (ps, trc) \<Rightarrow> Inr (1, ps, tr1 @ tr2 @ trc))
      | Inr (True, st2, tr2) \<Rightarrow>
     (case setup_proxy_interfaces env st2 of
        Inl f \<Rightarrow> Inl f
      | Inr (False, st3, tr3) \<Rightarrow>
          (case cleanup_proxy_state (Some st3) of
             (ps, trc) \<Rightarrow> Inr (1, ps, tr1 @ tr2 @ tr3 @ trc))
      | Inr (True, st3, tr3) \<Rightarrow>
     (case acquire_bus_name env st3 of
        (False, tr4) \<Rightarrow>
          (case cleanup_proxy_state (Some st3) of
             (ps, trc) \<Rightarrow> Inr (1, ps, tr1 @ tr2 @ tr3 @ tr4 @ trc))
      | (True, tr4) \<Rightarrow>
          (case cleanup_proxy_state (Some st3) of
             (ps, trc) \<Rightarrow>
               Inr (0, ps, tr1 @ tr2 @ tr3 @ tr4 @ [Main_loop_run] @ trc))))))))"

section \<open>The configuration-file proxy (first program of part\_000)\<close>

text \<open>
  The program keeps its settings in the global \<^verbatim>\<open>config\<close> and its one connection in the
  global \<^verbatim>\<open>bus\<close>; the functions below take both as arguments.
\<close>

record ProxyConfig_conf =
  conf_source_bus_name :: string
  conf_source_object_path :: string
  conf_proxy_bus_name :: string
  conf_bus_type :: string
  conf_verbose :: bool
  conf_enable_logging :: bool
  conf_timeout_ms :: int
  conf_log_file :: string

definition validate :: "ProxyConfig_conf \<Rightarrow> bool \<times> action list" where
  "validate config =
     (if conf_source_bus_name config = []
        then (False, [Printerr ''Error: source_bus_name cannot be empty''])
      else if conf_source_object_path config = []
        then (False, [Printerr ''Error: source_object_path cannot be empty''])
      else if conf_proxy_bus_name config = []
        then (False, [Printerr ''Error: proxy_bus_name cannot be empty''])
      else if conf_bus_type config \<noteq> ''system'' \<and> conf_bus_type config \<noteq> ''session''
        then (False, [Printerr (''Error: bus_type must be '' @ [CHR 0x27] @ ''system'' @ [CHR 0x27]
                                @ '' or '' @ [CHR 0x27] @ ''session'' @ [CHR 0x27])])
      else if conf_timeout_ms config \<le> 0
        then (False, [Printerr ''Error: timeout_ms must be positive''])
      else (True, []))"

text \<open>
  \<^verbatim>\<open>log_message\<close> writes its line to the log file when one is open and to standard
  output otherwise; the action records the line, not where it goes.
\<close>

definition log_message :: "ProxyConfig_conf \<Rightarrow> string \<Rightarrow> action list" where
  "log_message config msg = (if \<not> conf_enable_logging config then [] else [Log_message msg])"

definition method_call_ready_conf ::
  "ProxyConfig_conf \<Rightarrow> invocation \<Rightarrow> gvariant option \<times> gerror option \<Rightarrow> action list" where
  "method_call_ready_conf config invoc res =
     (case res of (result, error) \<Rightarrow>
        (case result of
           Some r \<Rightarrow> [Return_value invoc r]
         | None \<Rightarrow>
             (if conf_verbose config
              then log_message config (''Method call failed: '' @ message_or_unknown error)
              else [])
             @ g_dbus_method_invocation_return_error_literal invoc G_IO_ERROR G_IO_ERROR_FAILED
                 (case error of Some e \<Rightarrow> err_message e | None \<Rightarrow> ''Call failed'')
             @ (case error of Some e \<Rightarrow> g_error_free (Some e) | None \<Rightarrow> [])))"

definition handle_method_call_conf ::
  "glib_env \<Rightarrow> ProxyConfig_conf \<Rightarrow> connection option \<Rightarrow> string \<Rightarrow> string \<Rightarrow> gvariant
   \<Rightarrow> invocation \<Rightarrow> action list" where
  "handle_method_call_conf env config bus interface_name method_name parameters invocation =
     g_dbus_connection_call env bus (conf_source_bus_name config) (conf_source_object_path config)
       interface_name method_name (Some parameters) None (conf_timeout_ms config)
       (method_call_ready_conf config) invocation"

definition handle_get_property_conf ::
  "glib_env \<Rightarrow> ProxyConfig_conf \<Rightarrow> connection option \<Rightarrow> string \<Rightarrow> string
   \<Rightarrow> gvariant option \<times> gerror option \<times> action list" where
  "handle_get_property_conf env config bus interface_name property_name =
     (case g_dbus_connection_call_sync env bus (conf_source_bus_name config)
             (conf_source_object_path config) ''org.freedesktop.DBus.Properties'' ''Get''
             (Some (GV_tuple [GV_string interface_name, GV_string property_name]))
             (Some Reply_v) (conf_timeout_ms config) of
        ((result, error), tr) \<Rightarrow>
          (case result of
             None \<Rightarrow>
               (None, error,
                tr @ (if conf_verbose config
                      then log_message config
                             (''Failed to get property '' @ interface_name @ ''.'' @ property_name
                              @ '': '' @ message_or_unknown error)
                      else []))
           | Some r \<Rightarrow> (g_variant_get_v r, error, tr)))"

definition handle_set_property_conf ::
  "glib_env \<Rightarrow> ProxyConfig_conf \<Rightarrow> connection option \<Rightarrow> string \<Rightarrow> string \<Rightarrow> gvariant
   \<Rightarrow> bool \<times> gerror option \<times> action list" where
  "handle_set_property_conf env config bus interface_name property_name val =
     (case g_dbus_connection_call_sync env bus (conf_source_bus_name config)
             (conf_source_object_path config) ''org.freedesktop.DBus.Properties'' ''Set''
             (Some (GV_tuple [GV_string interface_name, GV_string property_name, GV_variant val]))
             None (conf_timeout_ms config) of
        ((result, error), tr) \<Rightarrow>
          (case result of
             None \<Rightarrow>
               (False, error,
                tr @ (if conf_verbose config
                      then log_message config
                             (''Failed to set property '' @ interface_name @ ''.'' @ property_name
                              @ '': '' @ message_or_unknown error)
                      else []))
           | Some r \<Rightarrow> (True, error, tr)))"

definition on_signal_received_conf ::
  "glib_env \<Rightarrow> ProxyConfig_conf \<Rightarrow> connection option \<Rightarrow> string \<Rightarrow> string \<Rightarrow> gvariant
   \<Rightarrow> action list" where
  "on_signal_received_conf env config bus interface_name signal_name parameters =
     (case g_dbus_connection_emit_signal env bus (conf_source_object_path config)
             interface_name signal_name parameters of
        ((success, error), tr) \<Rightarrow>
          tr @ (if \<not> success \<and> conf_verbose config
                then log_message config (''Failed to emit signal: '' @ message_or_unknown error)
                     @ (case error of Some e \<Rightarrow> g_error_free (Some e) | None \<Rightarrow> [])
                else []))"

definition subscribe_to_properties_changed ::
  "glib_env \<Rightarrow> ProxyConfig_conf \<Rightarrow> connection option \<Rightarrow> action list" where
  "subscribe_to_properties_changed env config bus =
     (case g_dbus_connection_signal_subscribe env bus (conf_source_bus_name config)
             ''org.freedesktop.DBus.Properties'' ''PropertiesChanged''
             (conf_source_object_path config) of
        (subscription_id, tr) \<Rightarrow>
          tr @ (if subscription_id = 0
                then [Printerr ''Failed to subscribe to PropertiesChanged signals'']
                else []))"

text \<open>The inner loop of \<^verbatim>\<open>main\<close>, over the signals of one registered interface.\<close>

fun main_conf_signal_loop ::
  "glib_env \<Rightarrow> ProxyConfig_conf \<Rightarrow> connection option \<Rightarrow> string \<Rightarrow> string list \<Rightarrow> action list" where
  "main_conf_signal_loop env config bus iname [] = []"
| "main_conf_signal_loop env config bus iname (s # rest) =
     (case g_dbus_connection_signal_subscribe env bus (conf_source_bus_name config) iname s
             (conf_source_object_path config) of
        (subscription_id, tr) \<Rightarrow>
          tr @ (if subscription_id = 0
                then [Printerr (''Failed to subscribe to signal '' @ iname @ ''.'' @ s)]
                else [])
          @ main_conf_signal_loop env config bus iname rest)"

text \<open>
  The outer loop of \<^verbatim>\<open>main\<close>. As in the multi-bus proxy, the error variable lives
  outside the loop and is freed, not reset, after a failed registration. The two
  counters of the loop feed an informational line only.
\<close>

fun main_conf_loop ::
  "glib_env \<Rightarrow> ProxyConfig_conf \<Rightarrow> connection option \<Rightarrow> interface_info list \<Rightarrow> gerror ptr
   \<Rightarrow> fault + (gerror ptr \<times> action list)" where
  "main_conf_loop env config bus [] error = Inr (error, [])"
| "main_conf_loop env config bus (iface # rest) error =
     (case g_dbus_connection_register_object env bus (conf_source_object_path config)
             (iface_name iface) error of
        ((reg_id, error1), tr1) \<Rightarrow>
          if reg_id = 0 then
            (case error1 of
               Null \<Rightarrow> Inl Null_dereference
             | Freed \<Rightarrow> Inl Use_after_free
             | Live e \<Rightarrow>
                 (case main_conf_loop env config bus rest Freed of
                    Inl f \<Rightarrow> Inl f
                  | Inr (error', tr2) \<Rightarrow>
                      Inr (error',
                           tr1 @ [Printerr (''Failed to register interface '' @ iface_name iface
                                            @ '': '' @ err_message e),
                                  Error_free e] @ tr2)))
          else
            (case main_conf_loop env config bus rest error1 of
               Inl f \<Rightarrow> Inl f
             | Inr (error', tr3) \<Rightarrow>
                 Inr (error',
                      tr1 @ main_conf_signal_loop env config bus (iface_name iface)
                              (case iface_signals iface of None \<Rightarrow> [] | Some sigs \<Rightarrow> sigs)
                      @ tr3)))"

text \<open>
  The block of \<^verbatim>\<open>main\<close> that opens the log file, when one is configured: the new value
  of the global \<^verbatim>\<open>log_fp\<close> (whether a stream is open) and the actions. A file that cannot
  be opened is a warning only.
\<close>

definition main_conf_open_log :: "glib_env \<Rightarrow> ProxyConfig_conf \<Rightarrow> bool \<times> action list" where
  "main_conf_open_log env config =
     (if conf_log_file config \<noteq> []
      then (case fopen env (conf_log_file config) of
              (log_fp, trf) \<Rightarrow>
                (log_fp,
                 trf @ (if \<not> log_fp
                        then [Printerr (''Warning: Cannot open log file: ''
                                        @ conf_log_file config)]
                        else [])))
      else (False, []))"

text \<open>
  \<^verbatim>\<open>main\<close> of the configuration-file proxy, from the validation of the loaded
  configuration on. The main loop of this program is never left.
\<close>

definition main_conf ::
  "glib_env \<Rightarrow> ProxyConfig_conf \<Rightarrow> bool \<Rightarrow> fault + (int \<times> action list)" where
  "main_conf env config show_config_only =
     (case validate config of
        (False, tr0) \<Rightarrow> Inr (1, tr0)
      | (True, tr0) \<Rightarrow>
     (if show_config_only then Inr (0, tr0) else
     (case main_conf_open_log env config of
        (log_fp, trl) \<Rightarrow>
     (case g_bus_get_sync env
             (if conf_bus_type config = ''system'' then G_BUS_TYPE_SYSTEM else G_BUS_TYPE_SESSION) of
        ((None, None), tr1) \<Rightarrow> Inl Null_dereference
      | ((None, Some e), tr1) \<Rightarrow>
          Inr (1, tr0 @ trl @ tr1 @ [Printerr (''Failed to connect to '' @ conf_bus_type config
                                               @ '' bus: '' @ err_message e),
                                     Error_free e])
      | ((Some b, error1), tr1) \<Rightarrow>
     (case g_dbus_connection_call_sync env (Some b) (conf_source_bus_name config)
             (conf_source_object_path config) ''org.freedesktop.DBus.Introspectable''
             ''Introspect'' None (Some Reply_s) (conf_timeout_ms config) of
        ((None, None), tr2) \<Rightarrow> Inl Null_dereference
      | ((None, Some e), tr2) \<Rightarrow>
          Inr (1, tr0 @ trl @ tr1 @ tr2 @ [Printerr (''Introspection failed: '' @ err_message e),
                                           Error_free e])
      | ((Some xml, error2), tr2) \<Rightarrow>
     (case g_variant_get_s xml of
        None \<Rightarrow> Inl Null_dereference
      | Some xml_data \<Rightarrow>
     (case g_dbus_node_info_new_for_xml env xml_data of
        (None, None) \<Rightarrow> Inl Null_dereference
      | (None, Some e) \<Rightarrow>
          Inr (1, tr0 @ trl @ tr1 @ tr2 @ [Printerr (''Failed to parse introspection XML: ''
                                                     @ err_message e),
                                           Error_free e])
      | (Some info, error3) \<Rightarrow>
     (case interfaces info of
        None \<Rightarrow> Inl Null_dereference
      | Some ifaces \<Rightarrow>
     (case main_conf_loop env config (Some b) ifaces Null of
        Inl f \<Rightarrow> Inl f
      | Inr (error4, tr3) \<Rightarrow>
          Inr (0,
               tr0 @ trl @ tr1 @ tr2 @ tr3
               @ subscribe_to_properties_changed env config (Some b)
               @ [Own_name (if conf_bus_type config = ''system'' then G_BUS_TYPE_SYSTEM
                            else G_BUS_TYPE_SESSION)
                    (conf_proxy_bus_name config),
                  Main_loop_run]))))))))))"

section \<open>A concrete source service and two buses\<close>

text \<open>
  The inputs of the concrete runs below. The system bus is connection 1, the session bus
  connection 2, and no other address can be reached. The service \<^verbatim>\<open>org.example.Source\<close>
  answers \<^verbatim>\<open>Introspect\<close>, echoes the arguments of \<^verbatim>\<open>Echo\<close>, answers a property read
  with the variant of 42 and accepts a property write; every other call fails, and so
  does every call to another service. The interfaces \<^verbatim>\<open>com.example.Demo\<close> and
  \<^verbatim>\<open>com.example.Second\<close> can be registered; any other registration fails. Only the signal
  \<^verbatim>\<open>Ping\<close> can be emitted, and only the file \<^verbatim>\<open>/tmp/proxy.log\<close> can be opened.
\<close>

definition err_no_service :: gerror where
  "err_no_service =
     \<lparr>err_domain = ''g-dbus-error-quark'', err_code = 2, err_message = ''no such service''\<rparr>"

definition demo_env :: "interface_info list option \<Rightarrow> glib_env" where
  "demo_env ifaces =
     \<lparr>bus_get_result = (\<lambda>t. case t of G_BUS_TYPE_SYSTEM \<Rightarrow> Inr 1 | G_BUS_TYPE_SESSION \<Rightarrow> Inr 2),
      address_result = (\<lambda>a. Inl err_no_service),
      call_result = (\<lambda>b dest path iface meth params.
        if dest \<noteq> ''org.example.Source'' then Inl err_no_service
        else if meth = ''Introspect'' then Inr (GV_tuple [GV_string ''<node/>''])
        else if meth = ''Echo'' then (case params of Some v \<Rightarrow> Inr v | None \<Rightarrow> Inl err_no_service)
        else if meth = ''Get'' then Inr (GV_tuple [GV_variant (GV_int 42)])
        else if meth = ''Set'' then Inr (GV_tuple [])
        else Inl err_no_service),
      xml_result = (\<lambda>x. Inr \<lparr>interfaces = ifaces\<rparr>),
      register_result = (\<lambda>b path iname.
        if iname = ''com.example.Demo'' then Inr 1
        else if iname = ''com.example.Second'' then Inr 2
        else Inl err_no_service),
      subscribe_result = (\<lambda>b sender iface sig path. 7),
      emit_result = (\<lambda>b path iface sig params. if sig = ''Ping'' then None else Some err_no_service),
      own_name_result = (\<lambda>b name. 1),
      fopen_result = (\<lambda>filename. filename = ''/tmp/proxy.log'')\<rparr>"

definition demo_iface :: interface_info where
  "demo_iface = \<lparr>iface_name = ''com.example.Demo'', iface_signals = Some [''Ping'']\<rparr>"

definition second_iface :: interface_info where
  "second_iface = \<lparr>iface_name = ''com.example.Second'', iface_signals = None\<rparr>"

definition taken_iface :: interface_info where
  "taken_iface = \<lparr>iface_name = ''com.example.Taken'', iface_signals = None\<rparr>"

definition demo_ctx :: ProxyContext where
  "demo_ctx =
     \<lparr>source_bus = Some 1, target_bus = Some 2, source_bus_name = ''org.example.Source'',
      source_object_path = ''/org/example'', proxy_bus_name = ''org.example.Proxy'',
      introspection_data = Some \<lparr>interfaces = Some [demo_iface]\<rparr>, registration_id = 1,
      signal_subscriptions = [7]\<rparr>"

definition demo_config_cross :: ProxyConfig_cross where
  "demo_config_cross =
     \<lparr>cfg_source_bus_name = ''org.example.Source'', cfg_source_object_path = ''/org/example'',
      cfg_proxy_bus_name = ''org.example.Proxy'', cfg_source_bus_type = G_BUS_TYPE_SYSTEM,
      cfg_target_bus_type = G_BUS_TYPE_SESSION, cfg_verbose = False\<rparr>"

definition demo_state :: ProxyState where
  "demo_state =
     \<lparr>st_source_bus = Some 1, st_target_bus = Some 2,
      st_introspection_data = Some \<lparr>interfaces = Some [demo_iface]\<rparr>,
      st_registered_objects = [(1, ''com.example.Demo'')],
      st_signal_subscriptions =
        [(7, ''org.freedesktop.DBus.Properties.PropertiesChanged'')],
      st_config = demo_config_cross\<rparr>"

definition demo_config_conf :: "bool \<Rightarrow> ProxyConfig_conf" where
  "demo_config_conf v =
     \<lparr>conf_source_bus_name = ''org.example.Source'', conf_source_object_path = ''/org/example'',
      conf_proxy_bus_name = ''org.example.Proxy'', conf_bus_type = ''system'', conf_verbose = v,
      conf_enable_logging = True, conf_timeout_ms = 30000, conf_log_file = []\<rparr>"

definition gone_ctx :: ProxyContext where
  "gone_ctx = demo_ctx\<lparr>source_bus_name := ''org.example.Gone''\<rparr>"

definition gone_config_cross :: ProxyConfig_cross where
  "gone_config_cross = demo_config_cross\<lparr>cfg_source_bus_name := ''org.example.Gone''\<rparr>"

definition gone_state :: ProxyState where
  "gone_state = demo_state\<lparr>st_config := gone_config_cross\<rparr>"

definition gone_config_conf :: "bool \<Rightarrow> ProxyConfig_conf" where
  "gone_config_conf v = (demo_config_conf v)\<lparr>conf_source_bus_name := ''org.example.Gone''\<rparr>"


text \<open>A configuration with a log file that cannot be opened.\<close>

definition unlogged_config_conf :: ProxyConfig_conf where
  "unlogged_config_conf = (demo_config_conf False)\<lparr>conf_log_file := ''/var/log/proxy.log''\<rparr>"

text \<open>The same environment with both buses down.\<close>

definition down_env :: glib_env where
  "down_env = (demo_env None)\<lparr>bus_get_result := (\<lambda>t. Inl err_no_service)\<rparr>"

section \<open>Predicates on actions, for the statements\<close>

fun is_method_call :: "action \<Rightarrow> bool" where
  "is_method_call (Method_call b dest path iface meth params timeout) = True"
| "is_method_call _ = False"



fun is_release :: "action \<Rightarrow> bool" where
  "is_release (Unregister_object b rid) = True"
| "is_release (Signal_unsubscribe b sid) = True"
| "is_release _ = False"


text \<open>
  The signals an interface declares; the identifier a registration of the interface
  returns, 0 for a failure; and the subscriptions that stand for the declared signals of a
  list of interfaces, one for each signal.
\<close>

definition signals_of :: "interface_info \<Rightarrow> string list" where
  "signals_of iface = (case iface_signals iface of None \<Rightarrow> [] | Some sigs \<Rightarrow> sigs)"

definition returned_id :: "glib_env \<Rightarrow> connection \<Rightarrow> string \<Rightarrow> interface_info \<Rightarrow> nat" where
  "returned_id env tb path iface =
     (case register_result env tb path (iface_name iface) of Inl e \<Rightarrow> 0 | Inr rid \<Rightarrow> rid)"

definition registered :: "glib_env \<Rightarrow> connection \<Rightarrow> string \<Rightarrow> interface_info \<Rightarrow> bool" where
  "registered env tb path iface = (returned_id env tb path iface \<noteq> 0)"

definition signal_subscription ::
  "glib_env \<Rightarrow> connection \<Rightarrow> string \<Rightarrow> string \<Rightarrow> string \<Rightarrow> string \<Rightarrow> action" where
  "signal_subscription env sb sender path iname s =
     Signal_subscribe sb sender iname s path (subscribe_result env sb sender iname s path)"



text \<open>
  The actions of registering an interface and subscribing to the signals it declares, and
  the identifiers of the subscriptions to the declared signals of a list of interfaces.
\<close>

definition registration_of ::
  "glib_env \<Rightarrow> connection \<Rightarrow> connection \<Rightarrow> string \<Rightarrow> string \<Rightarrow> interface_info \<Rightarrow> action list" where
  "registration_of env sb tb sender path iface =
     Register_object tb path (iface_name iface) (returned_id env tb path iface)
     # map (signal_subscription env sb sender path (iface_name iface)) (signals_of iface)"

definition subscription_ids ::
  "glib_env \<Rightarrow> connection \<Rightarrow> string \<Rightarrow> string \<Rightarrow> interface_info list \<Rightarrow> nat list" where
  "subscription_ids env sb sender path ifaces =
     concat (map (\<lambda>iface. map (\<lambda>s. subscribe_result env sb sender (iface_name iface) s path)
                            (signals_of iface))
               ifaces)"

text \<open>
  The identifiers that a run creates and releases: the identifier of a registration that
  succeeded, of a subscription, of an unregistration and of an unsubscription.
\<close>

fun register_id_of :: "action \<Rightarrow> nat option" where
  "register_id_of (Register_object b path iname rid) = (if rid = 0 then None else Some rid)"
| "register_id_of _ = None"

fun subscribe_id_of :: "action \<Rightarrow> nat option" where
  "subscribe_id_of (Signal_subscribe b sender iface sig path sid) = Some sid"
| "subscribe_id_of _ = None"

fun unregister_id_of :: "action \<Rightarrow> nat option" where
  "unregister_id_of (Unregister_object b rid) = Some rid"
| "unregister_id_of _ = None"

fun unsubscribe_id_of :: "action \<Rightarrow> nat option" where
  "unsubscribe_id_of (Signal_unsubscribe b sid) = Some sid"
| "unsubscribe_id_of _ = None"

section \<open>Forwarded method calls\<close>

lemma replies_method_call_ready:
  "replies (method_call_ready invoc (call_answer env b dest path iface meth params None)) =
     (case call_result env b dest path iface meth params of
        Inl e \<Rightarrow> [Return_error invoc e]
      | Inr v \<Rightarrow> [Return_value invoc v])"
  by (simp add: replies_def method_call_ready_def call_answer_def
        g_dbus_method_invocation_return_gerror_def g_error_free_def split: sum.split)

lemma replies_method_call_ready_cross:
  "replies (method_call_ready_cross invoc (call_answer env b dest path iface meth params None)) =
     (case call_result env b dest path iface meth params of
        Inl e \<Rightarrow> [Return_error invoc e]
      | Inr v \<Rightarrow> [Return_value invoc v])"
  by (simp add: replies_def method_call_ready_cross_def call_answer_def log_error_def
        g_dbus_method_invocation_return_gerror_def g_error_free_def split: sum.split)

lemma replies_method_call_ready_conf:
  "replies (method_call_ready_conf config invoc
              (call_answer env b dest path iface meth params None)) =
     (case call_result env b dest path iface meth params of
        Inl e \<Rightarrow> [Return_error invoc \<lparr>err_domain = G_IO_ERROR, err_code = G_IO_ERROR_FAILED,
                                      err_message = err_message e\<rparr>]
      | Inr v \<Rightarrow> [Return_value invoc v])"
  by (simp add: replies_def method_call_ready_conf_def call_answer_def log_message_def
        g_dbus_method_invocation_return_error_literal_def g_error_free_def split: sum.split)

lemma replies_handle_method_call:
  "source_bus ctx = Some b \<Longrightarrow>
   replies (handle_method_call env ctx iface meth params invoc) =
     (case call_result env b (source_bus_name ctx) (source_object_path ctx) iface meth
             (Some params) of
        Inl e \<Rightarrow> [Return_error invoc e]
      | Inr v \<Rightarrow> [Return_value invoc v])"
  using replies_method_call_ready [of invoc env b]
  by (simp add: handle_method_call_def g_dbus_connection_call_def replies_def)

lemma replies_handle_method_call_cross:
  "st_source_bus st = Some b \<Longrightarrow>
   replies (handle_method_call_cross env st iface meth params invoc) =
     (case call_result env b (cfg_source_bus_name (st_config st))
             (cfg_source_object_path (st_config st)) iface meth (Some params) of
        Inl e \<Rightarrow> [Return_error invoc e]
      | Inr v \<Rightarrow> [Return_value invoc v])"
  using replies_method_call_ready_cross [of invoc env b]
  by (simp add: handle_method_call_cross_def g_dbus_connection_call_def replies_def)

lemma replies_handle_method_call_conf:
  "replies (handle_method_call_conf env config (Some b) iface meth params invoc) =
     (case call_result env b (conf_source_bus_name config) (conf_source_object_path config)
             iface meth (Some params) of
        Inl e \<Rightarrow> [Return_error invoc \<lparr>err_domain = G_IO_ERROR, err_code = G_IO_ERROR_FAILED,
                                      err_message = err_message e\<rparr>]
      | Inr v \<Rightarrow> [Return_value invoc v])"
  using replies_method_call_ready_conf [of config invoc env b]
  by (simp add: handle_method_call_conf_def g_dbus_connection_call_def replies_def)

lemma forwarded_handle_method_call:
  "source_bus ctx = Some b \<Longrightarrow>
   filter is_method_call (handle_method_call env ctx iface meth params invoc)
     = [Method_call b (source_bus_name ctx) (source_object_path ctx) iface meth (Some params)
          (- 1)]"
  by (simp add: handle_method_call_def g_dbus_connection_call_def method_call_ready_def
        call_answer_def g_dbus_method_invocation_return_gerror_def g_error_free_def
        split: sum.split)

lemma forwarded_handle_method_call_cross:
  "st_source_bus st = Some b \<Longrightarrow>
   filter is_method_call (handle_method_call_cross env st iface meth params invoc)
     = [Method_call b (cfg_source_bus_name (st_config st))
          (cfg_source_object_path (st_config st)) iface meth (Some params) (- 1)]"
  by (simp add: handle_method_call_cross_def g_dbus_connection_call_def
        method_call_ready_cross_def call_answer_def log_error_def
        g_dbus_method_invocation_return_gerror_def g_error_free_def split: sum.split)

lemma forwarded_handle_method_call_conf:
  "filter is_method_call (handle_method_call_conf env config (Some b) iface meth params invoc)
     = [Method_call b (conf_source_bus_name config) (conf_source_object_path config) iface meth
          (Some params) (conf_timeout_ms config)]"
  by (simp add: handle_method_call_conf_def g_dbus_connection_call_def
        method_call_ready_conf_def call_answer_def log_message_def
        g_dbus_method_invocation_return_error_literal_def g_error_free_def split: sum.split)

text \<open>
  C1. In each of the three programs, a method call that reaches the handler of a proxy
  whose source connection is open is forwarded: the handler makes one method call, to
  the source service at the source object path, with the interface, the method and the
  parameters it was given. The invocation then receives exactly one reply, addressed to
  itself, never none and never two: the value the source returned when the forwarded
  call succeeds, and an error when it fails, which is the source's error in the
  multi-bus and the cross-bus proxy and an error with the source's message in the
  configuration-file proxy.
\<close>

theorem exactly_one_reply:
  assumes "source_bus ctx = Some b" and "st_source_bus st = Some b'"
  shows "filter is_method_call (handle_method_call env ctx iface meth params invoc)
           = [Method_call b (source_bus_name ctx) (source_object_path ctx) iface meth
                (Some params) (- 1)]
       \<and> replies (handle_method_call env ctx iface meth params invoc)
           = [case call_result env b (source_bus_name ctx) (source_object_path ctx) iface meth
                     (Some params) of
                Inl e \<Rightarrow> Return_error invoc e
              | Inr v \<Rightarrow> Return_value invoc v]
       \<and> filter is_method_call (handle_method_call_cross env st iface meth params invoc)
           = [Method_call b' (cfg_source_bus_name (st_config st))
                (cfg_source_object_path (st_config st)) iface meth (Some params) (- 1)]
       \<and> replies (handle_method_call_cross env st iface meth params invoc)
           = [case call_result env b' (cfg_source_bus_name (st_config st))
                     (cfg_source_object_path (st_config st)) iface meth (Some params) of
                Inl e \<Rightarrow> Return_error invoc e
              | Inr v \<Rightarrow> Return_value invoc v]
       \<and> filter is_method_call
           (handle_method_call_conf env config (Some b'') iface meth params invoc)
           = [Method_call b'' (conf_source_bus_name config) (conf_source_object_path config)
                iface meth (Some params) (conf_timeout_ms config)]
       \<and> replies (handle_method_call_conf env config (Some b'') iface meth params invoc)
           = [case call_result env b'' (conf_source_bus_name config)
                     (conf_source_object_path config) iface meth (Some params) of
                Inl e \<Rightarrow> Return_error invoc \<lparr>err_domain = G_IO_ERROR,
                                              err_code = G_IO_ERROR_FAILED,
                                              err_message = err_message e\<rparr>
              | Inr v \<Rightarrow> Return_value invoc v]"
proof -
  note f = forwarded_handle_method_call [OF assms(1), of env iface meth params invoc]
  have r: "replies (handle_method_call env ctx iface meth params invoc)
           = [case call_result env b (source_bus_name ctx) (source_object_path ctx) iface meth
                     (Some params) of
                Inl e \<Rightarrow> Return_error invoc e
              | Inr v \<Rightarrow> Return_value invoc v]"
    by (simp add: replies_handle_method_call [OF assms(1)] split: sum.split)
  note fx = forwarded_handle_method_call_cross [OF assms(2), of env iface meth params invoc]
  have rx: "replies (handle_method_call_cross env st iface meth params invoc)
           = [case call_result env b' (cfg_source_bus_name (st_config st))
                     (cfg_source_object_path (st_config st)) iface meth (Some params) of
                Inl e \<Rightarrow> Return_error invoc e
              | Inr v \<Rightarrow> Return_value invoc v]"
    by (simp add: replies_handle_method_call_cross [OF assms(2)] split: sum.split)
  note fc = forwarded_handle_method_call_conf [of env config b'' iface meth params invoc]
  have rc: "replies (handle_method_call_conf env config (Some b'') iface meth params invoc)
           = [case call_result env b'' (conf_source_bus_name config)
                     (conf_source_object_path config) iface meth (Some params) of
                Inl e \<Rightarrow> Return_error invoc \<lparr>err_domain = G_IO_ERROR,
                                              err_code = G_IO_ERROR_FAILED,
                                              err_message = err_message e\<rparr>
              | Inr v \<Rightarrow> Return_value invoc v]"
    by (simp add: replies_handle_method_call_conf split: sum.split)
  from f r fx rx fc rc show ?thesis
    by (intro conjI) assumption+
qed

text \<open>
  The source answers \<^verbatim>\<open>Echo\<close> with its arguments and fails every call of \<^verbatim>\<open>Fail\<close>.
\<close>

theorem exactly_one_reply_witness:
  "source_bus demo_ctx = Some 1 \<and> st_source_bus demo_state = Some 1
   \<and> filter is_method_call (handle_method_call (demo_env None) demo_ctx ''com.example.Demo''
                              ''Fail'' (GV_tuple []) 5)
       = [Method_call 1 ''org.example.Source'' ''/org/example'' ''com.example.Demo'' ''Fail''
            (Some (GV_tuple [])) (- 1)]
   \<and> replies (handle_method_call (demo_env None) demo_ctx ''com.example.Demo'' ''Fail''
                (GV_tuple []) 5)
       = [Return_error 5 err_no_service]
   \<and> filter is_method_call (handle_method_call_cross (demo_env None) demo_state
                              ''com.example.Demo'' ''Echo'' (GV_tuple [GV_string ''hi'']) 6)
       = [Method_call 1 ''org.example.Source'' ''/org/example'' ''com.example.Demo'' ''Echo''
            (Some (GV_tuple [GV_string ''hi''])) (- 1)]
   \<and> replies (handle_method_call_cross (demo_env None) demo_state ''com.example.Demo''
                ''Echo'' (GV_tuple [GV_string ''hi'']) 6)
       = [Return_value 6 (GV_tuple [GV_string ''hi''])]
   \<and> filter is_method_call (handle_method_call_conf (demo_env None) (demo_config_conf False)
                              (Some 1) ''com.example.Demo'' ''Echo'' (GV_tuple [GV_int 3]) 7)
       = [Method_call 1 ''org.example.Source'' ''/org/example'' ''com.example.Demo'' ''Echo''
            (Some (GV_tuple [GV_int 3])) 30000]
   \<and> replies (handle_method_call_conf (demo_env None) (demo_config_conf False) (Some 1)
                ''com.example.Demo'' ''Echo'' (GV_tuple [GV_int 3]) 7)
       = [Return_value 7 (GV_tuple [GV_int 3])]"
proof -
  have a: "source_bus demo_ctx = Some 1"
    by (simp add: demo_ctx_def)
  have b: "st_source_bus demo_state = Some 1"
    by (simp add: demo_state_def)
  have fail: "call_result (demo_env None) c ''org.example.Source'' path iface ''Fail'' params
                = Inl err_no_service" for c path iface params
    by (simp add: demo_env_def)
  have echo: "call_result (demo_env None) c ''org.example.Source'' path iface ''Echo'' (Some v)
                = Inr v" for c path iface v
    by (simp add: demo_env_def)
  have names: "source_bus_name demo_ctx = ''org.example.Source''"
    "source_object_path demo_ctx = ''/org/example''"
    "cfg_source_bus_name (st_config demo_state) = ''org.example.Source''"
    "cfg_source_object_path (st_config demo_state) = ''/org/example''"
    "conf_source_bus_name (demo_config_conf False) = ''org.example.Source''"
    "conf_source_object_path (demo_config_conf False) = ''/org/example''"
    "conf_timeout_ms (demo_config_conf False) = 30000"
    by (simp_all add: demo_ctx_def demo_state_def demo_config_cross_def demo_config_conf_def)
  note t1 = exactly_one_reply [OF a b, where env = "demo_env None"
      and iface = "''com.example.Demo''" and meth = "''Fail''" and params = "GV_tuple []"
      and invoc = 5 and config = "demo_config_conf False" and b'' = 1]
  note t2 = exactly_one_reply [OF a b, where env = "demo_env None"
      and iface = "''com.example.Demo''" and meth = "''Echo''"
      and params = "GV_tuple [GV_string ''hi'']"
      and invoc = 6 and config = "demo_config_conf False" and b'' = 1]
  note t3 = exactly_one_reply [OF a b, where env = "demo_env None"
      and iface = "''com.example.Demo''" and meth = "''Echo''" and params = "GV_tuple [GV_int 3]"
      and invoc = 7 and config = "demo_config_conf False" and b'' = 1]
  show ?thesis
    using a b t1 t2 t3 by (simp add: names fail echo)
qed

text \<open>
  C4, as the code has it. When the forwarded call fails, the multi-bus and the cross-bus
  proxy reply with the source's error itself: domain, code and message. The
  configuration-file proxy replies with an error of its own, domain \<^verbatim>\<open>G_IO_ERROR\<close> and
  code \<^verbatim>\<open>G_IO_ERROR_FAILED\<close>, that carries the source's message.
\<close>

theorem source_error_reply:
  assumes "source_bus ctx = Some b"
    and "call_result env b (source_bus_name ctx) (source_object_path ctx) iface meth
           (Some params) = Inl e"
    and "st_source_bus st = Some b'"
    and "call_result env b' (cfg_source_bus_name (st_config st))
           (cfg_source_object_path (st_config st)) iface meth (Some params) = Inl e'"
    and "call_result env b'' (conf_source_bus_name config) (conf_source_object_path config)
           iface meth (Some params) = Inl e''"
  shows "replies (handle_method_call env ctx iface meth params invoc) = [Return_error invoc e]
       \<and> replies (handle_method_call_cross env st iface meth params invoc)
           = [Return_error invoc e']
       \<and> replies (handle_method_call_conf env config (Some b'') iface meth params invoc)
           = [Return_error invoc \<lparr>err_domain = G_IO_ERROR, err_code = G_IO_ERROR_FAILED,
                                   err_message = err_message e''\<rparr>]"
  using assms
  by (simp add: replies_handle_method_call replies_handle_method_call_cross
        replies_handle_method_call_conf)

lemma demo_call_gone:
  "call_result (demo_env ifaces) b ''org.example.Gone'' path iface meth params
     = Inl err_no_service"
  by (simp add: demo_env_def)

theorem source_error_reply_witness:
  "source_bus gone_ctx = Some 1
   \<and> call_result (demo_env None) 1 (source_bus_name gone_ctx) (source_object_path gone_ctx)
       ''com.example.Demo'' ''Echo'' (Some (GV_tuple [])) = Inl err_no_service
   \<and> st_source_bus gone_state = Some 1
   \<and> replies (handle_method_call (demo_env None) gone_ctx ''com.example.Demo'' ''Echo''
                (GV_tuple []) 5) = [Return_error 5 err_no_service]
   \<and> replies (handle_method_call_cross (demo_env None) gone_state ''com.example.Demo'' ''Echo''
                (GV_tuple []) 5) = [Return_error 5 err_no_service]
   \<and> replies (handle_method_call_conf (demo_env None) (gone_config_conf False) (Some 1)
                ''com.example.Demo'' ''Echo'' (GV_tuple []) 5)
       = [Return_error 5 \<lparr>err_domain = G_IO_ERROR, err_code = G_IO_ERROR_FAILED,
                          err_message = err_message err_no_service\<rparr>]"
proof -
  have a: "source_bus gone_ctx = Some 1"
    by (simp add: gone_ctx_def demo_ctx_def)
  have b: "call_result (demo_env None) 1 (source_bus_name gone_ctx) (source_object_path gone_ctx)
             ''com.example.Demo'' ''Echo'' (Some (GV_tuple [])) = Inl err_no_service"
    by (simp add: gone_ctx_def demo_ctx_def demo_call_gone)
  have c: "st_source_bus gone_state = Some 1"
    by (simp add: gone_state_def demo_state_def)
  have d: "call_result (demo_env None) 1 (cfg_source_bus_name (st_config gone_state))
             (cfg_source_object_path (st_config gone_state)) ''com.example.Demo'' ''Echo''
             (Some (GV_tuple [])) = Inl err_no_service"
    by (simp add: gone_state_def gone_config_cross_def demo_config_cross_def demo_call_gone)
  have e: "call_result (demo_env None) 1 (conf_source_bus_name (gone_config_conf False))
             (conf_source_object_path (gone_config_conf False)) ''com.example.Demo'' ''Echo''
             (Some (GV_tuple [])) = Inl err_no_service"
    by (simp add: gone_config_conf_def demo_config_conf_def demo_call_gone)
  show ?thesis
    using a b c source_error_reply [OF a b c d e] by simp
qed

text \<open>
  C4 as the specification states it fails in the configuration-file proxy: the source's
  error has the domain of GDBus errors, and the reply the caller receives has the domain
  \<^verbatim>\<open>G_IO_ERROR\<close> and the code 0.
\<close>

theorem source_error_reply_counterexample:
  "call_result (demo_env None) 1 ''org.example.Gone'' ''/org/example'' ''com.example.Demo''
     ''Echo'' (Some (GV_tuple [])) = Inl err_no_service
   \<and> err_domain err_no_service = ''g-dbus-error-quark''
   \<and> replies (handle_method_call_conf (demo_env None) (gone_config_conf False) (Some 1)
                ''com.example.Demo'' ''Echo'' (GV_tuple []) 5)
       = [Return_error 5 \<lparr>err_domain = ''g-io-error-quark'', err_code = 0,
                          err_message = ''no such service''\<rparr>]
   \<and> replies (handle_method_call_conf (demo_env None) (gone_config_conf False) (Some 1)
                ''com.example.Demo'' ''Echo'' (GV_tuple []) 5)
       \<noteq> [Return_error 5 err_no_service]"
  by (simp add: replies_handle_method_call_conf gone_config_conf_def demo_config_conf_def
        demo_call_gone err_no_service_def G_IO_ERROR_def G_IO_ERROR_FAILED_def)

section \<open>Property access\<close>

text \<open>
  The case that \<^verbatim>\<open>g_variant_get\<close> meets a reply that is not the variant of a one-tuple
  does not arise: \<^verbatim>\<open>g_dbus_connection_call_sync\<close> has checked the reply type.
\<close>

lemma has_reply_type_v:
  assumes "has_reply_type (Some Reply_v) r"
  shows "\<exists>v. r = GV_tuple [GV_variant v]"
proof (cases r)
  case (GV_tuple xs)
  show ?thesis
  proof (cases xs)
    case Nil
    with assms GV_tuple show ?thesis by simp
  next
    case (Cons x ys)
    with assms GV_tuple show ?thesis
      by (cases x; cases ys) simp_all
  qed
qed (use assms in simp_all)

lemma call_sync_reply_v:
  assumes "fst (g_dbus_connection_call_sync env bus dest path iface meth params (Some Reply_v)
                  timeout) = (Some r, error)"
  shows "\<exists>v. r = GV_tuple [GV_variant v]"
proof (cases bus)
  case None
  with assms show ?thesis
    by (simp add: g_dbus_connection_call_sync_def)
next
  case (Some b)
  with assms have "has_reply_type (Some Reply_v) r"
    by (auto simp: g_dbus_connection_call_sync_def call_answer_def
          split: sum.splits if_splits)
  then show ?thesis
    by (rule has_reply_type_v)
qed

lemma get_property_value:
  assumes "source_bus ctx = Some b"
    and "call_result env b (source_bus_name ctx) (source_object_path ctx)
           ''org.freedesktop.DBus.Properties'' ''Get''
           (Some (GV_tuple [GV_string iface, GV_string pname])) = Inr (GV_tuple [GV_variant v])"
  shows "handle_get_property env ctx iface pname
       = (Some v, None,
          [Method_call b (source_bus_name ctx) (source_object_path ctx)
             ''org.freedesktop.DBus.Properties'' ''Get''
             (Some (GV_tuple [GV_string iface, GV_string pname])) (- 1)])"
  using assms
  by (simp add: handle_get_property_def g_dbus_connection_call_sync_def call_answer_def
        g_variant_get_v_def)

lemma get_property_error:
  assumes "source_bus ctx = Some b"
    and "call_result env b (source_bus_name ctx) (source_object_path ctx)
           ''org.freedesktop.DBus.Properties'' ''Get''
           (Some (GV_tuple [GV_string iface, GV_string pname])) = Inl e"
  shows "handle_get_property env ctx iface pname
       = (None, Some e,
          [Method_call b (source_bus_name ctx) (source_object_path ctx)
             ''org.freedesktop.DBus.Properties'' ''Get''
             (Some (GV_tuple [GV_string iface, GV_string pname])) (- 1)])"
  using assms
  by (simp add: handle_get_property_def g_dbus_connection_call_sync_def call_answer_def)

lemma set_property_result:
  assumes "source_bus ctx = Some b"
  shows "handle_set_property env ctx iface pname val
       = (case call_result env b (source_bus_name ctx) (source_object_path ctx)
                 ''org.freedesktop.DBus.Properties'' ''Set''
                 (Some (GV_tuple [GV_string iface, GV_string pname, GV_variant val])) of
            Inl e \<Rightarrow> (False, Some e,
                      [Method_call b (source_bus_name ctx) (source_object_path ctx)
                         ''org.freedesktop.DBus.Properties'' ''Set''
                         (Some (GV_tuple [GV_string iface, GV_string pname, GV_variant val]))
                         (- 1)])
          | Inr r \<Rightarrow> (True, None,
                      [Method_call b (source_bus_name ctx) (source_object_path ctx)
                         ''org.freedesktop.DBus.Properties'' ''Set''
                         (Some (GV_tuple [GV_string iface, GV_string pname, GV_variant val]))
                         (- 1)]))"
  using assms
  by (simp add: handle_set_property_def g_dbus_connection_call_sync_def call_answer_def
        split: sum.split)

lemma get_property_value_cross:
  assumes "st_source_bus st = Some b"
    and "call_result env b (cfg_source_bus_name (st_config st))
           (cfg_source_object_path (st_config st))
           ''org.freedesktop.DBus.Properties'' ''Get''
           (Some (GV_tuple [GV_string iface, GV_string pname])) = Inr (GV_tuple [GV_variant v])"
  shows "handle_get_property_cross env st iface pname
       = (Some v, None,
          [Method_call b (cfg_source_bus_name (st_config st))
             (cfg_source_object_path (st_config st))
             ''org.freedesktop.DBus.Properties'' ''Get''
             (Some (GV_tuple [GV_string iface, GV_string pname])) (- 1)])"
  using assms
  by (simp add: handle_get_property_cross_def g_dbus_connection_call_sync_def call_answer_def
        g_variant_get_v_def)

lemma get_property_error_cross:
  assumes "st_source_bus st = Some b"
    and "call_result env b (cfg_source_bus_name (st_config st))
           (cfg_source_object_path (st_config st))
           ''org.freedesktop.DBus.Properties'' ''Get''
           (Some (GV_tuple [GV_string iface, GV_string pname])) = Inl e"
  shows "fst (handle_get_property_cross env st iface pname) = None
       \<and> fst (snd (handle_get_property_cross env st iface pname)) = Some e"
  using assms
  by (simp add: handle_get_property_cross_def g_dbus_connection_call_sync_def call_answer_def)

lemma set_property_result_cross:
  assumes "st_source_bus st = Some b"
  shows "(fst (handle_set_property_cross env st iface pname val),
          fst (snd (handle_set_property_cross env st iface pname val)))
       = (case call_result env b (cfg_source_bus_name (st_config st))
                 (cfg_source_object_path (st_config st))
                 ''org.freedesktop.DBus.Properties'' ''Set''
                 (Some (GV_tuple [GV_string iface, GV_string pname, GV_variant val])) of
            Inl e \<Rightarrow> (False, Some e)
          | Inr r \<Rightarrow> (True, None))
       \<and> filter is_method_call (snd (snd (handle_set_property_cross env st iface pname val)))
           = [Method_call b (cfg_source_bus_name (st_config st))
                (cfg_source_object_path (st_config st))
                ''org.freedesktop.DBus.Properties'' ''Set''
                (Some (GV_tuple [GV_string iface, GV_string pname, GV_variant val])) (- 1)]"
  using assms
  by (simp add: handle_set_property_cross_def g_dbus_connection_call_sync_def call_answer_def
        log_error_def split: sum.split)

lemma set_property_result_plain:
  assumes "source_bus ctx = Some b"
  shows "(fst (handle_set_property env ctx iface pname val),
          fst (snd (handle_set_property env ctx iface pname val)))
       = (case call_result env b (source_bus_name ctx) (source_object_path ctx)
                 ''org.freedesktop.DBus.Properties'' ''Set''
                 (Some (GV_tuple [GV_string iface, GV_string pname, GV_variant val])) of
            Inl e \<Rightarrow> (False, Some e)
          | Inr r \<Rightarrow> (True, None))
       \<and> filter is_method_call (snd (snd (handle_set_property env ctx iface pname val)))
           = [Method_call b (source_bus_name ctx) (source_object_path ctx)
                ''org.freedesktop.DBus.Properties'' ''Set''
                (Some (GV_tuple [GV_string iface, GV_string pname, GV_variant val])) (- 1)]"
  using assms
  by (simp add: set_property_result split: sum.split)

lemma get_property_value_conf:
  assumes "call_result env b (conf_source_bus_name config) (conf_source_object_path config)
           ''org.freedesktop.DBus.Properties'' ''Get''
           (Some (GV_tuple [GV_string iface, GV_string pname])) = Inr (GV_tuple [GV_variant v])"
  shows "fst (handle_get_property_conf env config (Some b) iface pname) = Some v
       \<and> fst (snd (handle_get_property_conf env config (Some b) iface pname)) = None"
  using assms
  by (simp add: handle_get_property_conf_def g_dbus_connection_call_sync_def call_answer_def
        g_variant_get_v_def)

lemma get_property_error_conf:
  assumes "call_result env b (conf_source_bus_name config) (conf_source_object_path config)
           ''org.freedesktop.DBus.Properties'' ''Get''
           (Some (GV_tuple [GV_string iface, GV_string pname])) = Inl e"
  shows "fst (handle_get_property_conf env config (Some b) iface pname) = None
       \<and> fst (snd (handle_get_property_conf env config (Some b) iface pname)) = Some e"
  using assms
  by (simp add: handle_get_property_conf_def g_dbus_connection_call_sync_def call_answer_def)

lemma set_property_result_conf:
  "(fst (handle_set_property_conf env config (Some b) iface pname val),
    fst (snd (handle_set_property_conf env config (Some b) iface pname val)))
     = (case call_result env b (conf_source_bus_name config) (conf_source_object_path config)
               ''org.freedesktop.DBus.Properties'' ''Set''
               (Some (GV_tuple [GV_string iface, GV_string pname, GV_variant val])) of
          Inl e \<Rightarrow> (False, Some e)
        | Inr r \<Rightarrow> (True, None))
   \<and> filter is_method_call (snd (snd (handle_set_property_conf env config (Some b) iface pname val)))
       = [Method_call b (conf_source_bus_name config) (conf_source_object_path config)
            ''org.freedesktop.DBus.Properties'' ''Set''
            (Some (GV_tuple [GV_string iface, GV_string pname, GV_variant val]))
            (conf_timeout_ms config)]"
  by (simp add: handle_set_property_conf_def g_dbus_connection_call_sync_def call_answer_def
        log_message_def split: sum.split)

text \<open>
  C7. In each of the three programs, with the source connection open: when the source
  answers \<^verbatim>\<open>Properties.Get\<close> with a variant, the get handler returns the value inside
  it and sets no error; the set handler sends one call, \<^verbatim>\<open>Properties.Set\<close> with the
  interface name, the property name and the caller's value wrapped in a variant; and
  when the source answers either call with an error, the handler fails and leaves
  exactly that error to its caller.
\<close>

theorem property_relay:
  assumes "source_bus ctx = Some b" and "st_source_bus st = Some b'"
  shows "(\<forall>v. call_result env b (source_bus_name ctx) (source_object_path ctx)
               ''org.freedesktop.DBus.Properties'' ''Get''
               (Some (GV_tuple [GV_string iface, GV_string pname]))
               = Inr (GV_tuple [GV_variant v])
             \<longrightarrow> fst (handle_get_property env ctx iface pname) = Some v
                 \<and> fst (snd (handle_get_property env ctx iface pname)) = None)
       \<and> (\<forall>e. call_result env b (source_bus_name ctx) (source_object_path ctx)
               ''org.freedesktop.DBus.Properties'' ''Get''
               (Some (GV_tuple [GV_string iface, GV_string pname])) = Inl e
             \<longrightarrow> fst (handle_get_property env ctx iface pname) = None
                 \<and> fst (snd (handle_get_property env ctx iface pname)) = Some e)
       \<and> filter is_method_call (snd (snd (handle_set_property env ctx iface pname val)))
           = [Method_call b (source_bus_name ctx) (source_object_path ctx)
                ''org.freedesktop.DBus.Properties'' ''Set''
                (Some (GV_tuple [GV_string iface, GV_string pname, GV_variant val])) (- 1)]
       \<and> (\<forall>e. call_result env b (source_bus_name ctx) (source_object_path ctx)
               ''org.freedesktop.DBus.Properties'' ''Set''
               (Some (GV_tuple [GV_string iface, GV_string pname, GV_variant val])) = Inl e
             \<longrightarrow> \<not> fst (handle_set_property env ctx iface pname val)
                 \<and> fst (snd (handle_set_property env ctx iface pname val)) = Some e)
       \<and> (\<forall>v. call_result env b' (cfg_source_bus_name (st_config st))
               (cfg_source_object_path (st_config st))
               ''org.freedesktop.DBus.Properties'' ''Get''
               (Some (GV_tuple [GV_string iface, GV_string pname]))
               = Inr (GV_tuple [GV_variant v])
             \<longrightarrow> fst (handle_get_property_cross env st iface pname) = Some v
                 \<and> fst (snd (handle_get_property_cross env st iface pname)) = None)
       \<and> (\<forall>e. call_result env b' (cfg_source_bus_name (st_config st))
               (cfg_source_object_path (st_config st))
               ''org.freedesktop.DBus.Properties'' ''Get''
               (Some (GV_tuple [GV_string iface, GV_string pname])) = Inl e
             \<longrightarrow> fst (handle_get_property_cross env st iface pname) = None
                 \<and> fst (snd (handle_get_property_cross env st iface pname)) = Some e)
       \<and> filter is_method_call (snd (snd (handle_set_property_cross env st iface pname val)))
           = [Method_call b' (cfg_source_bus_name (st_config st))
                (cfg_source_object_path (st_config st))
                ''org.freedesktop.DBus.Properties'' ''Set''
                (Some (GV_tuple [GV_string iface, GV_string pname, GV_variant val])) (- 1)]
       \<and> (\<forall>e. call_result env b' (cfg_source_bus_name (st_config st))
               (cfg_source_object_path (st_config st))
               ''org.freedesktop.DBus.Properties'' ''Set''
               (Some (GV_tuple [GV_string iface, GV_string pname, GV_variant val])) = Inl e
             \<longrightarrow> \<not> fst (handle_set_property_cross env st iface pname val)
                 \<and> fst (snd (handle_set_property_cross env st iface pname val)) = Some e)
       \<and> (\<forall>v. call_result env b'' (conf_source_bus_name config) (conf_source_object_path config)
               ''org.freedesktop.DBus.Properties'' ''Get''
               (Some (GV_tuple [GV_string iface, GV_string pname]))
               = Inr (GV_tuple [GV_variant v])
             \<longrightarrow> fst (handle_get_property_conf env config (Some b'') iface pname) = Some v
                 \<and> fst (snd (handle_get_property_conf env config (Some b'') iface pname)) = None)
       \<and> (\<forall>e. call_result env b'' (conf_source_bus_name config) (conf_source_object_path config)
               ''org.freedesktop.DBus.Properties'' ''Get''
               (Some (GV_tuple [GV_string iface, GV_string pname])) = Inl e
             \<longrightarrow> fst (handle_get_property_conf env config (Some b'') iface pname) = None
                 \<and> fst (snd (handle_get_property_conf env config (Some b'') iface pname))
                     = Some e)
       \<and> filter is_method_call
           (snd (snd (handle_set_property_conf env config (Some b'') iface pname val)))
           = [Method_call b'' (conf_source_bus_name config) (conf_source_object_path config)
                ''org.freedesktop.DBus.Properties'' ''Set''
                (Some (GV_tuple [GV_string iface, GV_string pname, GV_variant val]))
                (conf_timeout_ms config)]
       \<and> (\<forall>e. call_result env b'' (conf_source_bus_name config) (conf_source_object_path config)
               ''org.freedesktop.DBus.Properties'' ''Set''
               (Some (GV_tuple [GV_string iface, GV_string pname, GV_variant val])) = Inl e
             \<longrightarrow> \<not> fst (handle_set_property_conf env config (Some b'') iface pname val)
                 \<and> fst (snd (handle_set_property_conf env config (Some b'') iface pname val))
                     = Some e)"
proof -
  note sp1 = set_property_result_plain [OF assms(1), of env iface pname val]
  note sp2 = set_property_result_cross [OF assms(2), of env iface pname val]
  note sp3 = set_property_result_conf [of env config b'' iface pname val]
  have g1: "\<forall>v. call_result env b (source_bus_name ctx) (source_object_path ctx)
               ''org.freedesktop.DBus.Properties'' ''Get''
               (Some (GV_tuple [GV_string iface, GV_string pname]))
               = Inr (GV_tuple [GV_variant v])
             \<longrightarrow> fst (handle_get_property env ctx iface pname) = Some v
                 \<and> fst (snd (handle_get_property env ctx iface pname)) = None"
    by (simp add: get_property_value [OF assms(1)])
  have g2: "\<forall>e. call_result env b (source_bus_name ctx) (source_object_path ctx)
               ''org.freedesktop.DBus.Properties'' ''Get''
               (Some (GV_tuple [GV_string iface, GV_string pname])) = Inl e
             \<longrightarrow> fst (handle_get_property env ctx iface pname) = None
                 \<and> fst (snd (handle_get_property env ctx iface pname)) = Some e"
    by (simp add: get_property_error [OF assms(1)])
  have s1: "\<forall>e. call_result env b (source_bus_name ctx) (source_object_path ctx)
               ''org.freedesktop.DBus.Properties'' ''Set''
               (Some (GV_tuple [GV_string iface, GV_string pname, GV_variant val])) = Inl e
             \<longrightarrow> \<not> fst (handle_set_property env ctx iface pname val)
                 \<and> fst (snd (handle_set_property env ctx iface pname val)) = Some e"
    using sp1 by auto
  have g3: "\<forall>v. call_result env b' (cfg_source_bus_name (st_config st))
               (cfg_source_object_path (st_config st))
               ''org.freedesktop.DBus.Properties'' ''Get''
               (Some (GV_tuple [GV_string iface, GV_string pname]))
               = Inr (GV_tuple [GV_variant v])
             \<longrightarrow> fst (handle_get_property_cross env st iface pname) = Some v
                 \<and> fst (snd (handle_get_property_cross env st iface pname)) = None"
    by (simp add: get_property_value_cross [OF assms(2)])
  have g4: "\<forall>e. call_result env b' (cfg_source_bus_name (st_config st))
               (cfg_source_object_path (st_config st))
               ''org.freedesktop.DBus.Properties'' ''Get''
               (Some (GV_tuple [GV_string iface, GV_string pname])) = Inl e
             \<longrightarrow> fst (handle_get_property_cross env st iface pname) = None
                 \<and> fst (snd (handle_get_property_cross env st iface pname)) = Some e"
    using get_property_error_cross [OF assms(2)] by blast
  have s2: "\<forall>e. call_result env b' (cfg_source_bus_name (st_config st))
               (cfg_source_object_path (st_config st))
               ''org.freedesktop.DBus.Properties'' ''Set''
               (Some (GV_tuple [GV_string iface, GV_string pname, GV_variant val])) = Inl e
             \<longrightarrow> \<not> fst (handle_set_property_cross env st iface pname val)
                 \<and> fst (snd (handle_set_property_cross env st iface pname val)) = Some e"
    using sp2 by auto
  have g5: "\<forall>v. call_result env b'' (conf_source_bus_name config) (conf_source_object_path config)
               ''org.freedesktop.DBus.Properties'' ''Get''
               (Some (GV_tuple [GV_string iface, GV_string pname]))
               = Inr (GV_tuple [GV_variant v])
             \<longrightarrow> fst (handle_get_property_conf env config (Some b'') iface pname) = Some v
                 \<and> fst (snd (handle_get_property_conf env config (Some b'') iface pname)) = None"
    using get_property_value_conf by blast
  have g6: "\<forall>e. call_result env b'' (conf_source_bus_name config) (conf_source_object_path config)
               ''org.freedesktop.DBus.Properties'' ''Get''
               (Some (GV_tuple [GV_string iface, GV_string pname])) = Inl e
             \<longrightarrow> fst (handle_get_property_conf env config (Some b'') iface pname) = None
                 \<and> fst (snd (handle_get_property_conf env config (Some b'') iface pname))
                     = Some e"
    using get_property_error_conf by blast
  have s3: "\<forall>e. call_result env b'' (conf_source_bus_name config) (conf_source_object_path config)
               ''org.freedesktop.DBus.Properties'' ''Set''
               (Some (GV_tuple [GV_string iface, GV_string pname, GV_variant val])) = Inl e
             \<longrightarrow> \<not> fst (handle_set_property_conf env config (Some b'') iface pname val)
                 \<and> fst (snd (handle_set_property_conf env config (Some b'') iface pname val))
                     = Some e"
    using sp3 by auto
  have m1: "filter is_method_call (snd (snd (handle_set_property env ctx iface pname val)))
           = [Method_call b (source_bus_name ctx) (source_object_path ctx)
                ''org.freedesktop.DBus.Properties'' ''Set''
                (Some (GV_tuple [GV_string iface, GV_string pname, GV_variant val])) (- 1)]"
    using sp1 by (rule conjunct2)
  have m2: "filter is_method_call (snd (snd (handle_set_property_cross env st iface pname val)))
           = [Method_call b' (cfg_source_bus_name (st_config st))
                (cfg_source_object_path (st_config st))
                ''org.freedesktop.DBus.Properties'' ''Set''
                (Some (GV_tuple [GV_string iface, GV_string pname, GV_variant val])) (- 1)]"
    using sp2 by (rule conjunct2)
  have m3: "filter is_method_call
           (snd (snd (handle_set_property_conf env config (Some b'') iface pname val)))
           = [Method_call b'' (conf_source_bus_name config) (conf_source_object_path config)
                ''org.freedesktop.DBus.Properties'' ''Set''
                (Some (GV_tuple [GV_string iface, GV_string pname, GV_variant val]))
                (conf_timeout_ms config)]"
    using sp3 by (rule conjunct2)
  from g1 g2 m1 s1 g3 g4 m2 s2 g5 g6 m3 s3 show ?thesis
    by (intro conjI) assumption+
qed


theorem property_relay_witness:
  "source_bus demo_ctx = Some 1 \<and> st_source_bus demo_state = Some 1
   \<and> fst (handle_get_property (demo_env None) demo_ctx ''com.example.Demo'' ''Volume'')
       = Some (GV_int 42)
   \<and> fst (snd (handle_get_property (demo_env None) gone_ctx ''com.example.Demo'' ''Volume''))
       = Some err_no_service
   \<and> filter is_method_call
         (snd (snd (handle_set_property (demo_env None) demo_ctx ''com.example.Demo''
                      ''Volume'' (GV_int 7))))
       = [Method_call 1 ''org.example.Source'' ''/org/example''
            ''org.freedesktop.DBus.Properties'' ''Set''
            (Some (GV_tuple [GV_string ''com.example.Demo'', GV_string ''Volume'',
                             GV_variant (GV_int 7)])) (- 1)]
   \<and> fst (snd (handle_set_property (demo_env None) gone_ctx ''com.example.Demo''
                  ''Volume'' (GV_int 7))) = Some err_no_service
   \<and> fst (handle_get_property_cross (demo_env None) demo_state ''com.example.Demo'' ''Volume'')
       = Some (GV_int 42)
   \<and> fst (snd (handle_get_property_cross (demo_env None) gone_state ''com.example.Demo''
                  ''Volume'')) = Some err_no_service
   \<and> fst (handle_get_property_conf (demo_env None) (demo_config_conf False) (Some 1)
           ''com.example.Demo'' ''Volume'') = Some (GV_int 42)
   \<and> fst (snd (handle_get_property_conf (demo_env None) (gone_config_conf False) (Some 1)
                  ''com.example.Demo'' ''Volume'')) = Some err_no_service"
proof -
  have a: "source_bus demo_ctx = Some 1"
    by (simp add: demo_ctx_def)
  have b: "st_source_bus demo_state = Some 1"
    by (simp add: demo_state_def)
  have c: "source_bus gone_ctx = Some 1"
    by (simp add: gone_ctx_def demo_ctx_def)
  have d: "st_source_bus gone_state = Some 1"
    by (simp add: gone_state_def demo_state_def)
  have src: "source_bus_name demo_ctx = ''org.example.Source''"
    "source_object_path demo_ctx = ''/org/example''"
    "cfg_source_bus_name (st_config demo_state) = ''org.example.Source''"
    "conf_source_bus_name (demo_config_conf False) = ''org.example.Source''"
    by (simp_all add: demo_ctx_def demo_state_def demo_config_cross_def demo_config_conf_def)
  have gone: "source_bus_name gone_ctx = ''org.example.Gone''"
    "cfg_source_bus_name (st_config gone_state) = ''org.example.Gone''"
    "conf_source_bus_name (gone_config_conf False) = ''org.example.Gone''"
    by (simp_all add: gone_ctx_def gone_state_def gone_config_cross_def gone_config_conf_def)
  have get: "call_result (demo_env None) c ''org.example.Source'' path
               ''org.freedesktop.DBus.Properties'' ''Get'' params
             = Inr (GV_tuple [GV_variant (GV_int 42)])" for c path params
    by (simp add: demo_env_def)
  note ok = property_relay [OF a b, where env = "demo_env None" and iface = "''com.example.Demo''"
      and pname = "''Volume''" and val = "GV_int 7" and config = "demo_config_conf False"
      and b'' = 1]
  note ko = property_relay [OF c d, where env = "demo_env None" and iface = "''com.example.Demo''"
      and pname = "''Volume''" and val = "GV_int 7" and config = "gone_config_conf False"
      and b'' = 1]
  show ?thesis
    using a b ok ko by (simp add: src gone get demo_call_gone)
qed

section \<open>Forwarded signals\<close>

text \<open>
  C10, as the code has it. When the target bus refuses the signal, the handler of the
  multi-bus proxy and the handler of the cross-bus proxy report the failure on standard
  error, free the error and return; the handler of the configuration-file proxy, when
  \<^verbatim>\<open>verbose\<close> is set, reports it through \<^verbatim>\<open>log_message\<close> and frees the error. In each
  case the handler does nothing else: nothing goes to the source bus, no reply is sent,
  the process is not left. With any setting the handler of the configuration-file proxy
  sends no method call and no reply.
\<close>

theorem signal_emit_failure:
  assumes "target_bus ctx = Some b"
    and "emit_result env b (source_object_path ctx) iface signame params = Some e"
    and "st_target_bus st = Some b'"
    and "emit_result env b' (cfg_source_object_path (st_config st)) iface signame params
           = Some e'"
    and "emit_result env b'' (conf_source_object_path config) iface signame params = Some e''"
    and "conf_verbose config"
  shows "on_signal_received env ctx iface signame params
           = [Emit_signal b (source_object_path ctx) iface signame params,
              Printerr (''Failed to emit signal: '' @ err_message e),
              Error_free e]
       \<and> on_signal_received_cross env st iface signame params
           = [Emit_signal b' (cfg_source_object_path (st_config st)) iface signame params,
              Printerr (''[ERROR] Failed to forward signal: '' @ err_message e'),
              Error_free e']
       \<and> on_signal_received_conf env config (Some b'') iface signame params
           = Emit_signal b'' (conf_source_object_path config) iface signame params
             # log_message config (''Failed to emit signal: '' @ err_message e'')
             @ [Error_free e'']
       \<and> filter is_method_call (on_signal_received_conf env config' bus iface signame params)
           = []
       \<and> replies (on_signal_received_conf env config' bus iface signame params) = []"
proof -
  have "filter is_method_call (on_signal_received_conf env config' bus iface signame params) = []
      \<and> replies (on_signal_received_conf env config' bus iface signame params) = []"
    by (cases bus)
      (simp_all add: on_signal_received_conf_def g_dbus_connection_emit_signal_def
         log_message_def message_or_unknown_def g_error_free_def replies_def
         split: option.split)
  with assms show ?thesis
    by (simp add: on_signal_received_def on_signal_received_cross_def
          on_signal_received_conf_def g_dbus_connection_emit_signal_def log_error_def
          message_or_unknown_def g_error_free_def)
qed

lemma demo_emit_pong:
  "emit_result (demo_env ifaces) b path iface ''Pong'' params = Some err_no_service"
  by (simp add: demo_env_def)

theorem signal_emit_failure_witness:
  "target_bus demo_ctx = Some 2 \<and> st_target_bus demo_state = Some 2
   \<and> conf_verbose (demo_config_conf True)
   \<and> emit_result (demo_env None) 2 ''/org/example'' ''com.example.Demo'' ''Pong'' (GV_tuple [])
       = Some err_no_service
   \<and> on_signal_received (demo_env None) demo_ctx ''com.example.Demo'' ''Pong'' (GV_tuple [])
       = [Emit_signal 2 ''/org/example'' ''com.example.Demo'' ''Pong'' (GV_tuple []),
          Printerr ''Failed to emit signal: no such service'',
          Error_free err_no_service]
   \<and> on_signal_received_cross (demo_env None) demo_state ''com.example.Demo'' ''Pong''
         (GV_tuple [])
       = [Emit_signal 2 ''/org/example'' ''com.example.Demo'' ''Pong'' (GV_tuple []),
          Printerr ''[ERROR] Failed to forward signal: no such service'',
          Error_free err_no_service]
   \<and> on_signal_received_conf (demo_env None) (demo_config_conf True) (Some 1)
         ''com.example.Demo'' ''Pong'' (GV_tuple [])
       = [Emit_signal 1 ''/org/example'' ''com.example.Demo'' ''Pong'' (GV_tuple []),
          Log_message ''Failed to emit signal: no such service'',
          Error_free err_no_service]"
proof -
  have a: "target_bus demo_ctx = Some 2"
    by (simp add: demo_ctx_def)
  have b: "emit_result (demo_env None) 2 (source_object_path demo_ctx) ''com.example.Demo''
             ''Pong'' (GV_tuple []) = Some err_no_service"
    by (rule demo_emit_pong)
  have c: "st_target_bus demo_state = Some 2"
    by (simp add: demo_state_def)
  have d: "emit_result (demo_env None) 2 (cfg_source_object_path (st_config demo_state))
             ''com.example.Demo'' ''Pong'' (GV_tuple []) = Some err_no_service"
    by (rule demo_emit_pong)
  have e: "emit_result (demo_env None) 1 (conf_source_object_path (demo_config_conf True))
             ''com.example.Demo'' ''Pong'' (GV_tuple []) = Some err_no_service"
    by (rule demo_emit_pong)
  have f: "conf_verbose (demo_config_conf True)"
    by (simp add: demo_config_conf_def)
  have paths: "source_object_path demo_ctx = ''/org/example''"
    "cfg_source_object_path (st_config demo_state) = ''/org/example''"
    "conf_source_object_path (demo_config_conf True) = ''/org/example''"
    "conf_enable_logging (demo_config_conf True)"
    by (simp_all add: demo_ctx_def demo_state_def demo_config_cross_def demo_config_conf_def)
  have msg: "err_message err_no_service = ''no such service''"
    by (simp add: err_no_service_def)
  show ?thesis
    using a c f signal_emit_failure [OF a b c d e f]
    by (simp add: paths msg log_message_def demo_emit_pong)
qed

text \<open>
  C10 as the specification states it fails in the configuration-file proxy when
  \<^verbatim>\<open>verbose\<close> is off: the target bus refuses the signal, and the handler neither reports
  the failure nor frees the error.
\<close>

theorem signal_emit_failure_counterexample:
  "emit_result (demo_env None) 1 ''/org/example'' ''com.example.Demo'' ''Pong'' (GV_tuple [])
     = Some err_no_service
   \<and> on_signal_received_conf (demo_env None) (demo_config_conf False) (Some 1)
         ''com.example.Demo'' ''Pong'' (GV_tuple [])
       = [Emit_signal 1 ''/org/example'' ''com.example.Demo'' ''Pong'' (GV_tuple [])]"
  by (simp add: on_signal_received_conf_def g_dbus_connection_emit_signal_def
        demo_config_conf_def demo_emit_pong)

section \<open>Start-up failures\<close>

lemma create_connection_trace:
  "snd (create_connection env address)
     = (if address = ''system'' then [Bus_get G_BUS_TYPE_SYSTEM]
        else if address = ''session'' then [Bus_get G_BUS_TYPE_SESSION]
        else [Connect_address address])"
  by (simp add: create_connection_def g_bus_get_sync_def
        g_dbus_connection_new_for_address_sync_def)

lemma main_conf_open_log_trace:
  "filter is_method_call (snd (main_conf_open_log env config)) = []"
  by (simp add: main_conf_open_log_def fopen_def)

text \<open>
  C8. When the connection to the source bus cannot be opened, each of the three programs
  reports the connection error on standard error and ends with status 1, and no method
  call, so no introspection call, has gone out: the actions of the run are the attempt
  to connect, the report and the release of what was allocated. The source bus of the
  multi-bus proxy is the system bus, the session bus or a bus at an address of its own,
  and \<^verbatim>\<open>setup_proxy\<close> returns NULL; in the cross-bus proxy the global state is released;
  the configuration-file proxy has opened its log file, if it has one, before.
\<close>

theorem source_connection_failure:
  assumes "create_connection env source_address = ((None, Some e), tr)"
    and "validateProxyConfigOrExit config = None"
    and "bus_get_result env' (cfg_source_bus_type config) = Inl e'"
    and "fst (validate cconfig)"
    and "bus_get_result env'' (if conf_bus_type cconfig = ''system'' then G_BUS_TYPE_SYSTEM
                               else G_BUS_TYPE_SESSION) = Inl e''"
  shows "setup_proxy env source_address target_address source_service source_path
           proxy_service
           = Inr (Null,
                  tr @ [Printerr (''Failed to connect to source bus ('' @ source_address
                                  @ ''): '' @ err_message e),
                        Error_free e, Free_context])
       \<and> main env source_address target_address source_service source_path proxy_service
           = Inr (1,
                  tr @ [Printerr (''Failed to connect to source bus ('' @ source_address
                                  @ ''): '' @ err_message e),
                        Error_free e, Free_context])
       \<and> tr = (if source_address = ''system'' then [Bus_get G_BUS_TYPE_SYSTEM]
               else if source_address = ''session'' then [Bus_get G_BUS_TYPE_SESSION]
               else [Connect_address source_address])
       \<and> main_cross env' config
           = Inr (1, None,
                  [Bus_get (cfg_source_bus_type config),
                   Printerr (''[ERROR] Failed to connect to source bus: '' @ err_message e'),
                   Error_free e', Free_context])
       \<and> main_conf env'' cconfig False
           = Inr (1,
                  snd (main_conf_open_log env'' cconfig)
                  @ [Bus_get (if conf_bus_type cconfig = ''system'' then G_BUS_TYPE_SYSTEM
                              else G_BUS_TYPE_SESSION),
                     Printerr (''Failed to connect to '' @ conf_bus_type cconfig @ '' bus: ''
                               @ err_message e''),
                     Error_free e''])
       \<and> filter is_method_call (snd (main_conf_open_log env'' cconfig)) = []"
proof -
  let ?tr = "tr @ [Printerr (''Failed to connect to source bus ('' @ source_address @ ''): ''
                             @ err_message e),
                   Error_free e, Free_context]"
  have s: "setup_proxy env source_address target_address source_service source_path
             proxy_service = Inr (Null, ?tr)"
    using assms(1) by (simp add: setup_proxy_def)
  have m: "main env source_address target_address source_service source_path proxy_service
             = Inr (1, ?tr)"
    by (simp add: main_def s)
  have t: "tr = (if source_address = ''system'' then [Bus_get G_BUS_TYPE_SYSTEM]
                 else if source_address = ''session'' then [Bus_get G_BUS_TYPE_SESSION]
                 else [Connect_address source_address])"
    using create_connection_trace [of env source_address] assms(1) by simp
  have cross: "main_cross env' config
           = Inr (1, None,
                  [Bus_get (cfg_source_bus_type config),
                   Printerr (''[ERROR] Failed to connect to source bus: '' @ err_message e'),
                   Error_free e', Free_context])"
    using assms(2,3)
    by (simp add: main_cross_def init_proxy_state_def connect_to_buses_def g_bus_get_sync_def
          cleanup_proxy_state_def log_error_def)
  obtain tr0 where v: "validate cconfig = (True, tr0)"
    using assms(4) by (cases "validate cconfig") auto
  then have "tr0 = []"
    by (auto simp: validate_def split: if_splits)
  with v assms(5) have conf: "main_conf env'' cconfig False
           = Inr (1,
                  snd (main_conf_open_log env'' cconfig)
                  @ [Bus_get (if conf_bus_type cconfig = ''system'' then G_BUS_TYPE_SYSTEM
                              else G_BUS_TYPE_SESSION),
                     Printerr (''Failed to connect to '' @ conf_bus_type cconfig @ '' bus: ''
                               @ err_message e''),
                     Error_free e''])"
    by (simp add: main_conf_def g_bus_get_sync_def split: prod.split)
  note l = main_conf_open_log_trace [of env'' cconfig]
  from s m t cross conf l show ?thesis
    by (intro conjI) assumption+
qed

text \<open>
  The multi-bus proxy is given a source bus at an address of its own that cannot be
  reached, while the system bus and the session bus are up; the other two programs find
  their bus down, and the log file of the configuration-file proxy cannot be opened.
\<close>

theorem source_connection_failure_witness:
  "create_connection (demo_env None) ''unix:path=/run/other''
     = ((None, Some err_no_service), [Connect_address ''unix:path=/run/other''])
   \<and> bus_get_result (demo_env None) G_BUS_TYPE_SYSTEM = Inr 1
   \<and> bus_get_result (demo_env None) G_BUS_TYPE_SESSION = Inr 2
   \<and> validateProxyConfigOrExit demo_config_cross = None
   \<and> bus_get_result down_env (cfg_source_bus_type demo_config_cross) = Inl err_no_service
   \<and> fst (validate unlogged_config_conf)
   \<and> main (demo_env None) ''unix:path=/run/other'' ''session'' ''org.example.Source''
         ''/org/example'' ''org.example.Proxy''
       = Inr (1, [Connect_address ''unix:path=/run/other'',
                  Printerr (''Failed to connect to source bus (unix:path=/run/other): ''
                            @ ''no such service''),
                  Error_free err_no_service, Free_context])
   \<and> main_cross down_env demo_config_cross
       = Inr (1, None,
              [Bus_get G_BUS_TYPE_SYSTEM,
               Printerr ''[ERROR] Failed to connect to source bus: no such service'',
               Error_free err_no_service, Free_context])
   \<and> main_conf down_env unlogged_config_conf False
       = Inr (1, [File_open ''/var/log/proxy.log'',
                  Printerr ''Warning: Cannot open log file: /var/log/proxy.log'',
                  Bus_get G_BUS_TYPE_SYSTEM,
                  Printerr ''Failed to connect to system bus: no such service'',
                  Error_free err_no_service])"
proof -
  have a: "create_connection (demo_env None) ''unix:path=/run/other''
             = ((None, Some err_no_service), [Connect_address ''unix:path=/run/other''])"
    by (simp add: create_connection_def g_dbus_connection_new_for_address_sync_def
          demo_env_def)
  have up: "bus_get_result (demo_env None) G_BUS_TYPE_SYSTEM = Inr 1"
    "bus_get_result (demo_env None) G_BUS_TYPE_SESSION = Inr 2"
    by (simp_all add: demo_env_def)
  have b: "validateProxyConfigOrExit demo_config_cross = None"
    by (simp add: validateProxyConfigOrExit_def demo_config_cross_def)
  have c: "bus_get_result down_env (cfg_source_bus_type demo_config_cross) = Inl err_no_service"
    by (simp add: down_env_def)
  have d: "fst (validate unlogged_config_conf)"
    by (simp add: validate_def unlogged_config_conf_def demo_config_conf_def)
  have e: "bus_get_result down_env
             (if conf_bus_type unlogged_config_conf = ''system'' then G_BUS_TYPE_SYSTEM
              else G_BUS_TYPE_SESSION) = Inl err_no_service"
    by (simp add: down_env_def)
  have l: "snd (main_conf_open_log down_env unlogged_config_conf)
             = [File_open ''/var/log/proxy.log'',
                Printerr ''Warning: Cannot open log file: /var/log/proxy.log'']"
    by (simp add: main_conf_open_log_def fopen_def unlogged_config_conf_def
          demo_config_conf_def down_env_def demo_env_def)
  have types: "cfg_source_bus_type demo_config_cross = G_BUS_TYPE_SYSTEM"
    "conf_bus_type unlogged_config_conf = ''system''"
    "err_message err_no_service = ''no such service''"
    by (simp_all add: demo_config_cross_def unlogged_config_conf_def demo_config_conf_def
          err_no_service_def)
  show ?thesis
    using a up b c d
      source_connection_failure [OF a b c d e, where target_address = "''session''"
        and source_service = "''org.example.Source''" and source_path = "''/org/example''"
        and proxy_service = "''org.example.Proxy''"]
    by (simp add: types l)
qed

section \<open>Unfolding the concrete runs\<close>

lemmas glib_defs =
  g_bus_get_sync_def g_dbus_connection_new_for_address_sync_def call_answer_def
  g_dbus_connection_call_sync_def g_dbus_connection_register_object_def
  g_dbus_connection_signal_subscribe_def g_dbus_connection_unregister_object_def
  g_dbus_connection_signal_unsubscribe_def g_bus_own_name_on_connection_def
  g_dbus_node_info_new_for_xml_def g_variant_get_s_def g_hash_table_insert_def log_error_def

lemmas loop_simps =
  setup_proxy_loop.simps setup_proxy_interfaces_loop.simps main_conf_loop.simps

section \<open>An introspection without interfaces\<close>

lemma create_connection_ok:
  assumes "fst (create_connection env address) = (Some c, error)"
  shows "create_connection env address = ((Some c, None), snd (create_connection env address))"
  using assms
  by (auto simp: create_connection_def g_bus_get_sync_def
        g_dbus_connection_new_for_address_sync_def split: if_splits sum.splits)

lemma setup_proxy_introspected:
  assumes "fst (create_connection env source_address) = (Some sb, error1)"
    and "fst (create_connection env target_address) = (Some tb, error2)"
    and "call_result env sb source_service source_path ''org.freedesktop.DBus.Introspectable''
           ''Introspect'' None = Inr (GV_tuple [GV_string xml])"
    and "xml_result env xml = Inr info"
    and "interfaces info = Some ifaces"
  shows "setup_proxy env source_address target_address source_service source_path proxy_service
       = (case setup_proxy_loop env ifaces
                 \<lparr>source_bus = Some sb, target_bus = Some tb, source_bus_name = source_service,
                  source_object_path = source_path, proxy_bus_name = proxy_service,
                  introspection_data = Some info, registration_id = 0,
                  signal_subscriptions = []\<rparr> Null of
            Inl f \<Rightarrow> Inl f
          | Inr (ctx, error, tr) \<Rightarrow>
              Inr (Live ctx,
                   snd (create_connection env source_address)
                   @ snd (create_connection env target_address)
                   @ [Method_call sb source_service source_path
                        ''org.freedesktop.DBus.Introspectable'' ''Introspect'' None (- 1)]
                   @ tr
                   @ snd (g_bus_own_name_on_connection env (target_bus ctx) (proxy_bus_name ctx))))"
proof -
  have s: "create_connection env source_address
             = ((Some sb, None), snd (create_connection env source_address))"
    by (rule create_connection_ok [OF assms(1)])
  have t: "create_connection env target_address
             = ((Some tb, None), snd (create_connection env target_address))"
    by (rule create_connection_ok [OF assms(2)])
  have c: "g_dbus_connection_call_sync env (Some sb) source_service source_path
             ''org.freedesktop.DBus.Introspectable'' ''Introspect'' None (Some Reply_s) (- 1)
           = ((Some (GV_tuple [GV_string xml]), None),
              [Method_call sb source_service source_path
                 ''org.freedesktop.DBus.Introspectable'' ''Introspect'' None (- 1)])"
    using assms(3) by (simp add: g_dbus_connection_call_sync_def call_answer_def)
  have x: "g_dbus_node_info_new_for_xml env xml = (Some info, None)"
    using assms(4) by (simp add: g_dbus_node_info_new_for_xml_def)
  show ?thesis
    unfolding setup_proxy_def
    by (subst s, subst t)
      (simp add: c x assms(5) g_variant_get_s_def split: sum.split prod.split)
qed

text \<open>
  C6, as the code has it. In the cross-bus proxy, introspection data whose array of
  interfaces is NULL is an error: \<^verbatim>\<open>setup_proxy_interfaces\<close> reports it and returns
  FALSE, and \<^verbatim>\<open>main\<close> releases the state and ends with status 1; nothing was registered
  and the name was not requested. The multi-bus proxy has no such check: with an empty
  array of interfaces \<^verbatim>\<open>setup_proxy\<close> registers nothing, requests the name and returns
  the context.
\<close>

theorem no_interfaces:
  assumes "validateProxyConfigOrExit config = None"
    and "bus_get_result env (cfg_source_bus_type config) = Inr sb"
    and "bus_get_result env (cfg_target_bus_type config) = Inr tb"
    and "call_result env sb (cfg_source_bus_name config) (cfg_source_object_path config)
           ''org.freedesktop.DBus.Introspectable'' ''Introspect'' None
           = Inr (GV_tuple [GV_string xml])"
    and "xml_result env xml = Inr info"
    and "interfaces info = None"
    and "fst (create_connection env' source_address) = (Some sb', None)"
    and "fst (create_connection env' target_address) = (Some tb', None)"
    and "call_result env' sb' source_service source_path ''org.freedesktop.DBus.Introspectable''
           ''Introspect'' None = Inr (GV_tuple [GV_string xml'])"
    and "xml_result env' xml' = Inr info'"
    and "interfaces info' = Some []"
  shows "main_cross env config
           = Inr (1, None,
                  [Bus_get (cfg_source_bus_type config), Bus_get (cfg_target_bus_type config),
                   Method_call sb (cfg_source_bus_name config) (cfg_source_object_path config)
                     ''org.freedesktop.DBus.Introspectable'' ''Introspect'' None (- 1),
                   Printerr ''[ERROR] No interfaces found in introspection data'',
                   Node_info_unref, Object_unref sb, Object_unref tb, Free_context])
       \<and> setup_proxy env' source_address target_address source_service source_path proxy_service
           = Inr (Live \<lparr>source_bus = Some sb', target_bus = Some tb',
                        source_bus_name = source_service, source_object_path = source_path,
                        proxy_bus_name = proxy_service, introspection_data = Some info',
                        registration_id = 0, signal_subscriptions = []\<rparr>,
                  snd (create_connection env' source_address)
                  @ snd (create_connection env' target_address)
                  @ [Method_call sb' source_service source_path
                       ''org.freedesktop.DBus.Introspectable'' ''Introspect'' None (- 1),
                     Own_name_on_connection tb' proxy_service])"
proof -
  have cross: "main_cross env config
           = Inr (1, None,
                  [Bus_get (cfg_source_bus_type config), Bus_get (cfg_target_bus_type config),
                   Method_call sb (cfg_source_bus_name config) (cfg_source_object_path config)
                     ''org.freedesktop.DBus.Introspectable'' ''Introspect'' None (- 1),
                   Printerr ''[ERROR] No interfaces found in introspection data'',
                   Node_info_unref, Object_unref sb, Object_unref tb, Free_context])"
    using assms(1-6)
    by (simp add: main_cross_def init_proxy_state_def connect_to_buses_def
          fetch_introspection_data_def setup_proxy_interfaces_def cleanup_proxy_state_def
          g_bus_get_sync_def g_dbus_connection_call_sync_def call_answer_def
          g_variant_get_s_def g_dbus_node_info_new_for_xml_def log_error_def)
  have multi: "setup_proxy env' source_address target_address source_service source_path
             proxy_service
           = Inr (Live \<lparr>source_bus = Some sb', target_bus = Some tb',
                        source_bus_name = source_service, source_object_path = source_path,
                        proxy_bus_name = proxy_service, introspection_data = Some info',
                        registration_id = 0, signal_subscriptions = []\<rparr>,
                  snd (create_connection env' source_address)
                  @ snd (create_connection env' target_address)
                  @ [Method_call sb' source_service source_path
                       ''org.freedesktop.DBus.Introspectable'' ''Introspect'' None (- 1),
                     Own_name_on_connection tb' proxy_service])"
    by (simp add: setup_proxy_introspected [OF assms(7-11)] g_bus_own_name_on_connection_def)
  from cross multi show ?thesis
    by (intro conjI) assumption+
qed

theorem no_interfaces_witness:
  "validateProxyConfigOrExit demo_config_cross = None
   \<and> xml_result (demo_env None) ''<node/>'' = Inr \<lparr>interfaces = None\<rparr>
   \<and> xml_result (demo_env (Some [])) ''<node/>'' = Inr \<lparr>interfaces = Some []\<rparr>
   \<and> main_cross (demo_env None) demo_config_cross
       = Inr (1, None,
              [Bus_get G_BUS_TYPE_SYSTEM, Bus_get G_BUS_TYPE_SESSION,
               Method_call 1 ''org.example.Source'' ''/org/example''
                 ''org.freedesktop.DBus.Introspectable'' ''Introspect'' None (- 1),
               Printerr ''[ERROR] No interfaces found in introspection data'',
               Node_info_unref, Object_unref 1, Object_unref 2, Free_context])
   \<and> setup_proxy (demo_env (Some [])) ''system'' ''session'' ''org.example.Source''
         ''/org/example'' ''org.example.Proxy''
       = Inr (Live \<lparr>source_bus = Some 1, target_bus = Some 2,
                    source_bus_name = ''org.example.Source'',
                    source_object_path = ''/org/example'',
                    proxy_bus_name = ''org.example.Proxy'',
                    introspection_data = Some \<lparr>interfaces = Some []\<rparr>,
                    registration_id = 0, signal_subscriptions = []\<rparr>,
              [Bus_get G_BUS_TYPE_SYSTEM, Bus_get G_BUS_TYPE_SESSION,
               Method_call 1 ''org.example.Source'' ''/org/example''
                 ''org.freedesktop.DBus.Introspectable'' ''Introspect'' None (- 1),
               Own_name_on_connection 2 ''org.example.Proxy''])"
proof -
  have a: "validateProxyConfigOrExit demo_config_cross = None"
    by (simp add: validateProxyConfigOrExit_def demo_config_cross_def)
  have b: "bus_get_result (demo_env None) (cfg_source_bus_type demo_config_cross) = Inr 1"
    by (simp add: demo_env_def demo_config_cross_def)
  have c: "bus_get_result (demo_env None) (cfg_target_bus_type demo_config_cross) = Inr 2"
    by (simp add: demo_env_def demo_config_cross_def)
  have d: "call_result (demo_env None) 1 (cfg_source_bus_name demo_config_cross)
             (cfg_source_object_path demo_config_cross) ''org.freedesktop.DBus.Introspectable''
             ''Introspect'' None = Inr (GV_tuple [GV_string ''<node/>''])"
    by (simp add: demo_env_def demo_config_cross_def)
  have e: "xml_result (demo_env None) ''<node/>'' = Inr \<lparr>interfaces = None\<rparr>"
    by (simp add: demo_env_def)
  have f: "interfaces \<lparr>interfaces = None\<rparr> = None"
    by simp
  have g: "fst (create_connection (demo_env (Some [])) ''system'') = (Some 1, None)"
    by (simp add: create_connection_def g_bus_get_sync_def demo_env_def)
  have h: "fst (create_connection (demo_env (Some [])) ''session'') = (Some 2, None)"
    by (simp add: create_connection_def g_bus_get_sync_def demo_env_def)
  have i: "call_result (demo_env (Some [])) 1 ''org.example.Source'' ''/org/example''
             ''org.freedesktop.DBus.Introspectable'' ''Introspect'' None
           = Inr (GV_tuple [GV_string ''<node/>''])"
    by (simp add: demo_env_def)
  have j: "xml_result (demo_env (Some [])) ''<node/>'' = Inr \<lparr>interfaces = Some []\<rparr>"
    by (simp add: demo_env_def)
  have k: "interfaces \<lparr>interfaces = Some []\<rparr> = Some []"
    by simp
  have tr: "snd (create_connection (demo_env (Some [])) ''system'') = [Bus_get G_BUS_TYPE_SYSTEM]"
    "snd (create_connection (demo_env (Some [])) ''session'') = [Bus_get G_BUS_TYPE_SESSION]"
    by (simp_all add: create_connection_def g_bus_get_sync_def)
  have cfg: "cfg_source_bus_type demo_config_cross = G_BUS_TYPE_SYSTEM"
    "cfg_target_bus_type demo_config_cross = G_BUS_TYPE_SESSION"
    "cfg_source_bus_name demo_config_cross = ''org.example.Source''"
    "cfg_source_object_path demo_config_cross = ''/org/example''"
    by (simp_all add: demo_config_cross_def)
  show ?thesis
    using a e j no_interfaces [OF a b c d e f g h i j k, where proxy_service = "''org.example.Proxy''"]
    by (simp add: tr cfg)
qed

text \<open>
  C6 as the specification states it fails in the multi-bus proxy: the introspection of
  the source yields an empty list of interfaces, and \<^verbatim>\<open>setup_proxy\<close> registers nothing,
  requests the name and returns the context; \<^verbatim>\<open>main\<close> enters its loop.
\<close>

theorem empty_interface_list_counterexample:
  "xml_result (demo_env (Some [])) ''<node/>'' = Inr \<lparr>interfaces = Some []\<rparr>
   \<and> main (demo_env (Some [])) ''system'' ''session'' ''org.example.Source'' ''/org/example''
         ''org.example.Proxy''
       = Inr (0, [Bus_get G_BUS_TYPE_SYSTEM, Bus_get G_BUS_TYPE_SESSION,
                  Method_call 1 ''org.example.Source'' ''/org/example''
                    ''org.freedesktop.DBus.Introspectable'' ''Introspect'' None (- 1),
                  Own_name_on_connection 2 ''org.example.Proxy'', Main_loop_run,
                  Node_info_unref, Object_unref 1, Object_unref 2, Free_context])"
  by (simp add: main_def setup_proxy_def create_connection_def cleanup_proxy_def
        demo_env_def glib_defs)

section \<open>The registration loops\<close>

lemma setup_proxy_signal_loop_frame:
  "setup_proxy_signal_loop env iname sigs ctx = (ctx', tr) \<Longrightarrow>
   source_bus ctx' = source_bus ctx \<and> target_bus ctx' = target_bus ctx
   \<and> source_bus_name ctx' = source_bus_name ctx
   \<and> source_object_path ctx' = source_object_path ctx
   \<and> proxy_bus_name ctx' = proxy_bus_name ctx
   \<and> registration_id ctx' = registration_id ctx"
proof (induction sigs arbitrary: ctx ctx' tr)
  case Nil
  then show ?case by simp
next
  case (Cons s sigs)
  then show ?case
    by (fastforce split: prod.splits)
qed

lemma setup_proxy_signal_loop_trace:
  "source_bus ctx = Some sb \<Longrightarrow>
   snd (setup_proxy_signal_loop env iname sigs ctx)
     = map (signal_subscription env sb (source_bus_name ctx) (source_object_path ctx) iname) sigs"
proof (induction sigs arbitrary: ctx)
  case Nil
  then show ?case by simp
next
  case (Cons s sigs)
  let ?ctx1 = "ctx\<lparr>signal_subscriptions :=
                     subscribe_result env sb (source_bus_name ctx) iname s (source_object_path ctx)
                     # signal_subscriptions ctx\<rparr>"
  have "snd (setup_proxy_signal_loop env iname sigs ?ctx1)
          = map (signal_subscription env sb (source_bus_name ?ctx1) (source_object_path ?ctx1)
                   iname) sigs"
    by (rule Cons.IH) (simp add: Cons.prems)
  then have ih: "snd (setup_proxy_signal_loop env iname sigs ?ctx1)
          = map (signal_subscription env sb (source_bus_name ctx) (source_object_path ctx)
                   iname) sigs"
    by simp
  show ?case
    using Cons.prems ih
    by (auto simp: g_dbus_connection_signal_subscribe_def signal_subscription_def
          split: prod.splits)
qed

lemma setup_proxy_loop_freed:
  "setup_proxy_loop env (iface # rest) ctx Freed = Inl Use_after_free"
  by (simp add: g_dbus_connection_register_object_def split: option.split)

lemma setup_proxy_loop_frame:
  "setup_proxy_loop env ifaces ctx error = Inr (ctx', error', tr) \<Longrightarrow>
   source_bus ctx' = source_bus ctx \<and> target_bus ctx' = target_bus ctx
   \<and> source_bus_name ctx' = source_bus_name ctx
   \<and> source_object_path ctx' = source_object_path ctx
   \<and> proxy_bus_name ctx' = proxy_bus_name ctx"
proof (induction ifaces arbitrary: ctx error ctx' error' tr)
  case Nil
  then show ?case by simp
next
  case (Cons iface rest)
  obtain rid error1 tr1 where reg:
    "g_dbus_connection_register_object env (target_bus ctx) (source_object_path ctx)
       (iface_name iface) error = ((rid, error1), tr1)"
    by (metis prod.exhaust)
  show ?case
  proof (cases "rid = 0")
    case True
    with Cons.prems reg obtain e tr2 where
      "setup_proxy_loop env rest (ctx\<lparr>registration_id := rid\<rparr>) Freed = Inr (ctx', error', tr2)"
      by (auto split: ptr.splits sum.splits)
    from Cons.IH [OF this] show ?thesis by simp
  next
    case False
    obtain ctx1 tr2 where sig:
      "setup_proxy_signal_loop env (iface_name iface)
         (case iface_signals iface of None \<Rightarrow> [] | Some sigs \<Rightarrow> sigs)
         (ctx\<lparr>registration_id := rid\<rparr>) = (ctx1, tr2)"
      by (metis prod.exhaust)
    with Cons.prems reg False obtain tr3 where
      "setup_proxy_loop env rest ctx1 error1 = Inr (ctx', error', tr3)"
      by (auto split: sum.splits)
    from Cons.IH [OF this] setup_proxy_signal_loop_frame [OF sig] show ?thesis by simp
  qed
qed

lemma setup_proxy_loop_step_ok:
  assumes "target_bus ctx = Some tb"
    and "register_result env tb (source_object_path ctx) (iface_name iface) = Inr rid"
    and "rid \<noteq> 0"
  shows "setup_proxy_loop env (iface # rest) ctx Null
       = (case setup_proxy_loop env rest
                 (fst (setup_proxy_signal_loop env (iface_name iface) (signals_of iface)
                         (ctx\<lparr>registration_id := rid\<rparr>))) Null of
            Inl f \<Rightarrow> Inl f
          | Inr (ctx', error', tr3) \<Rightarrow>
              Inr (ctx', error',
                   Register_object tb (source_object_path ctx) (iface_name iface) rid
                   # snd (setup_proxy_signal_loop env (iface_name iface) (signals_of iface)
                            (ctx\<lparr>registration_id := rid\<rparr>))
                   @ tr3))"
  using assms
  by (simp add: g_dbus_connection_register_object_def signals_of_def
        split: prod.split sum.split)

lemma setup_proxy_loop_step_fail:
  assumes "target_bus ctx = Some tb"
    and "register_result env tb (source_object_path ctx) (iface_name iface) = Inl e"
  shows "setup_proxy_loop env (iface # rest) ctx Null
       = (case rest of
            [] \<Rightarrow> Inr (ctx\<lparr>registration_id := 0\<rparr>, Freed,
                       [Register_object tb (source_object_path ctx) (iface_name iface) 0,
                        Printerr (''Failed to register interface '' @ iface_name iface @ '': ''
                                  @ err_message e),
                        Error_free e])
          | next_iface # others \<Rightarrow> Inl Use_after_free)"
  using assms
  by (cases rest)
    (simp_all add: g_dbus_connection_register_object_def split: option.split)


declare setup_proxy_loop.simps(2) [simp del]



lemma signal_loop_cross_frame:
  "setup_proxy_interfaces_signal_loop env iname sigs st = (st', tr) \<Longrightarrow>
   st_source_bus st' = st_source_bus st \<and> st_target_bus st' = st_target_bus st
   \<and> st_config st' = st_config st \<and> st_introspection_data st' = st_introspection_data st
   \<and> st_registered_objects st' = st_registered_objects st"
proof (induction sigs arbitrary: st st' tr)
  case Nil
  then show ?case by simp
next
  case (Cons s sigs)
  then show ?case
    by (fastforce split: prod.splits)
qed

lemma signal_loop_cross_trace:
  "st_source_bus st = Some sb \<Longrightarrow>
   snd (setup_proxy_interfaces_signal_loop env iname sigs st)
     = map (signal_subscription env sb (cfg_source_bus_name (st_config st))
              (cfg_source_object_path (st_config st)) iname) sigs"
proof (induction sigs arbitrary: st)
  case Nil
  then show ?case by simp
next
  case (Cons s sigs)
  let ?st1 = "st\<lparr>st_signal_subscriptions :=
                    g_hash_table_insert (st_signal_subscriptions st)
                      (subscribe_result env sb (cfg_source_bus_name (st_config st)) iname s
                         (cfg_source_object_path (st_config st)))
                      (iname @ ''.'' @ s)\<rparr>"
  have "snd (setup_proxy_interfaces_signal_loop env iname sigs ?st1)
          = map (signal_subscription env sb (cfg_source_bus_name (st_config ?st1))
                   (cfg_source_object_path (st_config ?st1)) iname) sigs"
    by (rule Cons.IH) (simp add: Cons.prems)
  then have ih: "snd (setup_proxy_interfaces_signal_loop env iname sigs ?st1)
          = map (signal_subscription env sb (cfg_source_bus_name (st_config st))
                   (cfg_source_object_path (st_config st)) iname) sigs"
    by simp
  show ?case
    using Cons.prems ih
    by (auto simp: g_dbus_connection_signal_subscribe_def signal_subscription_def
          split: prod.splits)
qed

lemma loop_cross_step_ok:
  assumes "st_target_bus st = Some tb"
    and "register_result env tb (cfg_source_object_path (st_config st)) (iface_name iface)
           = Inr rid"
    and "rid \<noteq> 0"
  shows "setup_proxy_interfaces_loop env (iface # rest) st
       = (case setup_proxy_interfaces_loop env rest
                 (fst (setup_proxy_interfaces_signal_loop env (iface_name iface)
                         (signals_of iface)
                         (st\<lparr>st_registered_objects :=
                               g_hash_table_insert (st_registered_objects st) rid
                                 (iface_name iface)\<rparr>))) of
            Inl f \<Rightarrow> Inl f
          | Inr (ok, st', tr3) \<Rightarrow>
              Inr (ok, st',
                   Register_object tb (cfg_source_object_path (st_config st)) (iface_name iface)
                     rid
                   # snd (setup_proxy_interfaces_signal_loop env (iface_name iface)
                            (signals_of iface)
                            (st\<lparr>st_registered_objects :=
                                  g_hash_table_insert (st_registered_objects st) rid
                                    (iface_name iface)\<rparr>))
                   @ tr3))"
  using assms
  by (simp add: g_dbus_connection_register_object_def signals_of_def
        split: prod.split sum.split)

lemma loop_cross_step_fail:
  assumes "st_target_bus st = Some tb"
    and "register_result env tb (cfg_source_object_path (st_config st)) (iface_name iface)
           = Inl e"
  shows "setup_proxy_interfaces_loop env (iface # rest) st
       = Inr (False, st,
              [Register_object tb (cfg_source_object_path (st_config st)) (iface_name iface) 0,
               Printerr (''[ERROR] Failed to register interface '' @ iface_name iface @ '': ''
                         @ err_message e),
               Error_free e])"
  using assms
  by (simp add: g_dbus_connection_register_object_def log_error_def)

lemma loop_cross_step_zero:
  assumes "st_target_bus st = Some tb"
    and "register_result env tb (cfg_source_object_path (st_config st)) (iface_name iface)
           = Inr 0"
  shows "setup_proxy_interfaces_loop env (iface # rest) st = Inl Null_dereference"
  using assms
  by (simp add: g_dbus_connection_register_object_def)

declare setup_proxy_interfaces_loop.simps(2) [simp del]

lemma loop_cross_frame:
  assumes "setup_proxy_interfaces_loop env ifaces st = Inr (ok, st', tr)"
    and "st_target_bus st = Some tb"
  shows "st_source_bus st' = st_source_bus st \<and> st_target_bus st' = st_target_bus st
       \<and> st_config st' = st_config st \<and> st_introspection_data st' = st_introspection_data st"
  using assms
proof (induction ifaces arbitrary: st st' tr)
  case Nil
  then show ?case by simp
next
  case (Cons iface rest)
  show ?case
  proof (cases "register_result env tb (cfg_source_object_path (st_config st))
                  (iface_name iface)")
    case (Inl e)
    with Cons.prems show ?thesis
      by (simp add: loop_cross_step_fail [OF Cons.prems(2) Inl])
  next
    case (Inr rid)
    show ?thesis
    proof (cases "rid = 0")
      case True
      with Inr Cons.prems show ?thesis
        by (simp add: loop_cross_step_zero [of st tb env iface rest])
    next
      case False
      let ?st0 = "st\<lparr>st_registered_objects :=
                        g_hash_table_insert (st_registered_objects st) rid (iface_name iface)\<rparr>"
      let ?sig = "setup_proxy_interfaces_signal_loop env (iface_name iface) (signals_of iface)
                    ?st0"
      have fr: "st_source_bus (fst ?sig) = st_source_bus st"
        "st_target_bus (fst ?sig) = Some tb"
        "st_config (fst ?sig) = st_config st"
        "st_introspection_data (fst ?sig) = st_introspection_data st"
        using signal_loop_cross_frame [of env "iface_name iface" "signals_of iface" ?st0
            "fst ?sig" "snd ?sig"] Cons.prems(2)
        by simp_all
      from Cons.prems(1) obtain tr3 where
        rec: "setup_proxy_interfaces_loop env rest (fst ?sig) = Inr (ok, st', tr3)"
        by (auto simp: loop_cross_step_ok [OF Cons.prems(2) Inr False] split: sum.splits)
      from Cons.IH [OF rec fr(2)] fr Cons.prems(2) show ?thesis
        by simp
    qed
  qed
qed






declare main_conf_loop.simps(2) [simp del]



lemma main_cross_introspected:
  assumes "validateProxyConfigOrExit config = None"
    and "bus_get_result env (cfg_source_bus_type config) = Inr sb"
    and "bus_get_result env (cfg_target_bus_type config) = Inr tb"
    and "call_result env sb (cfg_source_bus_name config) (cfg_source_object_path config)
           ''org.freedesktop.DBus.Introspectable'' ''Introspect'' None
           = Inr (GV_tuple [GV_string xml])"
    and "xml_result env xml = Inr info"
  shows "main_cross env config
       = (case setup_proxy_interfaces env
                 \<lparr>st_source_bus = Some sb, st_target_bus = Some tb,
                  st_introspection_data = Some info, st_registered_objects = [],
                  st_signal_subscriptions = [], st_config = config\<rparr> of
            Inl f \<Rightarrow> Inl f
          | Inr (False, st3, tr3) \<Rightarrow>
              Inr (1, None,
                   [Bus_get (cfg_source_bus_type config), Bus_get (cfg_target_bus_type config),
                    Method_call sb (cfg_source_bus_name config) (cfg_source_object_path config)
                      ''org.freedesktop.DBus.Introspectable'' ''Introspect'' None (- 1)]
                   @ tr3 @ snd (cleanup_proxy_state (Some st3)))
          | Inr (True, st3, tr3) \<Rightarrow>
              (case acquire_bus_name env st3 of
                 (False, tr4) \<Rightarrow>
                   Inr (1, None,
                        [Bus_get (cfg_source_bus_type config),
                         Bus_get (cfg_target_bus_type config),
                         Method_call sb (cfg_source_bus_name config)
                           (cfg_source_object_path config)
                           ''org.freedesktop.DBus.Introspectable'' ''Introspect'' None (- 1)]
                        @ tr3 @ tr4 @ snd (cleanup_proxy_state (Some st3)))
               | (True, tr4) \<Rightarrow>
                   Inr (0, None,
                        [Bus_get (cfg_source_bus_type config),
                         Bus_get (cfg_target_bus_type config),
                         Method_call sb (cfg_source_bus_name config)
                           (cfg_source_object_path config)
                           ''org.freedesktop.DBus.Introspectable'' ''Introspect'' None (- 1)]
                        @ tr3 @ tr4 @ [Main_loop_run] @ snd (cleanup_proxy_state (Some st3)))))"
  using assms
  by (simp add: main_cross_def init_proxy_state_def connect_to_buses_def
        fetch_introspection_data_def cleanup_proxy_state_def
        g_bus_get_sync_def g_dbus_connection_call_sync_def call_answer_def
        g_variant_get_s_def g_dbus_node_info_new_for_xml_def
        split: sum.split prod.split bool.split)

section \<open>Signal subscriptions of a proxy\<close>





lemma demo_setup_proxy_last_fails:
  "setup_proxy (demo_env (Some [demo_iface, taken_iface])) ''system'' ''session''
     ''org.example.Source'' ''/org/example'' ''org.example.Proxy''
   = Inr (Live \<lparr>source_bus = Some 1, target_bus = Some 2,
                source_bus_name = ''org.example.Source'',
                source_object_path = ''/org/example'',
                proxy_bus_name = ''org.example.Proxy'',
                introspection_data = Some \<lparr>interfaces = Some [demo_iface, taken_iface]\<rparr>,
                registration_id = 0, signal_subscriptions = [7]\<rparr>,
          [Bus_get G_BUS_TYPE_SYSTEM, Bus_get G_BUS_TYPE_SESSION,
           Method_call 1 ''org.example.Source'' ''/org/example''
             ''org.freedesktop.DBus.Introspectable'' ''Introspect'' None (- 1),
           Register_object 2 ''/org/example'' ''com.example.Demo'' 1,
           Signal_subscribe 1 ''org.example.Source'' ''com.example.Demo'' ''Ping''
             ''/org/example'' 7,
           Register_object 2 ''/org/example'' ''com.example.Taken'' 0,
           Printerr ''Failed to register interface com.example.Taken: no such service'',
           Error_free err_no_service,
           Own_name_on_connection 2 ''org.example.Proxy''])"
  by (simp add: setup_proxy_def create_connection_def loop_simps demo_env_def demo_iface_def
        taken_iface_def err_no_service_def glib_defs)





section \<open>The ledger of the cross-bus proxy\<close>

lemma map_filter_append:
  "List.map_filter f (xs @ ys) = List.map_filter f xs @ List.map_filter f ys"
  by (simp add: List.map_filter_def)

lemma map_filter_Cons:
  "List.map_filter f (x # xs)
     = (case f x of None \<Rightarrow> List.map_filter f xs | Some y \<Rightarrow> y # List.map_filter f xs)"
  by (simp add: List.map_filter_def split: option.split)

lemma map_filter_Nil:
  "List.map_filter f [] = []"
  by (simp add: List.map_filter_def)

lemmas map_filter_simps = map_filter_append map_filter_Cons map_filter_Nil

lemma hash_table_keys:
  "fst ` set (g_hash_table_insert t k v) = insert k (fst ` set t)"
  by (simp add: g_hash_table_insert_def dom_update)

lemma signal_loop_cross_ledger:
  assumes "st_source_bus st = Some sb"
  shows "fst ` set (st_signal_subscriptions
                     (fst (setup_proxy_interfaces_signal_loop env iname sigs st)))
           = fst ` set (st_signal_subscriptions st)
             \<union> set (List.map_filter subscribe_id_of
                      (snd (setup_proxy_interfaces_signal_loop env iname sigs st)))
       \<and> List.map_filter register_id_of
           (snd (setup_proxy_interfaces_signal_loop env iname sigs st)) = []"
  using assms
proof (induction sigs arbitrary: st)
  case Nil
  then show ?case by (simp add: map_filter_simps)
next
  case (Cons s sigs)
  let ?sid = "subscribe_result env sb (cfg_source_bus_name (st_config st)) iname s
                (cfg_source_object_path (st_config st))"
  let ?st1 = "st\<lparr>st_signal_subscriptions :=
                    g_hash_table_insert (st_signal_subscriptions st) ?sid (iname @ ''.'' @ s)\<rparr>"
  have "st_source_bus ?st1 = Some sb"
    using Cons.prems by simp
  note ih = Cons.IH [OF this]
  obtain st2 tr2 where
    r: "setup_proxy_interfaces_signal_loop env iname sigs ?st1 = (st2, tr2)"
    by force
  from ih r have k: "fst ` set (st_signal_subscriptions st2)
                       = insert ?sid (fst ` set (st_signal_subscriptions st))
                         \<union> set (List.map_filter subscribe_id_of tr2)"
    and n: "List.map_filter register_id_of tr2 = []"
    by (simp_all add: hash_table_keys)
  show ?case
    using Cons.prems r k n
    by (simp add: g_dbus_connection_signal_subscribe_def map_filter_simps)
qed

lemma loop_cross_ledger:
  assumes "setup_proxy_interfaces_loop env ifaces st = Inr (ok, st', tr)"
    and "st_source_bus st = Some sb" and "st_target_bus st = Some tb"
  shows "fst ` set (st_registered_objects st')
           = fst ` set (st_registered_objects st) \<union> set (List.map_filter register_id_of tr)
       \<and> fst ` set (st_signal_subscriptions st')
           = fst ` set (st_signal_subscriptions st) \<union> set (List.map_filter subscribe_id_of tr)"
  using assms
proof (induction ifaces arbitrary: st st' tr)
  case Nil
  then show ?case by (simp add: map_filter_simps)
next
  case (Cons iface rest)
  show ?case
  proof (cases "register_result env tb (cfg_source_object_path (st_config st))
                  (iface_name iface)")
    case (Inl e)
    with Cons.prems(1) show ?thesis
      by (auto simp: loop_cross_step_fail [OF Cons.prems(3) Inl] map_filter_simps)
  next
    case (Inr rid)
    show ?thesis
    proof (cases "rid = 0")
      case True
      with Inr Cons.prems show ?thesis
        by (simp add: loop_cross_step_zero [of st tb env iface rest])
    next
      case False
      let ?st0 = "st\<lparr>st_registered_objects :=
                        g_hash_table_insert (st_registered_objects st) rid (iface_name iface)\<rparr>"
      let ?sig = "setup_proxy_interfaces_signal_loop env (iface_name iface) (signals_of iface)
                    ?st0"
      have fr: "st_source_bus (fst ?sig) = Some sb" "st_target_bus (fst ?sig) = Some tb"
        "st_registered_objects (fst ?sig) = st_registered_objects ?st0"
        using signal_loop_cross_frame [of env "iface_name iface" "signals_of iface" ?st0
            "fst ?sig" "snd ?sig"] Cons.prems(2,3)
        by simp_all
      have led: "fst ` set (st_signal_subscriptions (fst ?sig))
                   = fst ` set (st_signal_subscriptions st)
                     \<union> set (List.map_filter subscribe_id_of (snd ?sig))"
        "List.map_filter register_id_of (snd ?sig) = []"
        using signal_loop_cross_ledger [of ?st0 sb env "iface_name iface" "signals_of iface"]
          Cons.prems(2)
        by simp_all
      from Cons.prems(1) obtain tr3 where
        rec: "setup_proxy_interfaces_loop env rest (fst ?sig) = Inr (ok, st', tr3)"
        and tr: "tr = Register_object tb (cfg_source_object_path (st_config st))
                        (iface_name iface) rid
                      # snd ?sig @ tr3"
        by (auto simp: loop_cross_step_ok [OF Cons.prems(3) Inr False] split: sum.splits)
      note ih = Cons.IH [OF rec fr(1) fr(2)]
      show ?thesis
        using ih False
        by (simp add: tr led fr(3) map_filter_simps hash_table_keys Un_assoc)
    qed
  qed
qed

lemma cleanup_proxy_state_ledger:
  assumes "st_source_bus st = Some sb" and "st_target_bus st = Some tb"
  shows "set (List.map_filter unregister_id_of (snd (cleanup_proxy_state (Some st))))
           = fst ` set (st_registered_objects st)
       \<and> set (List.map_filter unsubscribe_id_of (snd (cleanup_proxy_state (Some st))))
           = fst ` set (st_signal_subscriptions st)"
proof -
  have u: "List.map_filter unregister_id_of
             (concat (map (\<lambda>(key, label). g_dbus_connection_unregister_object (Some tb) key) t))
           = map fst t"
    "List.map_filter unsubscribe_id_of
             (concat (map (\<lambda>(key, label). g_dbus_connection_unregister_object (Some tb) key) t))
           = []"
    "List.map_filter unsubscribe_id_of
             (concat (map (\<lambda>(key, label). g_dbus_connection_signal_unsubscribe (Some sb) key) t))
           = map fst t"
    "List.map_filter unregister_id_of
             (concat (map (\<lambda>(key, label). g_dbus_connection_signal_unsubscribe (Some sb) key) t))
           = []"
    for t :: hash_table
    by (induction t)
      (auto simp: map_filter_simps g_dbus_connection_unregister_object_def
         g_dbus_connection_signal_unsubscribe_def)
  show ?thesis
    using assms
    by (simp add: cleanup_proxy_state_def map_filter_simps u split: option.split)
qed

lemma unregister_table:
  "concat (map (\<lambda>(key, label). g_dbus_connection_unregister_object (Some tb) key) t)
     = map (Unregister_object tb) (map fst t)"
  by (induction t) (auto simp: g_dbus_connection_unregister_object_def)

lemma unsubscribe_table:
  "concat (map (\<lambda>(key, label). g_dbus_connection_signal_unsubscribe (Some sb) key) t)
     = map (Signal_unsubscribe sb) (map fst t)"
  by (induction t) (auto simp: g_dbus_connection_signal_unsubscribe_def)

lemma unsubscribe_list:
  "concat (map (g_dbus_connection_signal_unsubscribe (Some sb)) ids)
     = map (Signal_unsubscribe sb) ids"
  by (induction ids) (auto simp: g_dbus_connection_signal_unsubscribe_def)

section \<open>A registration that fails\<close>

lemma setup_proxy_loop_last_fails_trace:
  assumes "list_all (registered env tb (source_object_path ctx)) pre"
    and "register_result env tb (source_object_path ctx) (iface_name bad) = Inl e"
    and "source_bus ctx = Some sb" and "target_bus ctx = Some tb"
  shows "\<exists>ctx'. setup_proxy_loop env (pre @ [bad]) ctx Null
           = Inr (ctx', Freed,
                  concat (map (registration_of env sb tb (source_bus_name ctx)
                                 (source_object_path ctx)) pre)
                  @ [Register_object tb (source_object_path ctx) (iface_name bad) 0,
                     Printerr (''Failed to register interface '' @ iface_name bad @ '': ''
                               @ err_message e),
                     Error_free e])"
  using assms
proof (induction pre arbitrary: ctx)
  case Nil
  then show ?case
    by (simp add: setup_proxy_loop_step_fail [of ctx tb env bad e "[]"])
next
  case (Cons iface pre)
  from Cons.prems(1) obtain rid where
    reg: "register_result env tb (source_object_path ctx) (iface_name iface) = Inr rid"
    and nz: "rid \<noteq> 0"
    by (auto simp: registered_def returned_id_def split: sum.splits)
  let ?sig = "setup_proxy_signal_loop env (iface_name iface) (signals_of iface)
                (ctx\<lparr>registration_id := rid\<rparr>)"
  have fr: "source_bus (fst ?sig) = Some sb" "target_bus (fst ?sig) = Some tb"
    "source_bus_name (fst ?sig) = source_bus_name ctx"
    "source_object_path (fst ?sig) = source_object_path ctx"
    using setup_proxy_signal_loop_frame [of env "iface_name iface" "signals_of iface"
        "ctx\<lparr>registration_id := rid\<rparr>" "fst ?sig" "snd ?sig"] Cons.prems(3,4)
    by simp_all
  have sg: "snd ?sig = map (signal_subscription env sb (source_bus_name ctx)
                              (source_object_path ctx) (iface_name iface))
                         (signals_of iface)"
    using setup_proxy_signal_loop_trace [of "ctx\<lparr>registration_id := rid\<rparr>" sb env
        "iface_name iface" "signals_of iface"] Cons.prems(3)
    by simp
  have ri: "returned_id env tb (source_object_path ctx) iface = rid"
    using reg by (simp add: returned_id_def)
  have "\<exists>ctx'. setup_proxy_loop env (pre @ [bad]) (fst ?sig) Null
           = Inr (ctx', Freed,
                  concat (map (registration_of env sb tb (source_bus_name (fst ?sig))
                                 (source_object_path (fst ?sig))) pre)
                  @ [Register_object tb (source_object_path (fst ?sig)) (iface_name bad) 0,
                     Printerr (''Failed to register interface '' @ iface_name bad @ '': ''
                               @ err_message e),
                     Error_free e])"
    using Cons.prems by (intro Cons.IH) (simp_all add: fr)
  then obtain ctx' where
    rec: "setup_proxy_loop env (pre @ [bad]) (fst ?sig) Null
           = Inr (ctx', Freed,
                  concat (map (registration_of env sb tb (source_bus_name ctx)
                                 (source_object_path ctx)) pre)
                  @ [Register_object tb (source_object_path ctx) (iface_name bad) 0,
                     Printerr (''Failed to register interface '' @ iface_name bad @ '': ''
                               @ err_message e),
                     Error_free e])"
    by (auto simp: fr)
  have h: "registration_of env sb tb (source_bus_name ctx) (source_object_path ctx) iface
             = Register_object tb (source_object_path ctx) (iface_name iface) rid # snd ?sig"
    by (simp add: registration_of_def ri sg)
  show ?case
    by (simp add: setup_proxy_loop_step_ok [OF Cons.prems(4) reg nz] rec h)
qed

lemma loop_cross_some_fails_trace:
  assumes "list_all (registered env tb (cfg_source_object_path (st_config st))) pre"
    and "register_result env tb (cfg_source_object_path (st_config st)) (iface_name bad)
           = Inl e"
    and "st_source_bus st = Some sb" and "st_target_bus st = Some tb"
  shows "\<exists>st'. setup_proxy_interfaces_loop env (pre @ bad # rest) st
           = Inr (False, st',
                  concat (map (registration_of env sb tb (cfg_source_bus_name (st_config st))
                                 (cfg_source_object_path (st_config st))) pre)
                  @ [Register_object tb (cfg_source_object_path (st_config st))
                       (iface_name bad) 0,
                     Printerr (''[ERROR] Failed to register interface '' @ iface_name bad
                               @ '': '' @ err_message e),
                     Error_free e])"
  using assms
proof (induction pre arbitrary: st)
  case Nil
  then show ?case
    by (simp add: loop_cross_step_fail [of st tb env bad e rest])
next
  case (Cons iface pre)
  from Cons.prems(1) obtain rid where
    reg: "register_result env tb (cfg_source_object_path (st_config st)) (iface_name iface)
            = Inr rid"
    and nz: "rid \<noteq> 0"
    by (auto simp: registered_def returned_id_def split: sum.splits)
  let ?st0 = "st\<lparr>st_registered_objects :=
                    g_hash_table_insert (st_registered_objects st) rid (iface_name iface)\<rparr>"
  let ?sig = "setup_proxy_interfaces_signal_loop env (iface_name iface) (signals_of iface) ?st0"
  have fr: "st_source_bus (fst ?sig) = Some sb" "st_target_bus (fst ?sig) = Some tb"
    "st_config (fst ?sig) = st_config st"
    using signal_loop_cross_frame [of env "iface_name iface" "signals_of iface" ?st0
        "fst ?sig" "snd ?sig"] Cons.prems(3,4)
    by simp_all
  have sg: "snd ?sig = map (signal_subscription env sb (cfg_source_bus_name (st_config st))
                              (cfg_source_object_path (st_config st)) (iface_name iface))
                         (signals_of iface)"
    using signal_loop_cross_trace [of ?st0 sb env "iface_name iface" "signals_of iface"]
      Cons.prems(3)
    by simp
  have ri: "returned_id env tb (cfg_source_object_path (st_config st)) iface = rid"
    using reg by (simp add: returned_id_def)
  have "\<exists>st'. setup_proxy_interfaces_loop env (pre @ bad # rest) (fst ?sig)
           = Inr (False, st',
                  concat (map (registration_of env sb tb
                                 (cfg_source_bus_name (st_config (fst ?sig)))
                                 (cfg_source_object_path (st_config (fst ?sig)))) pre)
                  @ [Register_object tb (cfg_source_object_path (st_config (fst ?sig)))
                       (iface_name bad) 0,
                     Printerr (''[ERROR] Failed to register interface '' @ iface_name bad
                               @ '': '' @ err_message e),
                     Error_free e])"
    using Cons.prems by (intro Cons.IH) (simp_all add: fr)
  then obtain st' where
    rec: "setup_proxy_interfaces_loop env (pre @ bad # rest) (fst ?sig)
           = Inr (False, st',
                  concat (map (registration_of env sb tb (cfg_source_bus_name (st_config st))
                                 (cfg_source_object_path (st_config st))) pre)
                  @ [Register_object tb (cfg_source_object_path (st_config st))
                       (iface_name bad) 0,
                     Printerr (''[ERROR] Failed to register interface '' @ iface_name bad
                               @ '': '' @ err_message e),
                     Error_free e])"
    by (auto simp: fr)
  have h: "registration_of env sb tb (cfg_source_bus_name (st_config st))
             (cfg_source_object_path (st_config st)) iface
             = Register_object tb (cfg_source_object_path (st_config st)) (iface_name iface) rid
               # snd ?sig"
    by (simp add: registration_of_def ri sg)
  show ?case
    by (simp add: loop_cross_step_ok [OF Cons.prems(4) reg nz] rec h)
qed

lemma hash_table_distinct:
  "distinct (map fst t) \<Longrightarrow> distinct (map fst (g_hash_table_insert t k v))"
  by (simp add: g_hash_table_insert_def distinct_update)

lemma signal_loop_cross_distinct:
  "distinct (map fst (st_signal_subscriptions st)) \<Longrightarrow>
   distinct (map fst (st_signal_subscriptions
                        (fst (setup_proxy_interfaces_signal_loop env iname sigs st))))"
proof (induction sigs arbitrary: st)
  case Nil
  then show ?case by simp
next
  case (Cons s sigs)
  obtain sid tr1 where sub:
    "g_dbus_connection_signal_subscribe env (st_source_bus st)
       (cfg_source_bus_name (st_config st)) iname s (cfg_source_object_path (st_config st))
     = (sid, tr1)"
    by force
  let ?st1 = "st\<lparr>st_signal_subscriptions :=
                    g_hash_table_insert (st_signal_subscriptions st) sid (iname @ ''.'' @ s)\<rparr>"
  have "distinct (map fst (st_signal_subscriptions ?st1))"
    using Cons.prems by (simp add: hash_table_distinct)
  note ih = Cons.IH [OF this]
  show ?case
    using ih by (auto simp: sub split: prod.split)
qed

lemma loop_cross_distinct:
  assumes "setup_proxy_interfaces_loop env ifaces st = Inr (ok, st', tr)"
    and "st_target_bus st = Some tb"
    and "distinct (map fst (st_registered_objects st))"
    and "distinct (map fst (st_signal_subscriptions st))"
  shows "distinct (map fst (st_registered_objects st'))
       \<and> distinct (map fst (st_signal_subscriptions st'))"
  using assms
proof (induction ifaces arbitrary: st st' tr)
  case Nil
  then show ?case by simp
next
  case (Cons iface rest)
  show ?case
  proof (cases "register_result env tb (cfg_source_object_path (st_config st))
                  (iface_name iface)")
    case (Inl e)
    with Cons.prems show ?thesis
      by (simp add: loop_cross_step_fail [OF Cons.prems(2) Inl])
  next
    case (Inr rid)
    show ?thesis
    proof (cases "rid = 0")
      case True
      with Inr Cons.prems show ?thesis
        by (simp add: loop_cross_step_zero [of st tb env iface rest])
    next
      case False
      let ?st0 = "st\<lparr>st_registered_objects :=
                        g_hash_table_insert (st_registered_objects st) rid (iface_name iface)\<rparr>"
      let ?sig = "setup_proxy_interfaces_signal_loop env (iface_name iface) (signals_of iface)
                    ?st0"
      have fr: "st_target_bus (fst ?sig) = Some tb"
        "st_registered_objects (fst ?sig) = st_registered_objects ?st0"
        using signal_loop_cross_frame [of env "iface_name iface" "signals_of iface" ?st0
            "fst ?sig" "snd ?sig"] Cons.prems(2)
        by simp_all
      have d1: "distinct (map fst (st_registered_objects (fst ?sig)))"
        using Cons.prems(3) by (simp add: fr(2) hash_table_distinct)
      have d2: "distinct (map fst (st_signal_subscriptions (fst ?sig)))"
        using Cons.prems(4) by (intro signal_loop_cross_distinct) simp
      from Cons.prems(1) obtain tr3 where
        rec: "setup_proxy_interfaces_loop env rest (fst ?sig) = Inr (ok, st', tr3)"
        by (auto simp: loop_cross_step_ok [OF Cons.prems(2) Inr False] split: sum.splits)
      from Cons.IH [OF rec fr(1) d1 d2] show ?thesis .
    qed
  qed
qed

lemma registration_of_ids:
  assumes "list_all (registered env tb path) pre"
  shows "List.map_filter register_id_of (concat (map (registration_of env sb tb sender path) pre))
           = map (returned_id env tb path) pre"
    and "List.map_filter subscribe_id_of
           (concat (map (registration_of env sb tb sender path) pre))
           = subscription_ids env sb sender path pre"
proof -
  have s: "List.map_filter register_id_of (map (signal_subscription env sb sender path iname) sigs)
             = []"
    "List.map_filter subscribe_id_of (map (signal_subscription env sb sender path iname) sigs)
       = map (\<lambda>s. subscribe_result env sb sender iname s path) sigs" for iname sigs
    by (induction sigs) (simp_all add: map_filter_simps signal_subscription_def)
  show "List.map_filter register_id_of (concat (map (registration_of env sb tb sender path) pre))
           = map (returned_id env tb path) pre"
    using assms
    by (induction pre) (simp_all add: map_filter_simps registration_of_def s registered_def)
  show "List.map_filter subscribe_id_of
           (concat (map (registration_of env sb tb sender path) pre))
           = subscription_ids env sb sender path pre"
    by (induction pre) (simp_all add: map_filter_simps registration_of_def s subscription_ids_def)
qed


text \<open>
  C3, as the code has it. In the multi-bus proxy a registration that fails does not end
  the setup. When the interfaces before the last one are registered and the last one
  fails, the actions of \<^verbatim>\<open>setup_proxy\<close> are: the two connections, the introspection
  call, then for each interface but the last its registration and the subscriptions to
  its signals, then the registration that fails, the report of the failure on standard
  error, and the request for the name; nothing is unregistered, \<^verbatim>\<open>setup_proxy\<close> returns
  the context and \<^verbatim>\<open>main\<close> enters its loop. In the cross-bus proxy the first
  registration that fails ends the setup: after the report of the failure no later
  interface is tried, the name is not requested and the main loop is not entered;
  \<^verbatim>\<open>main\<close> unregisters, once each, the registrations that were made, unsubscribes, once
  each, the subscriptions that were made, releases the state and ends with status 1.
\<close>

theorem registration_failure:
  assumes "fst (create_connection env source_address) = (Some sb, None)"
    and "fst (create_connection env target_address) = (Some tb, None)"
    and "call_result env sb source_service source_path ''org.freedesktop.DBus.Introspectable''
           ''Introspect'' None = Inr (GV_tuple [GV_string xml])"
    and "xml_result env xml = Inr info"
    and "interfaces info = Some (pre @ [bad])"
    and "list_all (registered env tb source_path) pre"
    and "register_result env tb source_path (iface_name bad) = Inl e"
    and "validateProxyConfigOrExit config = None"
    and "bus_get_result env' (cfg_source_bus_type config) = Inr sb'"
    and "bus_get_result env' (cfg_target_bus_type config) = Inr tb'"
    and "call_result env' sb' (cfg_source_bus_name config) (cfg_source_object_path config)
           ''org.freedesktop.DBus.Introspectable'' ''Introspect'' None
           = Inr (GV_tuple [GV_string xml'])"
    and "xml_result env' xml' = Inr info'"
    and "interfaces info' = Some (pre' @ bad' # rest')"
    and "list_all (registered env' tb' (cfg_source_object_path config)) pre'"
    and "register_result env' tb' (cfg_source_object_path config) (iface_name bad') = Inl e'"
  shows "(\<exists>ctx tr tr'.
            setup_proxy env source_address target_address source_service source_path
              proxy_service = Inr (Live ctx, tr)
          \<and> main env source_address target_address source_service source_path proxy_service
              = Inr (0, tr @ [Main_loop_run] @ tr')
          \<and> tr = snd (create_connection env source_address)
                 @ snd (create_connection env target_address)
                 @ [Method_call sb source_service source_path
                      ''org.freedesktop.DBus.Introspectable'' ''Introspect'' None (- 1)]
                 @ concat (map (registration_of env sb tb source_service source_path) pre)
                 @ [Register_object tb source_path (iface_name bad) 0,
                    Printerr (''Failed to register interface '' @ iface_name bad @ '': ''
                              @ err_message e),
                    Error_free e,
                    Own_name_on_connection tb proxy_service])
       \<and> (\<exists>regs subs.
            main_cross env' config
              = Inr (1, None,
                     [Bus_get (cfg_source_bus_type config), Bus_get (cfg_target_bus_type config),
                      Method_call sb' (cfg_source_bus_name config)
                        (cfg_source_object_path config)
                        ''org.freedesktop.DBus.Introspectable'' ''Introspect'' None (- 1)]
                     @ concat (map (registration_of env' sb' tb' (cfg_source_bus_name config)
                                      (cfg_source_object_path config)) pre')
                     @ [Register_object tb' (cfg_source_object_path config) (iface_name bad') 0,
                        Printerr (''[ERROR] Failed to register interface '' @ iface_name bad'
                                  @ '': '' @ err_message e'),
                        Error_free e']
                     @ map (Unregister_object tb') regs
                     @ map (Signal_unsubscribe sb') subs
                     @ [Node_info_unref, Object_unref sb', Object_unref tb', Free_context])
          \<and> distinct regs
          \<and> set regs = returned_id env' tb' (cfg_source_object_path config) ` set pre'
          \<and> distinct subs
          \<and> set subs = set (subscription_ids env' sb' (cfg_source_bus_name config)
                               (cfg_source_object_path config) pre'))"
proof -
  let ?ctx0 = "\<lparr>source_bus = Some sb, target_bus = Some tb, source_bus_name = source_service,
               source_object_path = source_path, proxy_bus_name = proxy_service,
               introspection_data = Some info, registration_id = 0,
               signal_subscriptions = []\<rparr>"
  let ?tr4 = "concat (map (registration_of env sb tb source_service source_path) pre)
              @ [Register_object tb source_path (iface_name bad) 0,
                 Printerr (''Failed to register interface '' @ iface_name bad @ '': ''
                           @ err_message e),
                 Error_free e]"
  have "\<exists>ctx'. setup_proxy_loop env (pre @ [bad]) ?ctx0 Null
           = Inr (ctx', Freed,
                  concat (map (registration_of env sb tb (source_bus_name ?ctx0)
                                 (source_object_path ?ctx0)) pre)
                  @ [Register_object tb (source_object_path ?ctx0) (iface_name bad) 0,
                     Printerr (''Failed to register interface '' @ iface_name bad @ '': ''
                               @ err_message e),
                     Error_free e])"
    by (rule setup_proxy_loop_last_fails_trace [where e = e]) (simp_all add: assms(6,7))
  then obtain ctx where
    loop: "setup_proxy_loop env (pre @ [bad]) ?ctx0 Null = Inr (ctx, Freed, ?tr4)"
    by auto
  have fr: "target_bus ctx = Some tb" "proxy_bus_name ctx = proxy_service"
    using setup_proxy_loop_frame [OF loop] by simp_all
  let ?tr = "snd (create_connection env source_address)
             @ snd (create_connection env target_address)
             @ [Method_call sb source_service source_path
                  ''org.freedesktop.DBus.Introspectable'' ''Introspect'' None (- 1)]
             @ concat (map (registration_of env sb tb source_service source_path) pre)
             @ [Register_object tb source_path (iface_name bad) 0,
                Printerr (''Failed to register interface '' @ iface_name bad @ '': ''
                          @ err_message e),
                Error_free e,
                Own_name_on_connection tb proxy_service]"
  have s: "setup_proxy env source_address target_address source_service source_path
             proxy_service = Inr (Live ctx, ?tr)"
    by (simp add: setup_proxy_introspected [OF assms(1-5), of proxy_service] loop fr
          g_bus_own_name_on_connection_def)
  have m: "main env source_address target_address source_service source_path proxy_service
             = Inr (0, ?tr @ [Main_loop_run] @ snd (projr (cleanup_proxy (Live ctx))))"
    by (simp add: main_def s cleanup_proxy_def)
  have multi: "\<exists>ctx tr tr'.
            setup_proxy env source_address target_address source_service source_path
              proxy_service = Inr (Live ctx, tr)
          \<and> main env source_address target_address source_service source_path proxy_service
              = Inr (0, tr @ [Main_loop_run] @ tr')
          \<and> tr = snd (create_connection env source_address)
                 @ snd (create_connection env target_address)
                 @ [Method_call sb source_service source_path
                      ''org.freedesktop.DBus.Introspectable'' ''Introspect'' None (- 1)]
                 @ concat (map (registration_of env sb tb source_service source_path) pre)
                 @ [Register_object tb source_path (iface_name bad) 0,
                    Printerr (''Failed to register interface '' @ iface_name bad @ '': ''
                              @ err_message e),
                    Error_free e,
                    Own_name_on_connection tb proxy_service]"
    using s m by blast
  let ?st2 = "\<lparr>st_source_bus = Some sb', st_target_bus = Some tb',
              st_introspection_data = Some info', st_registered_objects = [],
              st_signal_subscriptions = [], st_config = config\<rparr>"
  let ?tr3 = "concat (map (registration_of env' sb' tb' (cfg_source_bus_name config)
                             (cfg_source_object_path config)) pre')
              @ [Register_object tb' (cfg_source_object_path config) (iface_name bad') 0,
                 Printerr (''[ERROR] Failed to register interface '' @ iface_name bad'
                           @ '': '' @ err_message e'),
                 Error_free e']"
  have "\<exists>st'. setup_proxy_interfaces_loop env' (pre' @ bad' # rest') ?st2
           = Inr (False, st',
                  concat (map (registration_of env' sb' tb' (cfg_source_bus_name (st_config ?st2))
                                 (cfg_source_object_path (st_config ?st2))) pre')
                  @ [Register_object tb' (cfg_source_object_path (st_config ?st2))
                       (iface_name bad') 0,
                     Printerr (''[ERROR] Failed to register interface '' @ iface_name bad'
                               @ '': '' @ err_message e'),
                     Error_free e'])"
    by (rule loop_cross_some_fails_trace [where e = e']) (simp_all add: assms(14,15))
  then obtain st3 where
    xloop: "setup_proxy_interfaces_loop env' (pre' @ bad' # rest') ?st2 = Inr (False, st3, ?tr3)"
    by auto
  have x: "setup_proxy_interfaces env' ?st2 = Inr (False, st3, ?tr3)"
    by (simp add: setup_proxy_interfaces_def assms(13) xloop)
  have xfr: "st_source_bus st3 = Some sb'" "st_target_bus st3 = Some tb'"
    "st_introspection_data st3 = Some info'"
    using loop_cross_frame [OF xloop, of tb'] by simp_all
  have led: "fst ` set (st_registered_objects st3)
               = returned_id env' tb' (cfg_source_object_path config) ` set pre'"
    "fst ` set (st_signal_subscriptions st3)
       = set (subscription_ids env' sb' (cfg_source_bus_name config)
                (cfg_source_object_path config) pre')"
    using loop_cross_ledger [OF xloop, of sb' tb']
      registration_of_ids [OF assms(14), of sb' "cfg_source_bus_name config"]
    by (simp_all add: map_filter_simps)
  have dis: "distinct (map fst (st_registered_objects st3))"
    "distinct (map fst (st_signal_subscriptions st3))"
    using loop_cross_distinct [OF xloop, of tb'] by simp_all
  have cl: "snd (cleanup_proxy_state (Some st3))
              = map (Unregister_object tb') (map fst (st_registered_objects st3))
                @ map (Signal_unsubscribe sb') (map fst (st_signal_subscriptions st3))
                @ [Node_info_unref, Object_unref sb', Object_unref tb', Free_context]"
    using xfr by (simp add: cleanup_proxy_state_def unregister_table unsubscribe_table)
  have mx: "main_cross env' config
              = Inr (1, None,
                     [Bus_get (cfg_source_bus_type config), Bus_get (cfg_target_bus_type config),
                      Method_call sb' (cfg_source_bus_name config)
                        (cfg_source_object_path config)
                        ''org.freedesktop.DBus.Introspectable'' ''Introspect'' None (- 1)]
                     @ ?tr3
                     @ map (Unregister_object tb') (map fst (st_registered_objects st3))
                     @ map (Signal_unsubscribe sb') (map fst (st_signal_subscriptions st3))
                     @ [Node_info_unref, Object_unref sb', Object_unref tb', Free_context])"
    by (simp add: main_cross_introspected [OF assms(8-12)] x cl)
  have cross: "\<exists>regs subs.
            main_cross env' config
              = Inr (1, None,
                     [Bus_get (cfg_source_bus_type config), Bus_get (cfg_target_bus_type config),
                      Method_call sb' (cfg_source_bus_name config)
                        (cfg_source_object_path config)
                        ''org.freedesktop.DBus.Introspectable'' ''Introspect'' None (- 1)]
                     @ concat (map (registration_of env' sb' tb' (cfg_source_bus_name config)
                                      (cfg_source_object_path config)) pre')
                     @ [Register_object tb' (cfg_source_object_path config) (iface_name bad') 0,
                        Printerr (''[ERROR] Failed to register interface '' @ iface_name bad'
                                  @ '': '' @ err_message e'),
                        Error_free e']
                     @ map (Unregister_object tb') regs
                     @ map (Signal_unsubscribe sb') subs
                     @ [Node_info_unref, Object_unref sb', Object_unref tb', Free_context])
          \<and> distinct regs
          \<and> set regs = returned_id env' tb' (cfg_source_object_path config) ` set pre'
          \<and> distinct subs
          \<and> set subs = set (subscription_ids env' sb' (cfg_source_bus_name config)
                               (cfg_source_object_path config) pre')"
    using mx dis led
    by - (rule exI [of _ "map fst (st_registered_objects st3)"],
        rule exI [of _ "map fst (st_signal_subscriptions st3)"], simp)
  from multi cross show ?thesis
    by (intro conjI) assumption+
qed


lemma demo_main_cross_second_fails:
  "main_cross (demo_env (Some [demo_iface, taken_iface, second_iface])) demo_config_cross
   = Inr (1, None,
          [Bus_get G_BUS_TYPE_SYSTEM, Bus_get G_BUS_TYPE_SESSION,
           Method_call 1 ''org.example.Source'' ''/org/example''
             ''org.freedesktop.DBus.Introspectable'' ''Introspect'' None (- 1),
           Register_object 2 ''/org/example'' ''com.example.Demo'' 1,
           Signal_subscribe 1 ''org.example.Source'' ''com.example.Demo'' ''Ping''
             ''/org/example'' 7,
           Register_object 2 ''/org/example'' ''com.example.Taken'' 0,
           Printerr ''[ERROR] Failed to register interface com.example.Taken: no such service'',
           Error_free err_no_service,
           Unregister_object 2 1, Signal_unsubscribe 1 7,
           Node_info_unref, Object_unref 1, Object_unref 2, Free_context])"
  by (simp add: main_cross_def init_proxy_state_def connect_to_buses_def
        fetch_introspection_data_def setup_proxy_interfaces_def cleanup_proxy_state_def
        validateProxyConfigOrExit_def loop_simps demo_env_def demo_iface_def taken_iface_def
        second_iface_def demo_config_cross_def err_no_service_def glib_defs)

lemma demo_main_last_fails:
  "main (demo_env (Some [demo_iface, taken_iface])) ''system'' ''session''
     ''org.example.Source'' ''/org/example'' ''org.example.Proxy''
   = Inr (0,
          [Bus_get G_BUS_TYPE_SYSTEM, Bus_get G_BUS_TYPE_SESSION,
           Method_call 1 ''org.example.Source'' ''/org/example''
             ''org.freedesktop.DBus.Introspectable'' ''Introspect'' None (- 1),
           Register_object 2 ''/org/example'' ''com.example.Demo'' 1,
           Signal_subscribe 1 ''org.example.Source'' ''com.example.Demo'' ''Ping''
             ''/org/example'' 7,
           Register_object 2 ''/org/example'' ''com.example.Taken'' 0,
           Printerr ''Failed to register interface com.example.Taken: no such service'',
           Error_free err_no_service,
           Own_name_on_connection 2 ''org.example.Proxy'', Main_loop_run,
           Signal_unsubscribe 1 7, Node_info_unref, Object_unref 1, Object_unref 2,
           Free_context])"
  by (simp add: main_def demo_setup_proxy_last_fails cleanup_proxy_def glib_defs)

theorem registration_failure_witness:
  "list_all (registered (demo_env (Some [demo_iface, taken_iface])) 2 ''/org/example'')
     [demo_iface]
   \<and> register_result (demo_env (Some [demo_iface, taken_iface])) 2 ''/org/example''
       (iface_name taken_iface) = Inl err_no_service
   \<and> main (demo_env (Some [demo_iface, taken_iface])) ''system'' ''session''
       ''org.example.Source'' ''/org/example'' ''org.example.Proxy''
     = Inr (0,
            [Bus_get G_BUS_TYPE_SYSTEM, Bus_get G_BUS_TYPE_SESSION,
             Method_call 1 ''org.example.Source'' ''/org/example''
               ''org.freedesktop.DBus.Introspectable'' ''Introspect'' None (- 1),
             Register_object 2 ''/org/example'' ''com.example.Demo'' 1,
             Signal_subscribe 1 ''org.example.Source'' ''com.example.Demo'' ''Ping''
               ''/org/example'' 7,
             Register_object 2 ''/org/example'' ''com.example.Taken'' 0,
             Printerr ''Failed to register interface com.example.Taken: no such service'',
             Error_free err_no_service,
             Own_name_on_connection 2 ''org.example.Proxy'', Main_loop_run,
             Signal_unsubscribe 1 7, Node_info_unref, Object_unref 1, Object_unref 2,
             Free_context])
   \<and> main_cross (demo_env (Some [demo_iface, taken_iface, second_iface])) demo_config_cross
     = Inr (1, None,
            [Bus_get G_BUS_TYPE_SYSTEM, Bus_get G_BUS_TYPE_SESSION,
             Method_call 1 ''org.example.Source'' ''/org/example''
               ''org.freedesktop.DBus.Introspectable'' ''Introspect'' None (- 1),
             Register_object 2 ''/org/example'' ''com.example.Demo'' 1,
             Signal_subscribe 1 ''org.example.Source'' ''com.example.Demo'' ''Ping''
               ''/org/example'' 7,
             Register_object 2 ''/org/example'' ''com.example.Taken'' 0,
             Printerr ''[ERROR] Failed to register interface com.example.Taken: no such service'',
             Error_free err_no_service,
             Unregister_object 2 1, Signal_unsubscribe 1 7,
             Node_info_unref, Object_unref 1, Object_unref 2, Free_context])"
proof -
  let ?e1 = "demo_env (Some [demo_iface, taken_iface])"
  let ?e2 = "demo_env (Some [demo_iface, taken_iface, second_iface])"
  have a1: "fst (create_connection ?e1 ''system'') = (Some 1, None)"
    by (simp add: create_connection_def g_bus_get_sync_def demo_env_def)
  have a2: "fst (create_connection ?e1 ''session'') = (Some 2, None)"
    by (simp add: create_connection_def g_bus_get_sync_def demo_env_def)
  have a3: "call_result ?e1 1 ''org.example.Source'' ''/org/example''
              ''org.freedesktop.DBus.Introspectable'' ''Introspect'' None
            = Inr (GV_tuple [GV_string ''<node/>''])"
    by (simp add: demo_env_def)
  have a4: "xml_result ?e1 ''<node/>'' = Inr \<lparr>interfaces = Some ([demo_iface] @ [taken_iface])\<rparr>"
    by (simp add: demo_env_def)
  have a5: "interfaces \<lparr>interfaces = Some ([demo_iface] @ [taken_iface])\<rparr>
              = Some ([demo_iface] @ [taken_iface])"
    by simp
  have a6: "list_all (registered ?e1 2 ''/org/example'') [demo_iface]"
    by (simp add: registered_def returned_id_def demo_env_def demo_iface_def)
  have a7: "register_result ?e1 2 ''/org/example'' (iface_name taken_iface) = Inl err_no_service"
    by (simp add: demo_env_def taken_iface_def)
  have b1: "validateProxyConfigOrExit demo_config_cross = None"
    by (simp add: validateProxyConfigOrExit_def demo_config_cross_def)
  have b2: "bus_get_result ?e2 (cfg_source_bus_type demo_config_cross) = Inr 1"
    by (simp add: demo_env_def demo_config_cross_def)
  have b3: "bus_get_result ?e2 (cfg_target_bus_type demo_config_cross) = Inr 2"
    by (simp add: demo_env_def demo_config_cross_def)
  have b4: "call_result ?e2 1 (cfg_source_bus_name demo_config_cross)
              (cfg_source_object_path demo_config_cross) ''org.freedesktop.DBus.Introspectable''
              ''Introspect'' None = Inr (GV_tuple [GV_string ''<node/>''])"
    by (simp add: demo_env_def demo_config_cross_def)
  have b5: "xml_result ?e2 ''<node/>''
              = Inr \<lparr>interfaces = Some ([demo_iface] @ taken_iface # [second_iface])\<rparr>"
    by (simp add: demo_env_def)
  have b6: "interfaces \<lparr>interfaces = Some ([demo_iface] @ taken_iface # [second_iface])\<rparr>
              = Some ([demo_iface] @ taken_iface # [second_iface])"
    by simp
  have b7: "list_all (registered ?e2 2 (cfg_source_object_path demo_config_cross)) [demo_iface]"
    by (simp add: registered_def returned_id_def demo_env_def demo_iface_def
          demo_config_cross_def)
  have b8: "register_result ?e2 2 (cfg_source_object_path demo_config_cross)
              (iface_name taken_iface) = Inl err_no_service"
    by (simp add: demo_env_def taken_iface_def)
  note t = registration_failure [OF a1 a2 a3 a4 a5 a6 a7 b1 b2 b3 b4 b5 b6 b7 b8,
      where proxy_service = "''org.example.Proxy''"]
  have run: ?thesis
    using a6 a7 by (simp add: demo_main_last_fails demo_main_cross_second_fails)
  from t show ?thesis
    by - (rule run)
qed

text \<open>
  C3 as the specification states it fails in the cross-bus proxy: the source has three
  interfaces, the first is registered and the registration of the second fails. The
  third is never tried, the first is unregistered again, the name is not requested and
  \<^verbatim>\<open>main\<close> ends with status 1.
\<close>

theorem registration_failure_counterexample:
  "main_cross (demo_env (Some [demo_iface, taken_iface, second_iface])) demo_config_cross
   = Inr (1, None,
          [Bus_get G_BUS_TYPE_SYSTEM, Bus_get G_BUS_TYPE_SESSION,
           Method_call 1 ''org.example.Source'' ''/org/example''
             ''org.freedesktop.DBus.Introspectable'' ''Introspect'' None (- 1),
           Register_object 2 ''/org/example'' ''com.example.Demo'' 1,
           Signal_subscribe 1 ''org.example.Source'' ''com.example.Demo'' ''Ping''
             ''/org/example'' 7,
           Register_object 2 ''/org/example'' ''com.example.Taken'' 0,
           Printerr ''[ERROR] Failed to register interface com.example.Taken: no such service'',
           Error_free err_no_service,
           Unregister_object 2 1, Signal_unsubscribe 1 7,
           Node_info_unref, Object_unref 1, Object_unref 2, Free_context])"
  by (rule demo_main_cross_second_fails)

section \<open>Teardown\<close>

text \<open>
  C9, as the code has it. \<^verbatim>\<open>cleanup_proxy_state\<close> of the cross-bus proxy releases all
  that the state holds. On a state with its two connections and the introspection data,
  it unregisters on the target bus every identifier of the table of registered objects,
  unsubscribes on the source bus every identifier of the table of subscriptions,
  releases the introspection data and the two connections, and frees the state. It
  leaves the global state NULL, whatever the state was, so a second call in a row does
  nothing and ends in the same state, and so does a call when the state is NULL already;
  on a state whose two tables are empty it unregisters and unsubscribes nothing.
  \<^verbatim>\<open>cleanup_proxy\<close> of the multi-bus proxy does nothing on NULL; given a context with
  its two connections and the introspection data, it unsubscribes every identifier of
  the context's list, unregisters the one registration the context holds, releases the
  introspection data and the two connections, and frees the context, which leaves the
  caller's pointer dangling.
\<close>

theorem cleanup_again:
  assumes "st_source_bus st = Some sb" and "st_target_bus st = Some tb"
    and "st_introspection_data st = Some info"
    and "source_bus ctx = Some sb'" and "target_bus ctx = Some tb'"
    and "introspection_data ctx = Some info'"
  shows "cleanup_proxy_state (Some st)
           = (None,
              map (Unregister_object tb) (map fst (st_registered_objects st))
              @ map (Signal_unsubscribe sb) (map fst (st_signal_subscriptions st))
              @ [Node_info_unref, Object_unref sb, Object_unref tb, Free_context])
       \<and> fst (cleanup_proxy_state proxy_state) = None
       \<and> cleanup_proxy_state (fst (cleanup_proxy_state proxy_state)) = (None, [])
       \<and> cleanup_proxy_state None = (None, [])
       \<and> (st_registered_objects st0 = [] \<and> st_signal_subscriptions st0 = []
            \<longrightarrow> filter is_release (snd (cleanup_proxy_state (Some st0))) = [])
       \<and> cleanup_proxy Null = Inr (Null, [])
       \<and> cleanup_proxy (Live ctx)
           = Inr (Freed,
                  map (Signal_unsubscribe sb') (signal_subscriptions ctx)
                  @ (if registration_id ctx > 0
                     then [Unregister_object tb' (registration_id ctx)] else [])
                  @ [Node_info_unref, Object_unref sb', Object_unref tb', Free_context])"
proof -
  have first: "cleanup_proxy_state (Some st)
           = (None,
              map (Unregister_object tb) (map fst (st_registered_objects st))
              @ map (Signal_unsubscribe sb) (map fst (st_signal_subscriptions st))
              @ [Node_info_unref, Object_unref sb, Object_unref tb, Free_context])"
    using assms(1-3)
    by (simp add: cleanup_proxy_state_def unregister_table unsubscribe_table)
  have null: "fst (cleanup_proxy_state proxy_state) = None"
    by (simp add: cleanup_proxy_state_def split: option.split)
  have again: "cleanup_proxy_state (fst (cleanup_proxy_state proxy_state)) = (None, [])"
    by (simp add: null) (simp add: cleanup_proxy_state_def)
  have none: "cleanup_proxy_state None = (None, [])"
    by (simp add: cleanup_proxy_state_def)
  have empty: "st_registered_objects st0 = [] \<and> st_signal_subscriptions st0 = []
            \<longrightarrow> filter is_release (snd (cleanup_proxy_state (Some st0))) = []"
    by (simp add: cleanup_proxy_state_def split: option.split)
  have cnull: "cleanup_proxy Null = Inr (Null, [])"
    by (simp add: cleanup_proxy_def)
  have live: "cleanup_proxy (Live ctx)
           = Inr (Freed,
                  map (Signal_unsubscribe sb') (signal_subscriptions ctx)
                  @ (if registration_id ctx > 0
                     then [Unregister_object tb' (registration_id ctx)] else [])
                  @ [Node_info_unref, Object_unref sb', Object_unref tb', Free_context])"
    using assms(4-6)
    by (simp add: cleanup_proxy_def unsubscribe_list g_dbus_connection_unregister_object_def)
  from first null again none empty cnull live show ?thesis
    by (intro conjI) assumption+
qed

text \<open>
  A state of the cross-bus proxy with one registration and one subscription, and a
  context of the multi-bus proxy with the same; the state that \<^verbatim>\<open>init_proxy_state\<close>
  makes has two empty tables.
\<close>

theorem cleanup_again_witness:
  "st_source_bus demo_state = Some 1 \<and> st_target_bus demo_state = Some 2
   \<and> source_bus demo_ctx = Some 1 \<and> target_bus demo_ctx = Some 2
   \<and> st_registered_objects (snd (init_proxy_state demo_config_cross)) = []
   \<and> st_signal_subscriptions (snd (init_proxy_state demo_config_cross)) = []
   \<and> cleanup_proxy_state (Some demo_state)
       = (None, [Unregister_object 2 1, Signal_unsubscribe 1 7, Node_info_unref,
                 Object_unref 1, Object_unref 2, Free_context])
   \<and> cleanup_proxy_state (fst (cleanup_proxy_state (Some demo_state))) = (None, [])
   \<and> filter is_release (snd (cleanup_proxy_state (Some (snd (init_proxy_state demo_config_cross)))))
       = []
   \<and> cleanup_proxy Null = Inr (Null, [])
   \<and> cleanup_proxy (Live demo_ctx)
       = Inr (Freed, [Signal_unsubscribe 1 7, Unregister_object 2 1, Node_info_unref,
                      Object_unref 1, Object_unref 2, Free_context])"
proof -
  have a: "st_source_bus demo_state = Some 1" "st_target_bus demo_state = Some 2"
    "st_introspection_data demo_state = Some \<lparr>interfaces = Some [demo_iface]\<rparr>"
    by (simp_all add: demo_state_def)
  have b: "source_bus demo_ctx = Some 1" "target_bus demo_ctx = Some 2"
    "introspection_data demo_ctx = Some \<lparr>interfaces = Some [demo_iface]\<rparr>"
    by (simp_all add: demo_ctx_def)
  have c: "st_registered_objects demo_state = [(1, ''com.example.Demo'')]"
    "st_signal_subscriptions demo_state
       = [(7, ''org.freedesktop.DBus.Properties.PropertiesChanged'')]"
    "signal_subscriptions demo_ctx = [7]" "registration_id demo_ctx = 1"
    by (simp_all add: demo_state_def demo_ctx_def)
  have d: "st_registered_objects (snd (init_proxy_state demo_config_cross)) = []"
    "st_signal_subscriptions (snd (init_proxy_state demo_config_cross)) = []"
    by (simp_all add: init_proxy_state_def)
  note t = cleanup_again [OF a b, where proxy_state = "Some demo_state"
      and ?st0.0 = "snd (init_proxy_state demo_config_cross)"]
  show ?thesis
    using a(1,2) b(1,2) d t by (simp add: c)
qed

text \<open>
  C9 as the specification states it fails in the multi-bus proxy: the first call frees
  the context, and a second call in a row reads the freed context.
\<close>

theorem cleanup_again_counterexample:
  "cleanup_proxy (Live demo_ctx)
     = Inr (Freed, [Signal_unsubscribe 1 7, Unregister_object 2 1, Node_info_unref,
                    Object_unref 1, Object_unref 2, Free_context])
   \<and> (case cleanup_proxy (Live demo_ctx) of
         Inl f \<Rightarrow> Inl f
       | Inr (p, tr) \<Rightarrow> cleanup_proxy p) = Inl Use_after_free"
  by (simp add: cleanup_proxy_def demo_ctx_def glib_defs)

text \<open>
  C2 fails in the multi-bus proxy. The source has two interfaces and both are registered
  on the target bus, under the identifiers 1 and 2. The context keeps one identifier,
  the last: at the end \<^verbatim>\<open>cleanup_proxy\<close> unregisters 2, and 1 is never unregistered.
\<close>

theorem cleanup_proxy_leaves_registration:
  "main (demo_env (Some [demo_iface, second_iface])) ''system'' ''session''
         ''org.example.Source'' ''/org/example'' ''org.example.Proxy''
       = Inr (0, [Bus_get G_BUS_TYPE_SYSTEM, Bus_get G_BUS_TYPE_SESSION,
                  Method_call 1 ''org.example.Source'' ''/org/example''
                    ''org.freedesktop.DBus.Introspectable'' ''Introspect'' None (- 1),
                  Register_object 2 ''/org/example'' ''com.example.Demo'' 1,
                  Signal_subscribe 1 ''org.example.Source'' ''com.example.Demo'' ''Ping''
                    ''/org/example'' 7,
                  Register_object 2 ''/org/example'' ''com.example.Second'' 2,
                  Own_name_on_connection 2 ''org.example.Proxy'', Main_loop_run,
                  Signal_unsubscribe 1 7, Unregister_object 2 2,
                  Node_info_unref, Object_unref 1, Object_unref 2, Free_context])"
  by (simp add: main_def setup_proxy_def create_connection_def cleanup_proxy_def
        demo_env_def demo_iface_def second_iface_def glib_defs loop_simps)

text \<open>
  The teardown of the cross-bus proxy is complete. Whatever \<^verbatim>\<open>setup_proxy_interfaces\<close>
  returns, when it started with empty tables, \<^verbatim>\<open>cleanup_proxy_state\<close> unregisters on the
  target bus exactly the identifiers of the registrations that succeeded, unsubscribes
  on the source bus exactly the identifiers of the subscriptions made, and leaves no
  state.
\<close>

lemma cleanup_proxy_state_releases_all:
  assumes "setup_proxy_interfaces env st = Inr (ok, st', tr)"
    and "st_source_bus st = Some sb" and "st_target_bus st = Some tb"
    and "st_registered_objects st = []" and "st_signal_subscriptions st = []"
  shows "fst (cleanup_proxy_state (Some st')) = None
       \<and> set (List.map_filter unregister_id_of (snd (cleanup_proxy_state (Some st'))))
           = set (List.map_filter register_id_of tr)
       \<and> set (List.map_filter unsubscribe_id_of (snd (cleanup_proxy_state (Some st'))))
           = set (List.map_filter subscribe_id_of tr)"
proof -
  from assms(1) obtain info where info: "st_introspection_data st = Some info"
    by (auto simp: setup_proxy_interfaces_def split: option.splits)
  show ?thesis
  proof (cases "interfaces info")
    case None
    with assms info show ?thesis
      using cleanup_proxy_state_ledger [OF assms(2,3)]
      by (auto simp: setup_proxy_interfaces_def log_error_def map_filter_simps
            cleanup_proxy_state_def)
  next
    case (Some ifaces)
    from assms(1) info Some obtain ok1 st1 tr1 where
      loop: "setup_proxy_interfaces_loop env ifaces st = Inr (ok1, st1, tr1)"
      by (auto simp: setup_proxy_interfaces_def split: sum.splits)
    have fr: "st_source_bus st1 = Some sb" "st_target_bus st1 = Some tb"
      using loop_cross_frame [OF loop assms(3)] assms(2,3) by simp_all
    have led: "fst ` set (st_registered_objects st1) = set (List.map_filter register_id_of tr1)"
      "fst ` set (st_signal_subscriptions st1) = set (List.map_filter subscribe_id_of tr1)"
      using loop_cross_ledger [OF loop assms(2,3)] assms(4,5) by simp_all
    show ?thesis
    proof (cases ok1)
      case False
      with assms(1) info Some loop have "st' = st1" "tr = tr1"
        by (simp_all add: setup_proxy_interfaces_def)
      with led cleanup_proxy_state_ledger [OF fr] show ?thesis
        by (simp add: cleanup_proxy_state_def)
    next
      case True
      let ?sid = "subscribe_result env sb (cfg_source_bus_name (st_config st1))
                    ''org.freedesktop.DBus.Properties'' ''PropertiesChanged''
                    (cfg_source_object_path (st_config st1))"
      let ?st2 = "st1\<lparr>st_signal_subscriptions :=
                        g_hash_table_insert (st_signal_subscriptions st1) ?sid
                          ''org.freedesktop.DBus.Properties.PropertiesChanged''\<rparr>"
      from True assms(1) info Some loop fr have st': "st' = ?st2"
        and tr: "tr = tr1 @ [Signal_subscribe sb (cfg_source_bus_name (st_config st1))
                              ''org.freedesktop.DBus.Properties'' ''PropertiesChanged''
                              (cfg_source_object_path (st_config st1)) ?sid]"
        by (simp_all add: setup_proxy_interfaces_def g_dbus_connection_signal_subscribe_def)
      have fr2: "st_source_bus ?st2 = Some sb" "st_target_bus ?st2 = Some tb"
        using fr by simp_all
      show ?thesis
        using cleanup_proxy_state_ledger [OF fr2] led
        by (simp add: st' tr map_filter_simps hash_table_keys cleanup_proxy_state_def)
    qed
  qed
qed

end
